theory Spec2Isabelle
  imports Main "HOL-Library.Word" "HOL-Library.Sublist"
begin

unbundle bit_operations_syntax

section \<open>Data model\<close>

text \<open>
  An IP address as \<^verbatim>\<open>boost::asio::ip::address\<close> holds it: either an IPv4 or an IPv6
  value. The default-constructed address is the IPv4 address 0.0.0.0.
\<close>

datatype address = V4 "32 word" | V6 "128 word"

fun is_v4 :: "address \<Rightarrow> bool" where
  "is_v4 (V4 _) = True"
| "is_v4 (V6 _) = False"

fun is_v6 :: "address \<Rightarrow> bool" where
  "is_v6 (V4 _) = False"
| "is_v6 (V6 _) = True"

fun is_unspecified :: "address \<Rightarrow> bool" where
  "is_unspecified (V4 a) = (a = 0)"
| "is_unspecified (V6 a) = (a = 0)"

text \<open>
  The flow tables of the access bridge. The enumeration itself is declared in
  \<^verbatim>\<open>AccessFlowManager.h\<close>; the constructors are listed in the order in which
  \<^verbatim>\<open>populateTableDescriptionMap\<close> and the pipeline description name them, with the
  entry table first and the drop table last.
\<close>

datatype table_id =
    DROP_LOG_TABLE_ID
  | SERVICE_BYPASS_TABLE_ID
  | GROUP_MAP_TABLE_ID
  | SYS_SEC_GRP_IN_TABLE_ID
  | SEC_GROUP_IN_TABLE_ID
  | SYS_SEC_GRP_OUT_TABLE_ID
  | SEC_GROUP_OUT_TABLE_ID
  | TAP_TABLE_ID
  | OUT_TABLE_ID
  | EXP_DROP_TABLE_ID

datatype mf_field = MFF_REG0 | MFF_REG5 | MFF_REG6 | MFF_REG7 | MFF_TUN_DST | MFF_VLAN_VID

text \<open>The connection-tracking state bits of \<^verbatim>\<open>FlowBuilder\<close>; a value or a mask is the
  set of the bits that are or-ed together.\<close>

datatype ct_flag = CT_TRACKED | CT_NEW | CT_ESTABLISHED | CT_RELATED | CT_REPLY | CT_INVALID

text \<open>A 64-bit value in network byte order: \<open>BE64 c\<close> is the encoding of the host value
  \<open>c\<close>, which is what \<^verbatim>\<open>ovs_htonll\<close> returns.\<close>

datatype ovs_be64 = BE64 "64 word"

definition ovs_htonll :: "64 word \<Rightarrow> ovs_be64" where
  "ovs_htonll c = BE64 c"

datatype CaptureReason = NO_MATCH | POLICY_DENY

datatype ClassAction =
    CA_DENY
  | CA_ALLOW
  | CA_REFLEX_FWD_TRACK
  | CA_REFLEX_FWD
  | CA_REFLEX_FWD_EST
  | CA_REFLEX_REV_TRACK
  | CA_REFLEX_REV_ALLOW
  | CA_REFLEX_REV_RELATED

text \<open>
  Modelled from the spec: the actions of a flow entry, which \<^verbatim>\<open>ActionBuilder\<close> (not among
  the sources) appends in call order. The interface description lists them as
  setReg, setMetadata(value, mask), pushVlan, popVlan, regMove, outputReg, output(port),
  setDscp, resubmit(port, tableId), controller, ct(flags, zoneReg, optTableBranch),
  dropLog(table, reason, cookie), permitLog(table, dropTable, cookie) and go(tableId).
  An argument the caller leaves to its default is \<open>None\<close>.
\<close>

datatype action =
    SetReg mf_field "32 word"
  | SetMetadata "64 word" "64 word"
  | PushVlan
  | PopVlan
  | RegMove mf_field mf_field
  | OutputReg mf_field
  | Output "32 word"
  | SetDscp "8 word"
  | Resubmit "32 word" nat
  | Controller
  | Conntrack bool mf_field "16 word option" "table_id option"
  | DropLog table_id "CaptureReason option" "64 word option"
  | PermitLog table_id table_id "64 word"
  | Go table_id

text \<open>
  Modelled from the spec: \<^verbatim>\<open>FlowBuilder\<close> (not among the sources) is the value-object
  constructor of one flow entry: priority, cookie, flags, a match made of typed
  predicates (in_port, reg[0..7], metadata/mask, ethType, ipSrc/ipDst with prefix, proto,
  tpSrc/tpDst with mask, tci with mask, conntrackState(value, mask), vlan,
  tcpFlags(value, mask), tunId) and the action list. A predicate that was never set is
  \<open>None\<close>; setting one again replaces it. \<^verbatim>\<open>build\<close> freezes the builder into the flow
  entry, so a flow entry is the builder's content.
\<close>

record FlowBuilder =
  fb_table :: "nat option"
  fb_priority :: "16 word"
  fb_cookie :: ovs_be64
  fb_flags :: "32 word"
  m_inPort :: "32 word option"
  m_reg :: "nat \<Rightarrow> 32 word option"
  m_metadata :: "(64 word \<times> 64 word) option"
  m_ethType :: "16 word option"
  m_proto :: "8 word option"
  m_ipSrc :: "(address \<times> 8 word option) option"
  m_ipDst :: "(address \<times> 8 word option) option"
  m_outerIpSrc :: "address option"
  m_outerIpDst :: "address option"
  m_tpSrc :: "(16 word \<times> 16 word option) option"
  m_tpDst :: "(16 word \<times> 16 word option) option"
  m_tci :: "(16 word \<times> 16 word) option"
  m_vlan :: "16 word option"
  m_ctState :: "(ct_flag set \<times> ct_flag set) option"
  m_tcpFlags :: "(16 word \<times> 16 word) option"
  m_tunId :: "64 word option"
  fb_actions :: "action list"

type_synonym FlowEntry = FlowBuilder
type_synonym FlowEntryList = "FlowEntry list"

definition FlowBuilder0 :: FlowBuilder where
  "FlowBuilder0 = \<lparr> fb_table = None, fb_priority = 0, fb_cookie = BE64 0, fb_flags = 0,
     m_inPort = None, m_reg = (\<lambda>_. None), m_metadata = None, m_ethType = None,
     m_proto = None, m_ipSrc = None, m_ipDst = None, m_outerIpSrc = None,
     m_outerIpDst = None, m_tpSrc = None, m_tpDst = None, m_tci = None, m_vlan = None,
     m_ctState = None, m_tcpFlags = None, m_tunId = None, fb_actions = [] \<rparr>"

definition add_act :: "action \<Rightarrow> FlowBuilder \<Rightarrow> FlowBuilder" where
  "add_act a f = f\<lparr>fb_actions := fb_actions f @ [a]\<rparr>"

definition reg :: "nat \<Rightarrow> 32 word \<Rightarrow> FlowBuilder \<Rightarrow> FlowBuilder" where
  "reg i v f = f\<lparr>m_reg := (m_reg f)(i := Some v)\<rparr>"

definition isTpDst :: "FlowBuilder \<Rightarrow> bool" where
  "isTpDst f = (m_tpDst f \<noteq> None)"

text \<open>
  The constants that the sources only declare (\<^verbatim>\<open>extern\<close> in
  \<^verbatim>\<open>FlowConstants.h\<close>) or take from headers that are not among them: they are
  parameters of the model.
\<close>

record flow_consts =
  meta_DROP_LOG :: "64 word"
  meta_out_MASK :: "64 word"
  meta_ACCESS_MASK :: "64 word"
  cookie_TABLE_DROP_FLOW :: ovs_be64
  cookie_DNS_RESPONSE_V4 :: ovs_be64
  cookie_DNS_RESPONSE_V6 :: ovs_be64
  MAX_POLICY_RULE_PRIORITY :: "16 word"
  OFPUTIL_FF_SEND_FLOW_REM :: "32 word"
  OFPP_NONE :: "32 word"
  TcpFlags_UNSPECIFIED :: "32 word"
  TcpFlags_FIN :: "32 word"
  TcpFlags_SYN :: "32 word"
  TcpFlags_RST :: "32 word"
  TcpFlags_ACK :: "32 word"
  TcpFlags_ESTABLISHED :: "32 word"

text \<open>The metadata values that \<^verbatim>\<open>FlowConstants.h\<close> defines.\<close>

definition access_meta_MASK :: "64 word" where "access_meta_MASK = 0x0300"
definition INGRESS_DIR :: "64 word" where "INGRESS_DIR = 0x100"
definition EGRESS_DIR :: "64 word" where "EGRESS_DIR = 0x200"
definition POP_VLAN :: "64 word" where "POP_VLAN = 0x1"
definition PUSH_VLAN :: "64 word" where "PUSH_VLAN = 0x2"
definition UNTAGGED_AND_PUSH_VLAN :: "64 word" where "UNTAGGED_AND_PUSH_VLAN = 0x3"

text \<open>The EtherType numbers (\<^verbatim>\<open>eth::type\<close> and \<^verbatim>\<open>EtherTypeEnumT\<close> carry the
  protocol's own numbers; unspecified is 0).\<close>

definition eth_ARP :: "16 word" where "eth_ARP = 0x0806"
definition eth_IP :: "16 word" where "eth_IP = 0x0800"
definition eth_IPV6 :: "16 word" where "eth_IPV6 = 0x86DD"
definition EtherT_UNSPECIFIED :: "16 word" where "EtherT_UNSPECIFIED = 0"
definition ArpOpc_UNSPECIFIED :: "8 word" where "ArpOpc_UNSPECIFIED = 0"

datatype ConnTrackEnumT = CONST_NORMAL | CONST_REFLEXIVE

datatype DirectionEnumT = CONST_BIDIRECTIONAL | CONST_IN | CONST_OUT

record L24Classifier =
  cls_uri :: string
  cls_arpOpc :: "8 word option"
  cls_etherT :: "16 word option"
  cls_prot :: "8 word option"
  cls_icmpType :: "8 word option"
  cls_icmpCode :: "8 word option"
  cls_sFromPort :: "16 word option"
  cls_sToPort :: "16 word option"
  cls_dFromPort :: "16 word option"
  cls_dToPort :: "16 word option"
  cls_tcpFlags :: "32 word option"
  cls_connectionTracking :: "ConnTrackEnumT option"

text \<open>A getter with a default: the stored value, or the default when the property is unset.\<close>

definition getOr :: "'a \<Rightarrow> 'a option \<Rightarrow> 'a" where
  "getOr d v = (case v of None \<Rightarrow> d | Some x \<Rightarrow> x)"

type_synonym Mask = "16 word \<times> 16 word"
type_synonym MaskList = "Mask list"

type_synonym subnet_t = "string \<times> 8 word"

record service_port_t =
  sp_address :: string
  sp_prefixLen :: "8 word"
  sp_proto :: "8 word"
  sp_port :: "16 word"

section \<open>FlowUtils\<close>

definition match_group :: "16 word \<Rightarrow> 32 word \<Rightarrow> 32 word \<Rightarrow> FlowBuilder \<Rightarrow> FlowBuilder" where
  "match_group prio svnid dvnid f =
     (let f1 = f\<lparr>fb_priority := prio\<rparr>;
          f2 = (if svnid \<noteq> 0 then reg 0 svnid f1 else f1)
      in if dvnid \<noteq> 0 then reg 2 dvnid f2 else f2)"

definition match_protocol :: "L24Classifier \<Rightarrow> FlowBuilder \<Rightarrow> FlowBuilder \<times> 16 word" where
  "match_protocol classifier f =
     (let arpOpc = getOr ArpOpc_UNSPECIFIED (cls_arpOpc classifier);
          ethT = getOr EtherT_UNSPECIFIED (cls_etherT classifier);
          f1 = (if arpOpc \<noteq> ArpOpc_UNSPECIFIED then f\<lparr>m_proto := Some arpOpc\<rparr> else f);
          f2 = (if ethT \<noteq> EtherT_UNSPECIFIED then f1\<lparr>m_ethType := Some ethT\<rparr> else f1);
          f3 = (case cls_prot classifier of
                  None \<Rightarrow> f2
                | Some p \<Rightarrow> f2\<lparr>m_proto := Some p\<rparr>)
      in (f3, ethT))"

definition match_tcp_flags :: "flow_consts \<Rightarrow> 32 word \<Rightarrow> FlowBuilder \<Rightarrow> FlowBuilder" where
  "match_tcp_flags K tcpFlags f =
     (let flags0 = (0 :: 16 word);
          flags1 = (if tcpFlags AND TcpFlags_FIN K \<noteq> 0 then flags0 OR 0x01 else flags0);
          flags2 = (if tcpFlags AND TcpFlags_SYN K \<noteq> 0 then flags1 OR 0x02 else flags1);
          flags3 = (if tcpFlags AND TcpFlags_RST K \<noteq> 0 then flags2 OR 0x04 else flags2);
          flags4 = (if tcpFlags AND TcpFlags_ACK K \<noteq> 0 then flags3 OR 0x10 else flags3)
      in f\<lparr>m_tcpFlags := Some (flags4, flags4)\<rparr>)"

definition ALL_sub :: subnet_t where
  "ALL_sub = ([], 0)"

definition compute_eff_sub :: "subnet_t list option \<Rightarrow> subnet_t list" where
  "compute_eff_sub sub = (case sub of Some s \<Rightarrow> s | None \<Rightarrow> [ALL_sub])"

definition servicePort ::
  "address \<Rightarrow> 8 word \<Rightarrow> 8 word \<Rightarrow> 16 word \<Rightarrow> FlowBuilder \<Rightarrow> FlowBuilder" where
  "servicePort ip prefixLen proto dport fb =
     (let prefixLen' = (if prefixLen = 0 \<and> \<not> is_unspecified ip
                        then (if is_v4 ip then 32 else 128) else prefixLen);
          fb1 = fb\<lparr>m_ipDst := Some (ip, Some prefixLen')\<rparr>
      in if dport = 0 then fb1
         else fb1\<lparr>m_proto := Some proto, m_tpDst := Some (dport, None)\<rparr>)"

text \<open>A \<^verbatim>\<open>flow_func\<close> is a bound functor or \<^verbatim>\<open>NULL\<close>; applying it returns false
  (here \<open>None\<close>, the builder untouched) or true with the builder extended.\<close>

type_synonym flow_func = "(FlowBuilder \<Rightarrow> 16 word \<Rightarrow> FlowBuilder option) option"

definition applyRemoteSub ::
  "address \<Rightarrow> 8 word \<Rightarrow> FlowBuilder \<Rightarrow> 16 word \<Rightarrow> FlowBuilder option" where
  "applyRemoteSub addr prefixLen fb ethType =
     (if is_v4 addr \<and> ethType \<noteq> eth_ARP \<and> ethType \<noteq> eth_IP then None
      else if is_v6 addr \<and> ethType \<noteq> eth_IPV6 then None
      else Some (fb\<lparr>m_ipSrc := Some (addr, Some prefixLen)\<rparr>))"

definition applyServicePort ::
  "address \<Rightarrow> 8 word \<Rightarrow> 8 word \<Rightarrow> 16 word \<Rightarrow> FlowBuilder \<Rightarrow> 16 word \<Rightarrow> FlowBuilder option" where
  "applyServicePort addr prefixLen proto port fb ethType =
     (if is_v4 addr \<and> ethType \<noteq> eth_ARP \<and> ethType \<noteq> eth_IP then None
      else if is_v6 addr \<and> ethType \<noteq> eth_IPV6 then None
      else Some (servicePort addr prefixLen proto port fb))"

text \<open>\<open>from_string\<close> stands for \<^verbatim>\<open>boost::asio::ip::address::from_string\<close>: \<open>None\<close> when
  it reports an error.\<close>

definition make_flow_functor_sub :: "(string \<Rightarrow> address option) \<Rightarrow> subnet_t \<Rightarrow> flow_func" where
  "make_flow_functor_sub from_string ss =
     (if fst ss = [] then None
      else case from_string (fst ss) of
             None \<Rightarrow> None
           | Some addr \<Rightarrow> Some (applyRemoteSub addr (snd ss)))"

definition make_flow_functor_sp ::
  "(string \<Rightarrow> address option) \<Rightarrow> service_port_t \<Rightarrow> flow_func" where
  "make_flow_functor_sp from_string ss =
     (if sp_address ss = [] then None
      else case from_string (sp_address ss) of
             None \<Rightarrow> None
           | Some addr \<Rightarrow> Some (applyServicePort addr (sp_prefixLen ss) (sp_proto ss) (sp_port ss)))"

definition apply_flow_func :: "flow_func \<Rightarrow> FlowBuilder \<Rightarrow> 16 word \<Rightarrow> FlowBuilder option" where
  "apply_flow_func func f etht = (case func of None \<Rightarrow> Some f | Some g \<Rightarrow> g f etht)"

definition add_l2classifier_entries ::
  "flow_consts \<Rightarrow> L24Classifier \<Rightarrow> ClassAction \<Rightarrow> bool \<Rightarrow> table_id \<Rightarrow> table_id \<Rightarrow> table_id
     \<Rightarrow> 16 word \<Rightarrow> 32 word \<Rightarrow> 64 word \<Rightarrow> 32 word \<Rightarrow> 32 word \<Rightarrow> bool
     \<Rightarrow> FlowEntryList \<Rightarrow> FlowEntryList" where
  "add_l2classifier_entries K clsfr a log nextTable currentTable dropTable priority flags cookie
       svnid dvnid isSystemRule entries =
     (if cls_prot clsfr \<noteq> None then entries
      else
        let ckbe = ovs_htonll cookie;
            svnid' = (if isSystemRule then 0 else svnid);
            dvnid' = (if isSystemRule then 0 else dvnid);
            f0 = FlowBuilder0\<lparr>fb_cookie := ckbe, fb_flags := flags\<rparr>;
            f1 = match_group priority svnid' dvnid' f0;
            f2 = fst (match_protocol clsfr f1);
            f3 = (if log then
                    (if a = CA_DENY
                     then add_act (Go nextTable)
                            (add_act (DropLog currentTable (Some POLICY_DENY) (Some cookie)) f2)
                     else add_act (Go nextTable)
                            (add_act (PermitLog currentTable dropTable cookie) f2))
                  else
                    (if a = CA_DENY
                     then add_act (Go nextTable) (add_act (SetMetadata 0 (meta_DROP_LOG K)) f2)
                     else add_act (Go nextTable) f2))
        in entries @ [f3])"

text \<open>
  Modelled from the spec: \<^verbatim>\<open>network::append\<close> (not among the sources) adds the subnets to
  the destination service ports "as service ports with port=0, proto=0", and then the
  named service ports, when given.
\<close>

definition subnet_as_service_port :: "subnet_t \<Rightarrow> service_port_t" where
  "subnet_as_service_port ss =
     \<lparr> sp_address = fst ss, sp_prefixLen = snd ss, sp_proto = 0, sp_port = 0 \<rparr>"

definition effDestSvcPorts :: "subnet_t list option \<Rightarrow> service_port_t list option \<Rightarrow> service_port_t list" where
  "effDestSvcPorts destSub destNamedAddresses =
     map subnet_as_service_port (compute_eff_sub destSub)
       @ (case destNamedAddresses of None \<Rightarrow> [] | Some n \<Rightarrow> n)"

text \<open>The port masks of a classifier. \<open>getMasks\<close> stands for \<^verbatim>\<open>RangeMask::getMasks\<close>,
  which appends the masks of a range to the list.\<close>

definition srcPorts ::
  "(16 word option \<Rightarrow> 16 word option \<Rightarrow> MaskList) \<Rightarrow> L24Classifier \<Rightarrow> MaskList" where
  "srcPorts getMasks clsfr =
     (let ms = (if getOr 0 (cls_prot clsfr) = 1
                   \<and> (cls_icmpType clsfr \<noteq> None \<or> cls_icmpCode clsfr \<noteq> None)
                then (case cls_icmpType clsfr of
                        None \<Rightarrow> []
                      | Some t \<Rightarrow> [(ucast t, NOT 0)])
                else getMasks (cls_sFromPort clsfr) (cls_sToPort clsfr))
      in if ms = [] then [(0x0, 0x0)] else ms)"

definition dstPorts ::
  "(16 word option \<Rightarrow> 16 word option \<Rightarrow> MaskList) \<Rightarrow> L24Classifier \<Rightarrow> MaskList" where
  "dstPorts getMasks clsfr =
     (let ms = (if getOr 0 (cls_prot clsfr) = 1
                   \<and> (cls_icmpType clsfr \<noteq> None \<or> cls_icmpCode clsfr \<noteq> None)
                then (case cls_icmpCode clsfr of
                        None \<Rightarrow> []
                      | Some c \<Rightarrow> [(ucast c, NOT 0)])
                else getMasks (cls_dFromPort clsfr) (cls_dToPort clsfr))
      in if ms = [] then [(0x0, 0x0)] else ms)"

definition tcpFlagsVec :: "flow_consts \<Rightarrow> L24Classifier \<Rightarrow> 32 word list" where
  "tcpFlagsVec K clsfr =
     (let tcpFlags = getOr (TcpFlags_UNSPECIFIED K) (cls_tcpFlags clsfr)
      in if tcpFlags AND TcpFlags_ESTABLISHED K \<noteq> 0
         then [0 + TcpFlags_ACK K, 0 + TcpFlags_RST K]
         else [tcpFlags])"

definition EtherT_IPV4 :: "16 word" where "EtherT_IPV4 = 0x0800"
definition EtherT_IPV6 :: "16 word" where "EtherT_IPV6 = 0x86DD"

text \<open>The body of the destination loop for \<^verbatim>\<open>CA_REFLEX_REV_RELATED\<close>: one entry that
  matches the EtherType only, or none (\<^verbatim>\<open>continue\<close>) for another EtherType.\<close>

definition related_flow ::
  "L24Classifier \<Rightarrow> table_id \<Rightarrow> 16 word \<Rightarrow> 32 word \<Rightarrow> ovs_be64 \<Rightarrow> 32 word \<Rightarrow> 32 word
     \<Rightarrow> FlowBuilder option" where
  "related_flow clsfr nextTable priority flags ckbe svnid dvnid =
     (let ethT = getOr EtherT_UNSPECIFIED (cls_etherT clsfr)
      in if ethT = EtherT_IPV4 \<or> ethT = EtherT_IPV6
         then
           let f1 = FlowBuilder0\<lparr>m_ethType := Some ethT\<rparr>;
               f2 = f1\<lparr>fb_cookie := ckbe\<rparr>;
               f3 = f2\<lparr>fb_flags := flags\<rparr>;
               f4 = f3\<lparr>m_ctState := Some ({CT_TRACKED, CT_RELATED, CT_REPLY},
                        {CT_TRACKED, CT_RELATED, CT_REPLY, CT_ESTABLISHED, CT_INVALID, CT_NEW})\<rparr>;
               f5 = match_group priority svnid dvnid f4
           in Some (add_act (Go nextTable) f5)
         else None)"

text \<open>
  The body of the innermost loop, for one source functor, destination functor, source
  port mask, destination port mask and TCP flag mask, in the three \<^verbatim>\<open>switch\<close>
  statements of the source: the connection-tracking match set before the group match,
  the action or the L3/L4 match (\<open>None\<close> where the source leaves the iteration with
  \<^verbatim>\<open>continue\<close>), and the final actions.
\<close>

definition ct_match :: "ClassAction \<Rightarrow> FlowBuilder \<Rightarrow> FlowBuilder" where
  "ct_match a f =
     (if a = CA_REFLEX_FWD_TRACK \<or> a = CA_REFLEX_REV_TRACK
      then f\<lparr>m_ctState := Some ({}, {CT_TRACKED})\<rparr>
      else if a = CA_REFLEX_REV_ALLOW
      then f\<lparr>m_ctState := Some ({CT_TRACKED, CT_ESTABLISHED, CT_REPLY},
              {CT_TRACKED, CT_ESTABLISHED, CT_REPLY, CT_INVALID, CT_NEW, CT_RELATED})\<rparr>
      else f)"

definition l34_match ::
  "flow_consts \<Rightarrow> ClassAction \<Rightarrow> bool \<Rightarrow> table_id \<Rightarrow> table_id \<Rightarrow> 64 word \<Rightarrow> 32 word
     \<Rightarrow> flow_func \<Rightarrow> flow_func \<Rightarrow> Mask \<Rightarrow> Mask \<Rightarrow> 32 word \<Rightarrow> 16 word
     \<Rightarrow> FlowBuilder \<Rightarrow> FlowBuilder option" where
  "l34_match K a log nextTable currentTable cookie tcpFlags src_func dst_func sm dm flagMask
       etht f =
     (if a = CA_DENY
      then Some (if log
                 then add_act (Go nextTable)
                        (add_act (DropLog currentTable (Some POLICY_DENY) (Some cookie)) f)
                 else add_act (Go nextTable) (add_act (SetMetadata 0 (meta_DROP_LOG K)) f))
      else if a = CA_ALLOW \<or> a = CA_REFLEX_FWD_TRACK \<or> a = CA_REFLEX_FWD
              \<or> a = CA_REFLEX_FWD_EST
      then
        let g1 = (if tcpFlags \<noteq> TcpFlags_UNSPECIFIED K
                  then match_tcp_flags K flagMask f else f)
        in case apply_flow_func src_func g1 etht of
             None \<Rightarrow> None
           | Some g2 \<Rightarrow>
               (case apply_flow_func dst_func g2 etht of
                  None \<Rightarrow> None
                | Some g3 \<Rightarrow>
                    let g4 = g3\<lparr>m_tpSrc := Some (fst sm, Some (snd sm))\<rparr>
                    in Some (if \<not> isTpDst g4
                             then g4\<lparr>m_tpDst := Some (fst dm, Some (snd dm))\<rparr>
                             else g4))
      else Some f)"

definition final_actions ::
  "ClassAction \<Rightarrow> bool \<Rightarrow> table_id \<Rightarrow> table_id \<Rightarrow> table_id \<Rightarrow> 64 word \<Rightarrow> bool
     \<Rightarrow> FlowBuilder \<Rightarrow> FlowBuilder" where
  "final_actions a log nextTable currentTable dropTable cookie isSystemRule f =
     (if a = CA_REFLEX_FWD_TRACK \<or> a = CA_REFLEX_REV_TRACK
      then add_act (Conntrack False MFF_REG6 (Some 0) (Some nextTable)) f
      else if a = CA_REFLEX_FWD
      then
        let h1 = f\<lparr>m_ctState := Some ({CT_TRACKED, CT_NEW}, {CT_TRACKED, CT_NEW})\<rparr>;
            h2 = (if \<not> isSystemRule
                  then
                    let h = add_act (Conntrack True MFF_REG6 None None) h1
                    in if log then add_act (PermitLog currentTable dropTable cookie) h
                       else h
                  else h1)
        in add_act (Go nextTable) h2
      else if a = CA_REFLEX_FWD_EST
      then
        let h1 = f\<lparr>m_ctState := Some ({CT_TRACKED, CT_ESTABLISHED},
                    {CT_TRACKED, CT_ESTABLISHED})\<rparr>;
            h2 = (if log then add_act (PermitLog currentTable dropTable cookie) h1 else h1)
        in add_act (Go nextTable) h2
      else if a = CA_REFLEX_REV_ALLOW \<or> a = CA_ALLOW
      then
        let h2 = (if log then add_act (PermitLog currentTable dropTable cookie) f else f)
        in add_act (Go nextTable) h2
      else f)"

definition classifier_flow ::
  "flow_consts \<Rightarrow> L24Classifier \<Rightarrow> ClassAction \<Rightarrow> bool \<Rightarrow> table_id \<Rightarrow> table_id \<Rightarrow> table_id
     \<Rightarrow> 16 word \<Rightarrow> 32 word \<Rightarrow> 64 word \<Rightarrow> 32 word \<Rightarrow> 32 word \<Rightarrow> bool
     \<Rightarrow> flow_func \<Rightarrow> flow_func \<Rightarrow> Mask \<Rightarrow> Mask \<Rightarrow> 32 word \<Rightarrow> FlowBuilder option" where
  "classifier_flow K clsfr a log nextTable currentTable dropTable priority flags cookie
       svnid dvnid isSystemRule src_func dst_func sm dm flagMask =
     (let tcpFlags = getOr (TcpFlags_UNSPECIFIED K) (cls_tcpFlags clsfr);
          f0 = FlowBuilder0\<lparr>fb_cookie := ovs_htonll cookie\<rparr>;
          f1 = f0\<lparr>fb_flags := flags\<rparr>;
          f2 = ct_match a f1;
          f3 = match_group priority svnid dvnid f2;
          f4 = fst (match_protocol clsfr f3);
          etht = snd (match_protocol clsfr f3)
      in case l34_match K a log nextTable currentTable cookie tcpFlags src_func dst_func
                sm dm flagMask etht f4 of
           None \<Rightarrow> None
         | Some f5 \<Rightarrow>
             Some (final_actions a log nextTable currentTable dropTable cookie isSystemRule f5))"

text \<open>The entries of the TCP-flag loop for one combination of source subnet, destination
  service port, source port mask and destination port mask.\<close>

definition classifier_combo ::
  "flow_consts \<Rightarrow> L24Classifier \<Rightarrow> ClassAction \<Rightarrow> bool \<Rightarrow> table_id \<Rightarrow> table_id \<Rightarrow> table_id
     \<Rightarrow> 16 word \<Rightarrow> 32 word \<Rightarrow> 64 word \<Rightarrow> 32 word \<Rightarrow> 32 word \<Rightarrow> bool
     \<Rightarrow> flow_func \<Rightarrow> flow_func \<Rightarrow> Mask \<Rightarrow> Mask \<Rightarrow> FlowEntryList" where
  "classifier_combo K clsfr a log nextTable currentTable dropTable priority flags cookie
       svnid dvnid isSystemRule src_func dst_func sm dm =
     List.map_filter
       (classifier_flow K clsfr a log nextTable currentTable dropTable priority flags cookie
          svnid dvnid isSystemRule src_func dst_func sm dm)
       (tcpFlagsVec K clsfr)"

definition add_classifier_entries ::
  "flow_consts \<Rightarrow> (string \<Rightarrow> address option) \<Rightarrow> (16 word option \<Rightarrow> 16 word option \<Rightarrow> MaskList)
     \<Rightarrow> L24Classifier \<Rightarrow> ClassAction \<Rightarrow> bool
     \<Rightarrow> subnet_t list option \<Rightarrow> subnet_t list option \<Rightarrow> service_port_t list option
     \<Rightarrow> table_id \<Rightarrow> table_id \<Rightarrow> table_id
     \<Rightarrow> 16 word \<Rightarrow> 32 word \<Rightarrow> 64 word \<Rightarrow> 32 word \<Rightarrow> 32 word \<Rightarrow> bool
     \<Rightarrow> FlowEntryList \<Rightarrow> FlowEntryList" where
  "add_classifier_entries K from_string getMasks clsfr a log sourceSub destSub destNamedAddresses
       nextTable currentTable dropTable priority flags cookie svnid dvnid isSystemRule entries =
     (let ckbe = ovs_htonll cookie;
          svnid' = (if isSystemRule then 0 else svnid);
          dvnid' = (if isSystemRule then 0 else dvnid)
      in entries @
         concat (map (\<lambda>ss.
           let src_func = make_flow_functor_sub from_string ss
           in concat (map (\<lambda>ds.
                let dst_func = make_flow_functor_sp from_string ds
                in if a = CA_REFLEX_REV_RELATED
                   then (case related_flow clsfr nextTable priority flags ckbe svnid' dvnid' of
                           None \<Rightarrow> []
                         | Some f \<Rightarrow> [f])
                   else concat (map (\<lambda>sm.
                          concat (map (\<lambda>dm.
                            classifier_combo K clsfr a log nextTable currentTable dropTable
                              priority flags cookie svnid' dvnid' isSystemRule
                              src_func dst_func sm dm)
                            (dstPorts getMasks clsfr)))
                          (srcPorts getMasks clsfr)))
                (effDestSvcPorts destSub destNamedAddresses)))
           (compute_eff_sub sourceSub)))"

section \<open>Reference notions for the verification\<close>

text \<open>The OpenFlow TCP flag bits that a value of the policy model's flag enumeration
  stands for: FIN is 0x01, SYN 0x02, RST 0x04 and ACK 0x10.\<close>

definition of_tcp_flags :: "flow_consts \<Rightarrow> 32 word \<Rightarrow> 16 word" where
  "of_tcp_flags K v =
     (if v AND TcpFlags_FIN K \<noteq> 0 then 0x01 else 0) OR
     (if v AND TcpFlags_SYN K \<noteq> 0 then 0x02 else 0) OR
     (if v AND TcpFlags_RST K \<noteq> 0 then 0x04 else 0) OR
     (if v AND TcpFlags_ACK K \<noteq> 0 then 0x10 else 0)"

text \<open>The values of the TCP flag enumeration are well formed: unspecified is 0, and the
  flags ACK and RST are non-zero bit patterns that share no bit with each other, with FIN
  or with SYN.\<close>

definition TcpFlagsEnumT_ok :: "flow_consts \<Rightarrow> bool" where
  "TcpFlagsEnumT_ok K =
     (TcpFlags_UNSPECIFIED K = 0
      \<and> TcpFlags_ACK K \<noteq> 0 \<and> TcpFlags_RST K \<noteq> 0
      \<and> TcpFlags_ACK K AND TcpFlags_FIN K = 0
      \<and> TcpFlags_ACK K AND TcpFlags_SYN K = 0
      \<and> TcpFlags_ACK K AND TcpFlags_RST K = 0
      \<and> TcpFlags_RST K AND TcpFlags_FIN K = 0
      \<and> TcpFlags_RST K AND TcpFlags_SYN K = 0)"

definition allow_family :: "ClassAction \<Rightarrow> bool" where
  "allow_family a =
     (a = CA_ALLOW \<or> a = CA_REFLEX_FWD_TRACK \<or> a = CA_REFLEX_FWD \<or> a = CA_REFLEX_FWD_EST)"

text \<open>A concrete choice of the constants, for evaluating the model on examples.\<close>

definition example_consts :: flow_consts where
  "example_consts = \<lparr> meta_DROP_LOG = 0x80, meta_out_MASK = 0xff, meta_ACCESS_MASK = 0x3ff,
     cookie_TABLE_DROP_FLOW = BE64 11, cookie_DNS_RESPONSE_V4 = BE64 12,
     cookie_DNS_RESPONSE_V6 = BE64 13, MAX_POLICY_RULE_PRIORITY = 8192,
     OFPUTIL_FF_SEND_FLOW_REM = 1, OFPP_NONE = 0xffff,
     TcpFlags_UNSPECIFIED = 0, TcpFlags_FIN = 1, TcpFlags_SYN = 2, TcpFlags_RST = 4,
     TcpFlags_ACK = 16, TcpFlags_ESTABLISHED = 32 \<rparr>"

definition example_classifier :: L24Classifier where
  "example_classifier = \<lparr> cls_uri = ''/PolicyUniverse/PolicySpace/t/GbpeL24Classifier/c/'',
     cls_arpOpc = None, cls_etherT = Some 0x0800, cls_prot = Some 6,
     cls_icmpType = None, cls_icmpCode = None,
     cls_sFromPort = None, cls_sToPort = None, cls_dFromPort = Some 80, cls_dToPort = Some 80,
     cls_tcpFlags = None, cls_connectionTracking = Some CONST_REFLEXIVE \<rparr>"

text \<open>An address parser for the examples: it knows one IPv4 and one IPv6 address.\<close>

definition example_from_string :: "string \<Rightarrow> address option" where
  "example_from_string s =
     (if s = ''10.0.0.0'' then Some (V4 0x0A000000)
      else if s = ''fd00::'' then Some (V6 (push_bit 120 0xfd))
      else None)"

section \<open>The objects the manager reads\<close>

record IPAddressMapping =
  ipm_mappedIP :: "string option"
  ipm_floatingIP :: "string option"
  ipm_egURI :: "string option"

text \<open>An endpoint as the handler reads it. The security groups are the URIs of the
  endpoint's set, in the order in which the set is iterated.\<close>

record Endpoint =
  ep_accessInterface :: "string option"
  ep_accessUplinkInterface :: "string option"
  ep_accessIfaceVlan :: "16 word option"
  ep_accessAllowUntagged :: bool
  ep_IPs :: "string list"
  ep_serviceIPs :: "string list"
  ep_IPAddressMappings :: "IPAddressMapping list"
  ep_DHCPv4Config :: bool
  ep_DHCPv6Config :: bool
  ep_interfaceName :: "string option"
  ep_securityGroups :: "string list"

record LearningBridgeIface =
  lb_interfaceName :: "string option"
  lb_trunkVlans :: "(16 word \<times> 16 word) list"

record PolicyRule =
  pr_direction :: DirectionEnumT
  pr_allow :: bool
  pr_log :: bool
  pr_priority :: "16 word"
  pr_l24Classifier :: L24Classifier
  pr_remoteSubnets :: "subnet_t list"
  pr_namedServicePorts :: "service_port_t list"

datatype DropLogModeEnumT = CONST_UNFILTERED_DROP_LOG | CONST_FLOW_BASED_DROP_LOG

record DropLogConfig =
  dlc_dropLogEnable :: "8 word option"
  dlc_dropLogMode :: "DropLogModeEnumT option"

record DropFlowConfig =
  dfc_ethType :: "16 word option"
  dfc_innerSrcAddress :: "string option"
  dfc_innerDstAddress :: "string option"
  dfc_outerSrcAddress :: "string option"
  dfc_outerDstAddress :: "string option"
  dfc_tunnelId :: "64 word option"
  dfc_ipProto :: "8 word option"
  dfc_srcPort :: "16 word option"
  dfc_dstPort :: "16 word option"

text \<open>
  What the manager reads from its collaborators, which are not among the sources: the
  constants, the address parsers, \<^verbatim>\<open>RangeMask::getMasks\<close>, the port mapper, the
  endpoint, learning-bridge and policy managers, the agent's settings and the two
  drop-log configuration objects of the model. A lookup that finds nothing is \<open>None\<close>;
  a set returned by a lookup is the list of its elements in iteration order.
\<close>

record env =
  env_consts :: flow_consts
  env_from_string :: "string \<Rightarrow> address option"
  env_cidr_from_string :: "string \<Rightarrow> (address \<times> 8 word) option"
  env_getMasks :: "16 word option \<Rightarrow> 16 word option \<Rightarrow> MaskList"
  portMapper_FindPort :: "string \<Rightarrow> 32 word"
  epMgr_getEndpoint :: "string \<Rightarrow> Endpoint option"
  epMgr_getEndpointsByAccessIface :: "string \<Rightarrow> string list"
  epMgr_getEndpointsByAccessUplink :: "string \<Rightarrow> string list"
  epMgr_getEndpointsByIface :: "string \<Rightarrow> string list"
  epMgr_getSecGrpSetsForSecGrp :: "string \<Rightarrow> string list list"
  epMgr_secGrpSetEmpty :: "string list \<Rightarrow> bool"
  lbMgr_getLBIfaceByIface :: "string \<Rightarrow> string list"
  lbMgr_getLBIface :: "string \<Rightarrow> LearningBridgeIface option"
  polMgr_getSecGroupRules :: "string \<Rightarrow> PolicyRule list"
  polMgr_getOpflexDomain :: string
  polMgr_secGroupExists :: "string \<Rightarrow> bool"
  agent_addL34FlowsWithoutSubnet :: bool
  resolve_DropLogConfig :: "string \<Rightarrow> DropLogConfig option"
  resolve_DropFlowConfig :: "string \<Rightarrow> DropFlowConfig option"

section \<open>The state of the manager and of its collaborators\<close>

text \<open>
  Modelled from the spec: \<^verbatim>\<open>IdGenerator\<close> (not among the sources) "allocates stable,
  small integer identifiers per namespace keyed by an opaque string" and "supports garbage
  collection via a liveness callback". A string keeps its identifier until the callback
  reports it dead; a string without one gets the next identifier of its namespace.
\<close>

record IdGenerator =
  idmap :: "string \<times> string \<Rightarrow> 32 word option"
  lastUsedId :: "string \<Rightarrow> 32 word"

definition getId :: "string \<Rightarrow> string \<Rightarrow> IdGenerator \<Rightarrow> 32 word \<times> IdGenerator" where
  "getId nmspc str g =
     (case idmap g (nmspc, str) of
        Some i \<Rightarrow> (i, g)
      | None \<Rightarrow>
          let i = lastUsedId g nmspc + 1
          in (i, g\<lparr>idmap := (idmap g)((nmspc, str) := Some i),
                    lastUsedId := (lastUsedId g)(nmspc := i)\<rparr>))"

definition collectGarbage ::
  "string \<Rightarrow> (string \<Rightarrow> string \<Rightarrow> bool) \<Rightarrow> IdGenerator \<Rightarrow> IdGenerator" where
  "collectGarbage nmspc cb g =
     g\<lparr>idmap := (\<lambda>k. if fst k = nmspc \<and> \<not> cb (fst k) (snd k) then None else idmap g k)\<rparr>"

text \<open>
  Modelled from the spec: \<^verbatim>\<open>CtZoneManager\<close> (not among the sources) "allocates a 16-bit
  connection-tracking zone per endpoint UUID; releases on endpoint removal". An endpoint
  keeps its zone until it is erased; when no zone is left the allocation fails with
  \<open>-1\<close>, which is what the handler tests for.
\<close>

record CtZoneManager =
  zones :: "string \<Rightarrow> 16 word option"
  lastZone :: "16 word"

definition ctZone_getId :: "string \<Rightarrow> CtZoneManager \<Rightarrow> 16 word \<times> CtZoneManager" where
  "ctZone_getId uuid z =
     (case zones z uuid of
        Some i \<Rightarrow> (i, z)
      | None \<Rightarrow>
          if lastZone z + 1 = - 1 \<or> lastZone z = - 1 then (- 1, z)
          else (lastZone z + 1,
                z\<lparr>zones := (zones z)(uuid := Some (lastZone z + 1)),
                  lastZone := lastZone z + 1\<rparr>))"

definition ctZone_erase :: "string \<Rightarrow> CtZoneManager \<Rightarrow> CtZoneManager" where
  "ctZone_erase uuid z = z\<lparr>zones := (zones z)(uuid := None)\<rparr>"

type_synonym TlvEntry = "nat \<times> nat \<times> nat \<times> nat"

text \<open>The calls that the manager makes on the switch manager, in order.\<close>

datatype sw_call =
    WriteFlow string table_id FlowEntryList
  | ClearFlows string table_id
  | WriteTlv string "TlvEntry list"
  | EnableSync

text \<open>The work that the manager hands to its task queue or to the IO service.\<close>

datatype task =
    HandleEndpointUpdate string
  | HandleDscpQosUpdate string "8 word"
  | HandleSecGrpSetUpdate "string list" string
  | HandleSecGrpUpdate string
  | HandlePortStatusUpdate string "32 word"

datatype severity = INFO | WARNING | ERROR

text \<open>
  The state: the members of \<^verbatim>\<open>AccessFlowManager\<close>, and of its collaborators what the
  manager changes. Modelled from the spec: the switch manager (not among the sources)
  keeps one flow set per owner key and table, "writeFlow(ownerKey, tableId, flows)
  replaces the owner's flows in that table" and "clearFlow(ownerKey, tableId) is
  equivalent to writeFlow with empty set"; the task queue keeps the dispatched work with
  its key until it runs. Of the log, the messages at the levels INFO, WARNING and ERROR are
  kept, each with the fixed text it starts with.
\<close>

record AccessFlowManager =
  flows :: "string \<times> table_id \<Rightarrow> FlowEntryList"
  tlvs :: "string \<Rightarrow> TlvEntry list"
  swcalls :: "sw_call list"
  idGen :: IdGenerator
  ctZoneManager :: CtZoneManager
  taskQueue :: "(string option \<times> task) list"
  logged :: "(severity \<times> string) list"
  conntrackEnabled :: bool
  stopping :: bool
  listening :: bool
  dropLogIface :: string
  dropLogDst :: address
  dropLogRemotePort :: "16 word"

definition writeFlow :: "string \<Rightarrow> table_id \<Rightarrow> FlowEntryList \<Rightarrow> AccessFlowManager \<Rightarrow> AccessFlowManager" where
  "writeFlow key t el s =
     s\<lparr>flows := (flows s)((key, t) := el), swcalls := swcalls s @ [WriteFlow key t el]\<rparr>"

definition clearFlows :: "string \<Rightarrow> table_id \<Rightarrow> AccessFlowManager \<Rightarrow> AccessFlowManager" where
  "clearFlows key t s =
     s\<lparr>flows := (flows s)((key, t) := []), swcalls := swcalls s @ [ClearFlows key t]\<rparr>"

definition writeTlv :: "string \<Rightarrow> TlvEntry list \<Rightarrow> AccessFlowManager \<Rightarrow> AccessFlowManager" where
  "writeTlv key el s =
     s\<lparr>tlvs := (tlvs s)(key := el), swcalls := swcalls s @ [WriteTlv key el]\<rparr>"

definition enableSync :: "AccessFlowManager \<Rightarrow> AccessFlowManager" where
  "enableSync s = s\<lparr>swcalls := swcalls s @ [EnableSync]\<rparr>"

definition LOG :: "severity \<Rightarrow> string \<Rightarrow> AccessFlowManager \<Rightarrow> AccessFlowManager" where
  "LOG lvl msg s = s\<lparr>logged := logged s @ [(lvl, msg)]\<rparr>"

definition dispatch :: "string option \<Rightarrow> task \<Rightarrow> AccessFlowManager \<Rightarrow> AccessFlowManager" where
  "dispatch key t s = s\<lparr>taskQueue := taskQueue s @ [(key, t)]\<rparr>"

definition ID_NMSPC_SECGROUP :: string where
  "ID_NMSPC_SECGROUP = ''secGroup''"

definition ID_NMSPC_SECGROUP_SET :: string where
  "ID_NMSPC_SECGROUP_SET = ''secGroupSet''"

definition VMM_DOMAIN_DN_PARTS :: nat where
  "VMM_DOMAIN_DN_PARTS = 4"

text \<open>The new manager, as the constructor leaves it.\<close>

definition new_AccessFlowManager :: "IdGenerator \<Rightarrow> CtZoneManager \<Rightarrow> AccessFlowManager" where
  "new_AccessFlowManager idGen0 ctZoneManager0 =
     \<lparr> flows = (\<lambda>_. []), tlvs = (\<lambda>_. []), swcalls = [], idGen = idGen0,
       ctZoneManager = ctZoneManager0, taskQueue = [], logged = [],
       conntrackEnabled = False, stopping = False, listening = False,
       dropLogIface = [], dropLogDst = V4 0, dropLogRemotePort = 0 \<rparr>"

section \<open>AccessFlowManager\<close>

fun getSecGrpSetId_loop :: "bool \<Rightarrow> string \<Rightarrow> string list \<Rightarrow> string" where
  "getSecGrpSetId_loop notfirst ss [] = ss"
| "getSecGrpSetId_loop notfirst ss (uri # secGrps) =
     getSecGrpSetId_loop True ((if notfirst then ss @ '','' else ss) @ uri) secGrps"

definition getSecGrpSetId :: "string list \<Rightarrow> string" where
  "getSecGrpSetId secGrps = getSecGrpSetId_loop False [] secGrps"

definition enableConnTrack :: "AccessFlowManager \<Rightarrow> AccessFlowManager" where
  "enableConnTrack s = s\<lparr>conntrackEnabled := True\<rparr>"

definition stop :: "AccessFlowManager \<Rightarrow> AccessFlowManager" where
  "stop s = s\<lparr>stopping := True, listening := False\<rparr>"

definition endpointUpdated :: "string \<Rightarrow> AccessFlowManager \<Rightarrow> AccessFlowManager" where
  "endpointUpdated uuid s =
     (if stopping s then s else dispatch (Some uuid) (HandleEndpointUpdate uuid) s)"

definition dscpQosUpdated :: "string \<Rightarrow> 8 word \<Rightarrow> AccessFlowManager \<Rightarrow> AccessFlowManager" where
  "dscpQosUpdated interface dscp s =
     (if stopping s then s else dispatch (Some interface) (HandleDscpQosUpdate interface dscp) s)"

definition secGroupSetUpdated :: "string list \<Rightarrow> AccessFlowManager \<Rightarrow> AccessFlowManager" where
  "secGroupSetUpdated secGrps s =
     (if stopping s then s
      else let id = getSecGrpSetId secGrps
           in dispatch (Some (''set:'' @ id)) (HandleSecGrpSetUpdate secGrps id) s)"

definition configUpdated :: "string \<Rightarrow> AccessFlowManager \<Rightarrow> AccessFlowManager" where
  "configUpdated configURI s = (if stopping s then s else enableSync s)"

definition secGroupUpdated :: "string \<Rightarrow> AccessFlowManager \<Rightarrow> AccessFlowManager" where
  "secGroupUpdated uri s =
     (if stopping s then s else dispatch (Some (''secgrp:'' @ uri)) (HandleSecGrpUpdate uri) s)"

definition portStatusUpdate :: "string \<Rightarrow> 32 word \<Rightarrow> AccessFlowManager \<Rightarrow> AccessFlowManager" where
  "portStatusUpdate portName portNo s =
     (if stopping s then s else dispatch None (HandlePortStatusUpdate portName portNo) s)"

definition setDropLog ::
  "env \<Rightarrow> string \<Rightarrow> string \<Rightarrow> 16 word \<Rightarrow> AccessFlowManager \<Rightarrow> AccessFlowManager" where
  "setDropLog E dropLogPort dropLogRemoteIp dropLogRemotePort' s =
     (let s1 = s\<lparr>dropLogIface := dropLogPort\<rparr>;
          s2 = (case env_from_string E dropLogRemoteIp of
                  None \<Rightarrow> LOG ERROR ''Invalid drop-log tunnel destination IP: '' s1
                | Some tunDst \<Rightarrow>
                    if is_v6 tunDst
                    then LOG ERROR ''IPv6 drop-log tunnel destinations are not supported'' s1
                    else LOG INFO ''DropLog port set to '' (s1\<lparr>dropLogDst := tunDst\<rparr>))
      in s2\<lparr>dropLogRemotePort := dropLogRemotePort'\<rparr>)"

subsection \<open>Endpoint flows\<close>

definition match_dhcp_req :: "bool \<Rightarrow> FlowBuilder \<Rightarrow> FlowBuilder" where
  "match_dhcp_req v4 fb =
     (let fb1 = fb\<lparr>m_proto := Some 17\<rparr>
      in if v4
         then fb1\<lparr>m_ethType := Some eth_IP, m_tpSrc := Some (68, None), m_tpDst := Some (67, None)\<rparr>
         else fb1\<lparr>m_ethType := Some eth_IPV6, m_tpSrc := Some (546, None),
                  m_tpDst := Some (547, None)\<rparr>)"

definition flowEmptySecGroup :: "flow_consts \<Rightarrow> 32 word \<Rightarrow> FlowEntry" where
  "flowEmptySecGroup K emptySecGrpSetId =
     (let noSecGrp = match_group (MAX_POLICY_RULE_PRIORITY K) emptySecGrpSetId 0 FlowBuilder0
      in add_act (Go TAP_TABLE_ID) noSecGrp)"

definition getPushVlanMeta :: "Endpoint \<Rightarrow> 64 word" where
  "getPushVlanMeta ep =
     (if ep_accessAllowUntagged ep then UNTAGGED_AND_PUSH_VLAN else PUSH_VLAN)"

definition flowBypassDhcpRequest ::
  "flow_consts \<Rightarrow> FlowEntryList \<Rightarrow> bool \<Rightarrow> bool \<Rightarrow> 32 word \<Rightarrow> 32 word \<Rightarrow> Endpoint
     \<Rightarrow> FlowEntryList" where
  "flowBypassDhcpRequest K el v4 skip_pop_vlan inport outport ep =
     (let vlan = ep_accessIfaceVlan ep;
          fb1 = (if vlan \<noteq> None \<and> \<not> skip_pop_vlan
                 then FlowBuilder0\<lparr>fb_priority := 201, m_inPort := Some inport\<rparr>
                 else FlowBuilder0\<lparr>fb_priority := 200, m_inPort := Some inport\<rparr>);
          fb2 = match_dhcp_req v4 fb1;
          fb3 = add_act (SetReg MFF_REG7 outport) fb2;
          fb4 = (case vlan of
                   Some v \<Rightarrow>
                     if \<not> skip_pop_vlan
                     then add_act (SetMetadata (POP_VLAN OR EGRESS_DIR) (meta_ACCESS_MASK K))
                            (fb3\<lparr>m_vlan := Some v\<rparr>)
                     else fb3
                 | None \<Rightarrow> fb3);
          fb5 = (if vlan = None \<and> \<not> skip_pop_vlan
                 then add_act (SetMetadata EGRESS_DIR access_meta_MASK) fb4
                 else fb4);
          fb6 = (if skip_pop_vlan
                 then add_act (SetMetadata EGRESS_DIR access_meta_MASK)
                        (fb5\<lparr>m_tci := Some (0, 0x1fff)\<rparr>)
                 else fb5)
      in el @ [add_act (Go TAP_TABLE_ID) fb6])"

definition flowBypassFloatingIP ::
  "flow_consts \<Rightarrow> FlowEntryList \<Rightarrow> 32 word \<Rightarrow> 32 word \<Rightarrow> bool \<Rightarrow> bool \<Rightarrow> address \<Rightarrow> Endpoint
     \<Rightarrow> FlowEntryList" where
  "flowBypassFloatingIP K el inport outport in' skip_pop_vlan floatingIp ep =
     (let vlan = ep_accessIfaceVlan ep;
          fb1 = (if vlan \<noteq> None \<and> \<not> skip_pop_vlan
                 then FlowBuilder0\<lparr>fb_priority := 201, m_inPort := Some inport\<rparr>
                 else FlowBuilder0\<lparr>fb_priority := 200, m_inPort := Some inport\<rparr>);
          fb2 = (if is_v4 floatingIp then fb1\<lparr>m_ethType := Some eth_IP\<rparr>
                 else fb1\<lparr>m_ethType := Some eth_IPV6\<rparr>);
          fb3 = (if in' then fb2\<lparr>m_ipSrc := Some (floatingIp, None)\<rparr>
                 else fb2\<lparr>m_ipDst := Some (floatingIp, None)\<rparr>);
          fb4 = add_act (SetReg MFF_REG7 outport) fb3;
          fb5 = (case vlan of
                   Some v \<Rightarrow>
                     if \<not> skip_pop_vlan
                     then
                       (if in'
                        then add_act (SetMetadata (getPushVlanMeta ep OR INGRESS_DIR)
                                        (meta_ACCESS_MASK K))
                               (add_act (SetReg MFF_REG5 (ucast v)) fb4)
                        else add_act (SetMetadata (POP_VLAN OR EGRESS_DIR) (meta_ACCESS_MASK K))
                               (fb4\<lparr>m_vlan := Some v\<rparr>))
                     else fb4
                 | None \<Rightarrow> fb4);
          fb6 = (if vlan = None \<and> \<not> skip_pop_vlan
                 then add_act (SetMetadata (if in' then INGRESS_DIR else EGRESS_DIR)
                                 access_meta_MASK) fb5
                 else fb5);
          fb7 = (if skip_pop_vlan
                 then add_act (SetMetadata (if in' then INGRESS_DIR else EGRESS_DIR)
                                 access_meta_MASK)
                        (if \<not> in' then fb6\<lparr>m_tci := Some (0, 0x1fff)\<rparr> else fb6)
                 else fb6)
      in el @ [add_act (Go TAP_TABLE_ID) fb7])"

text \<open>The two flows of \<^verbatim>\<open>flowBypassServiceIP\<close> for one endpoint address and one
  service address.\<close>

definition serviceIP_flows ::
  "flow_consts \<Rightarrow> 32 word \<Rightarrow> 32 word \<Rightarrow> Endpoint \<Rightarrow> address \<times> 8 word \<Rightarrow> address
     \<Rightarrow> FlowEntryList" where
  "serviceIP_flows K accessPort uplinkPort ep cidr serviceAddr =
     (let ingress1 = add_act (SetReg MFF_REG7 accessPort)
            (FlowBuilder0\<lparr>fb_priority := 10, m_ethType := Some eth_IP,
               m_inPort := Some uplinkPort, m_ipSrc := Some (serviceAddr, None),
               m_ipDst := Some (fst cidr, Some (snd cidr))\<rparr>);
          ingress2 = (case ep_accessIfaceVlan ep of
                        Some v \<Rightarrow>
                          add_act (SetMetadata (PUSH_VLAN OR INGRESS_DIR) (meta_ACCESS_MASK K))
                            (add_act (SetReg MFF_REG5 (ucast v)) ingress1)
                      | None \<Rightarrow> add_act (SetMetadata INGRESS_DIR access_meta_MASK) ingress1);
          ingress = add_act (Go TAP_TABLE_ID) ingress2;
          egress1 = add_act (SetReg MFF_REG7 uplinkPort)
            (FlowBuilder0\<lparr>fb_priority := 10, m_ethType := Some eth_IP,
               m_inPort := Some accessPort, m_ipSrc := Some (fst cidr, Some (snd cidr)),
               m_ipDst := Some (serviceAddr, None)\<rparr>);
          egress2 = (case ep_accessIfaceVlan ep of
                       Some v \<Rightarrow>
                         add_act (SetMetadata (POP_VLAN OR EGRESS_DIR) (meta_ACCESS_MASK K))
                           (egress1\<lparr>m_vlan := Some v\<rparr>)
                     | None \<Rightarrow>
                         add_act (SetMetadata EGRESS_DIR access_meta_MASK)
                           (egress1\<lparr>m_tci := Some (0, 0x1fff)\<rparr>));
          egress = add_act (Go TAP_TABLE_ID) egress2
      in [ingress, egress])"

definition flowBypassServiceIP ::
  "env \<Rightarrow> FlowEntryList \<Rightarrow> 32 word \<Rightarrow> 32 word \<Rightarrow> Endpoint \<Rightarrow> FlowEntryList" where
  "flowBypassServiceIP E el accessPort uplinkPort ep =
     el @ concat (map (\<lambda>epipStr.
            case env_cidr_from_string E epipStr of
              None \<Rightarrow> []
            | Some cidr \<Rightarrow>
                concat (map (\<lambda>svcipStr.
                  case env_from_string E svcipStr of
                    None \<Rightarrow> []
                  | Some serviceAddr \<Rightarrow>
                      serviceIP_flows (env_consts E) accessPort uplinkPort ep cidr serviceAddr)
                  (ep_serviceIPs ep)))
          (ep_IPs ep))"

text \<open>The masks of the VLAN ranges trunked by the learning-bridge interfaces of the
  endpoint's interface.\<close>

definition trunkVlans :: "env \<Rightarrow> Endpoint \<Rightarrow> MaskList" where
  "trunkVlans E ep =
     (case ep_interfaceName ep of
        None \<Rightarrow> []
      | Some ifaceName \<Rightarrow>
          concat (map (\<lambda>lbiUuid.
            case lbMgr_getLBIface E lbiUuid of
              None \<Rightarrow> []
            | Some iface \<Rightarrow>
                concat (map (\<lambda>range. env_getMasks E (Some (fst range)) (Some (snd range)))
                  (lb_trunkVlans iface)))
            (lbMgr_getLBIfaceByIface E ifaceName)))"

definition trunk_flows :: "32 word \<Rightarrow> 32 word \<Rightarrow> Mask \<Rightarrow> FlowEntryList" where
  "trunk_flows accessPort uplinkPort m =
     (let tci = 0x1000 OR fst m;
          mask = 0x1000 OR (0xfff AND snd m)
      in [add_act (Output uplinkPort)
            (FlowBuilder0\<lparr>fb_priority := 500, m_inPort := Some accessPort,
               m_tci := Some (tci, mask)\<rparr>),
          add_act (Output accessPort)
            (FlowBuilder0\<lparr>fb_priority := 500, m_inPort := Some uplinkPort,
               m_tci := Some (tci, mask)\<rparr>)])"

text \<open>The flows of one floating-IP mapping; none where the source leaves the iteration
  with \<^verbatim>\<open>continue\<close>.\<close>

definition floatingIP_flows ::
  "env \<Rightarrow> 32 word \<Rightarrow> 32 word \<Rightarrow> Endpoint \<Rightarrow> IPAddressMapping \<Rightarrow> FlowEntryList" where
  "floatingIP_flows E accessPort uplinkPort ep ipm =
     (case ipm_mappedIP ipm of
        None \<Rightarrow> []
      | Some mappedStr \<Rightarrow>
          if ipm_egURI ipm = None then []
          else
            (case env_from_string E mappedStr of
               None \<Rightarrow> []
             | Some mappedIp \<Rightarrow>
                 let floating = (case ipm_floatingIP ipm of
                                   None \<Rightarrow> Some (V4 0)
                                 | Some floatingStr \<Rightarrow>
                                     (case env_from_string E floatingStr of
                                        None \<Rightarrow> None
                                      | Some floatingIp \<Rightarrow>
                                          if is_v4 floatingIp \<noteq> is_v4 mappedIp then None
                                          else if is_unspecified floatingIp then None
                                          else Some floatingIp))
                 in case floating of
                      None \<Rightarrow> []
                    | Some floatingIp \<Rightarrow>
                        let K = env_consts E;
                            el1 = flowBypassFloatingIP K [] accessPort uplinkPort False False
                                    floatingIp ep;
                            el2 = flowBypassFloatingIP K el1 uplinkPort accessPort True False
                                    floatingIp ep
                        in if ep_accessAllowUntagged ep \<and> ep_accessIfaceVlan ep \<noteq> None
                           then
                             let el3 = flowBypassFloatingIP K el2 accessPort uplinkPort False True
                                         floatingIp ep
                             in flowBypassFloatingIP K el3 uplinkPort accessPort True True
                                  floatingIp ep
                           else el2))"

text \<open>The flows that \<^verbatim>\<open>handleEndpointUpdate\<close> builds for the group-map table when both
  ports are known.\<close>

definition groupMap_flows ::
  "env \<Rightarrow> Endpoint \<Rightarrow> 32 word \<Rightarrow> 32 word \<Rightarrow> 32 word \<Rightarrow> 16 word \<Rightarrow> FlowEntryList" where
  "groupMap_flows E ep accessPort uplinkPort secGrpSetId zoneId =
     (let K = env_consts E;
          vlan = ep_accessIfaceVlan ep;
          in1 = FlowBuilder0\<lparr>fb_priority := 100, m_inPort := Some accessPort\<rparr>;
          in2 = (if zoneId \<noteq> - 1 then add_act (SetReg MFF_REG6 (ucast zoneId)) in1 else in1);
          in3 = add_act (SetReg MFF_REG7 uplinkPort) (add_act (SetReg MFF_REG0 secGrpSetId) in2);
          in4 = (case vlan of
                   Some v \<Rightarrow>
                     add_act (SetMetadata (POP_VLAN OR EGRESS_DIR) (meta_ACCESS_MASK K))
                       (in3\<lparr>m_vlan := Some v\<rparr>)
                 | None \<Rightarrow>
                     add_act (SetMetadata EGRESS_DIR access_meta_MASK)
                       (in3\<lparr>m_tci := Some (0, 0x1fff)\<rparr>));
          el1 = [add_act (Go SYS_SEC_GRP_OUT_TABLE_ID) in4];
          el2 = (if ep_accessAllowUntagged ep \<and> vlan \<noteq> None
                 then
                   let s1 = FlowBuilder0\<lparr>fb_priority := 99, m_inPort := Some accessPort,
                              m_tci := Some (0, 0x1fff)\<rparr>;
                       s2 = (if zoneId \<noteq> - 1 then add_act (SetReg MFF_REG6 (ucast zoneId)) s1
                             else s1);
                       s3 = add_act (Go SYS_SEC_GRP_OUT_TABLE_ID)
                              (add_act (SetMetadata EGRESS_DIR access_meta_MASK)
                                 (add_act (SetReg MFF_REG7 uplinkPort)
                                    (add_act (SetReg MFF_REG0 secGrpSetId) s2)))
                   in el1 @ [s3]
                 else el1);
          el3 = (if ep_DHCPv4Config ep
                 then
                   let d = flowBypassDhcpRequest K el2 True False accessPort uplinkPort ep
                   in if ep_accessAllowUntagged ep \<and> vlan \<noteq> None
                      then flowBypassDhcpRequest K d True True accessPort uplinkPort ep
                      else d
                 else el2);
          el4 = (if ep_DHCPv6Config ep
                 then
                   let d = flowBypassDhcpRequest K el3 False False accessPort uplinkPort ep
                   in if ep_accessAllowUntagged ep \<and> vlan \<noteq> None
                      then flowBypassDhcpRequest K d False True accessPort uplinkPort ep
                      else d
                 else el3);
          out1 = (if zoneId \<noteq> - 1 then add_act (SetReg MFF_REG6 (ucast zoneId)) FlowBuilder0
                  else FlowBuilder0);
          out2 = add_act (SetReg MFF_REG7 accessPort)
                   (add_act (SetReg MFF_REG0 secGrpSetId)
                      (out1\<lparr>fb_priority := 100, m_inPort := Some uplinkPort\<rparr>));
          out3 = (case vlan of
                    Some v \<Rightarrow>
                      add_act (SetMetadata (getPushVlanMeta ep OR INGRESS_DIR) (meta_ACCESS_MASK K))
                        (add_act (SetReg MFF_REG5 (ucast v)) out2)
                  | None \<Rightarrow> add_act (SetMetadata INGRESS_DIR access_meta_MASK) out2);
          el5 = el4 @ [add_act (Go SYS_SEC_GRP_IN_TABLE_ID) out3];
          el6 = el5 @ concat (map (trunk_flows accessPort uplinkPort) (trunkVlans E ep))
      in el6 @ concat (map (floatingIP_flows E accessPort uplinkPort ep)
                         (ep_IPAddressMappings ep)))"

definition handleEndpointUpdate :: "env \<Rightarrow> string \<Rightarrow> AccessFlowManager \<Rightarrow> AccessFlowManager" where
  "handleEndpointUpdate E uuid s =
     (case epMgr_getEndpoint E uuid of
           None \<Rightarrow>
             let s1 = clearFlows uuid GROUP_MAP_TABLE_ID s;
                 s2 = clearFlows uuid SERVICE_BYPASS_TABLE_ID s1
             in if conntrackEnabled s2
                then s2\<lparr>ctZoneManager := ctZone_erase uuid (ctZoneManager s2)\<rparr>
                else s2
         | Some ep \<Rightarrow>
             let K = env_consts E;
                 accessPort = (case ep_accessInterface ep of
                                 None \<Rightarrow> OFPP_NONE K
                               | Some accessIface \<Rightarrow> portMapper_FindPort E accessIface);
                 uplinkPort = (case ep_accessUplinkInterface ep of
                                 None \<Rightarrow> OFPP_NONE K
                               | Some uplinkIface \<Rightarrow> portMapper_FindPort E uplinkIface);
                 (secGrpSetId, g) = getId ID_NMSPC_SECGROUP_SET
                                      (getSecGrpSetId (ep_securityGroups ep)) (idGen s);
                 s1 = s\<lparr>idGen := g\<rparr>;
                 (zoneId, s2) =
                   (if conntrackEnabled s1
                    then
                      let (z, zm) = ctZone_getId uuid (ctZoneManager s1);
                          sz = s1\<lparr>ctZoneManager := zm\<rparr>
                      in (z, if z = - 1
                             then LOG ERROR ''Could not allocate connection tracking zone for '' sz
                             else sz)
                    else (- 1, s1));
                 el = (if accessPort \<noteq> OFPP_NONE K \<and> uplinkPort \<noteq> OFPP_NONE K
                       then groupMap_flows E ep accessPort uplinkPort secGrpSetId zoneId
                       else []);
                 skipServiceFlows = (if accessPort \<noteq> OFPP_NONE K \<and> uplinkPort \<noteq> OFPP_NONE K
                                     then flowBypassServiceIP E [] accessPort uplinkPort ep
                                     else []);
                 s3 = writeFlow uuid GROUP_MAP_TABLE_ID el s2
             in writeFlow uuid SERVICE_BYPASS_TABLE_ID skipServiceFlows s3)"

subsection \<open>Security-group flows\<close>

text \<open>\<^verbatim>\<open>boost::split\<close> on one separator character: the tokens between the separators,
  empty tokens included, so that the empty string has one (empty) token.\<close>

fun split :: "char \<Rightarrow> string \<Rightarrow> string list" where
  "split d [] = [[]]"
| "split d (c # cs) =
     (if c = d then [] # split d cs
      else case split d cs of
             [] \<Rightarrow> [[c]]
           | t # ts \<Rightarrow> (c # t) # ts)"

text \<open>\<^verbatim>\<open>uri.find(name) != std::string::npos\<close>: the name occurs in the string at some
  position.\<close>

fun starts_with :: "string \<Rightarrow> string \<Rightarrow> bool" where
  "starts_with [] s = True"
| "starts_with (c # cs) [] = False"
| "starts_with (c # cs) (d # ds) = (c = d \<and> starts_with cs ds)"

fun find_str :: "string \<Rightarrow> string \<Rightarrow> bool" where
  "find_str name [] = (name = [])"
| "find_str name (c # cs) = (starts_with name (c # cs) \<or> find_str name cs)"

definition checkIfSystemSecurityGroup :: "env \<Rightarrow> string \<Rightarrow> bool" where
  "checkIfSystemSecurityGroup E uri =
     (let opflex_domain = polMgr_getOpflexDomain E;
          parts = split CHR ''/'' opflex_domain;
          systemSgName =
            (if length parts = VMM_DOMAIN_DN_PARTS
             then
               let ctrlr = parts ! 2;
                   ctrlr_parts = split CHR ''-'' ctrlr
               in if length ctrlr_parts = 3
                  then (ctrlr_parts ! 2) @ ''_SystemSecurityGroup''
                  else ''_SystemSecurityGroup''
             else ''_SystemSecurityGroup'')
      in if find_str systemSgName uri then True else False)"

text \<open>
  The body of the rule loop of \<^verbatim>\<open>handleSecGrpSetUpdate\<close> after the cookie is
  allocated: the entries that one rule appends to the ingress list and to the egress list
  of its group.
\<close>

definition rule_entries ::
  "env \<Rightarrow> 32 word \<Rightarrow> table_id \<Rightarrow> table_id \<Rightarrow> table_id \<Rightarrow> table_id \<Rightarrow> bool \<Rightarrow> 64 word
     \<Rightarrow> PolicyRule \<Rightarrow> FlowEntryList \<times> FlowEntryList \<Rightarrow> FlowEntryList \<times> FlowEntryList" where
  "rule_entries E secGrpSetId ingress_table egress_table after_ingress_table after_egress_table
       isSystemRule secGrpCookie pc refs =
     (let K = env_consts E;
          secGrpInRef = fst refs;
          secGrpOutRef = snd refs;
          dir = pr_direction pc;
          cls = pr_l24Classifier pc;
          nonempty = (pr_remoteSubnets pc \<noteq> [] \<or> pr_namedServicePorts pc \<noteq> []);
          remoteSubs = (if nonempty then Some (pr_remoteSubnets pc) else None);
          namedSvcPorts = (if nonempty then Some (pr_namedServicePorts pc) else None);
          skipL34 = (if nonempty then False else \<not> agent_addL34FlowsWithoutSubnet E);
          a = (if pr_allow pc
               then (if getOr CONST_NORMAL (cls_connectionTracking cls) = CONST_REFLEXIVE
                     then CA_REFLEX_FWD else CA_ALLOW)
               else CA_DENY);
          log = pr_log pc;
          prio = pr_priority pc;
          fl = OFPUTIL_FF_SEND_FLOW_REM K;
          l2 = add_l2classifier_entries K cls;
          ace = add_classifier_entries K (env_from_string E) (env_getMasks E) cls
      in if skipL34
         then
           let in1 = (if dir = CONST_BIDIRECTIONAL \<or> dir = CONST_IN
                      then (if a = CA_DENY
                            then l2 a log EXP_DROP_TABLE_ID ingress_table EXP_DROP_TABLE_ID prio fl
                                   secGrpCookie secGrpSetId 0 isSystemRule secGrpInRef
                            else l2 a log after_ingress_table ingress_table EXP_DROP_TABLE_ID
                                   prio fl secGrpCookie secGrpSetId 0 isSystemRule secGrpInRef)
                      else secGrpInRef);
               out1 = (if dir = CONST_BIDIRECTIONAL \<or> dir = CONST_OUT
                       then (if a = CA_DENY
                             then l2 a log EXP_DROP_TABLE_ID egress_table EXP_DROP_TABLE_ID prio fl
                                    secGrpCookie secGrpSetId 0 isSystemRule secGrpOutRef
                             else l2 a log after_egress_table egress_table EXP_DROP_TABLE_ID
                                    prio fl secGrpCookie secGrpSetId 0 isSystemRule secGrpOutRef)
                       else secGrpOutRef)
           in (in1, out1)
         else
           let (in3, out3) =
                 (if dir = CONST_BIDIRECTIONAL \<or> dir = CONST_IN
                  then
                    let in1 = (if a = CA_DENY
                               then ace a log remoteSubs None None
                                      EXP_DROP_TABLE_ID ingress_table EXP_DROP_TABLE_ID prio fl
                                      secGrpCookie secGrpSetId 0 isSystemRule secGrpInRef
                               else ace a log remoteSubs None None
                                      after_ingress_table ingress_table EXP_DROP_TABLE_ID prio fl
                                      secGrpCookie secGrpSetId 0 isSystemRule secGrpInRef)
                    in if a = CA_REFLEX_FWD
                       then
                         let in2 = ace CA_REFLEX_FWD_TRACK log remoteSubs None None
                                     GROUP_MAP_TABLE_ID ingress_table EXP_DROP_TABLE_ID prio fl
                                     secGrpCookie secGrpSetId 0 isSystemRule in1;
                             in3 = ace CA_REFLEX_FWD_EST log remoteSubs None None
                                     after_ingress_table ingress_table EXP_DROP_TABLE_ID prio fl
                                     secGrpCookie secGrpSetId 0 isSystemRule in2;
                             out1 = ace CA_REFLEX_REV_TRACK log None remoteSubs namedSvcPorts
                                      GROUP_MAP_TABLE_ID egress_table EXP_DROP_TABLE_ID prio fl
                                      0 secGrpSetId 0 isSystemRule secGrpOutRef;
                             out2 = ace CA_REFLEX_REV_ALLOW log None remoteSubs namedSvcPorts
                                      after_egress_table egress_table EXP_DROP_TABLE_ID prio fl
                                      secGrpCookie secGrpSetId 0 isSystemRule out1;
                             out3 = ace CA_REFLEX_REV_RELATED log None remoteSubs namedSvcPorts
                                      after_egress_table egress_table EXP_DROP_TABLE_ID prio fl
                                      secGrpCookie secGrpSetId 0 isSystemRule out2
                         in (in3, out3)
                       else (in1, secGrpOutRef)
                  else (secGrpInRef, secGrpOutRef))
           in if dir = CONST_BIDIRECTIONAL \<or> dir = CONST_OUT
              then
                let out4 = (if a = CA_DENY
                            then ace a log None remoteSubs namedSvcPorts
                                   EXP_DROP_TABLE_ID egress_table EXP_DROP_TABLE_ID prio fl
                                   secGrpCookie secGrpSetId 0 isSystemRule out3
                            else ace a log None remoteSubs namedSvcPorts
                                   after_egress_table egress_table EXP_DROP_TABLE_ID prio fl
                                   secGrpCookie secGrpSetId 0 isSystemRule out3)
                in if a = CA_REFLEX_FWD
                   then
                     let out5 = ace CA_REFLEX_FWD_TRACK log None remoteSubs namedSvcPorts
                                  GROUP_MAP_TABLE_ID egress_table EXP_DROP_TABLE_ID prio fl
                                  secGrpCookie secGrpSetId 0 isSystemRule out4;
                         out6 = ace CA_REFLEX_FWD_EST log None remoteSubs namedSvcPorts
                                  after_egress_table egress_table EXP_DROP_TABLE_ID prio fl
                                  secGrpCookie secGrpSetId 0 isSystemRule out5;
                         in4 = ace CA_REFLEX_REV_TRACK log remoteSubs None None
                                 GROUP_MAP_TABLE_ID ingress_table EXP_DROP_TABLE_ID prio fl
                                 0 secGrpSetId 0 isSystemRule in3;
                         in5 = ace CA_REFLEX_REV_ALLOW log remoteSubs None None
                                 after_ingress_table ingress_table EXP_DROP_TABLE_ID prio fl
                                 secGrpCookie secGrpSetId 0 isSystemRule in4;
                         in6 = ace CA_REFLEX_REV_RELATED log remoteSubs None None
                                 after_ingress_table ingress_table EXP_DROP_TABLE_ID prio fl
                                 secGrpCookie secGrpSetId 0 isSystemRule in5
                     in (in6, out6)
                   else (in3, out4)
              else (in3, out3))"

text \<open>The four entry lists that \<^verbatim>\<open>handleSecGrpSetUpdate\<close> fills, the flag that a rule
  of a system group was seen, and the id generator, which allocates the cookies.\<close>

record secGrpLists =
  secGrpIn :: FlowEntryList
  secGrpOut :: FlowEntryList
  sysSecGrpIn :: FlowEntryList
  sysSecGrpOut :: FlowEntryList
  any_system_sec_rule_configured :: bool
  lists_idGen :: IdGenerator

definition rule_step ::
  "env \<Rightarrow> 32 word \<Rightarrow> bool \<Rightarrow> secGrpLists \<Rightarrow> PolicyRule \<Rightarrow> secGrpLists" where
  "rule_step E secGrpSetId system_sec_group L pc =
     (let L1 = (if system_sec_group then L\<lparr>any_system_sec_rule_configured := True\<rparr> else L);
          isSystemRule = system_sec_group;
          cls = pr_l24Classifier pc;
          (cookie32, g) = getId ''l24classifierRule'' (cls_uri cls) (lists_idGen L1);
          secGrpCookie = (ucast cookie32 :: 64 word);
          L2 = L1\<lparr>lists_idGen := g\<rparr>
      in if system_sec_group
         then
           let (i, out) = rule_entries E secGrpSetId SYS_SEC_GRP_IN_TABLE_ID
                            SYS_SEC_GRP_OUT_TABLE_ID SEC_GROUP_IN_TABLE_ID SEC_GROUP_OUT_TABLE_ID
                            isSystemRule secGrpCookie pc (sysSecGrpIn L2, sysSecGrpOut L2)
           in L2\<lparr>sysSecGrpIn := i, sysSecGrpOut := out\<rparr>
         else
           let (i, out) = rule_entries E secGrpSetId SEC_GROUP_IN_TABLE_ID
                            SEC_GROUP_OUT_TABLE_ID TAP_TABLE_ID TAP_TABLE_ID
                            isSystemRule secGrpCookie pc (secGrpIn L2, secGrpOut L2)
           in L2\<lparr>secGrpIn := i, secGrpOut := out\<rparr>)"

definition group_step :: "env \<Rightarrow> 32 word \<Rightarrow> secGrpLists \<Rightarrow> string \<Rightarrow> secGrpLists" where
  "group_step E secGrpSetId L secGrp =
     (let rules = polMgr_getSecGroupRules E secGrp;
          system_sec_group = checkIfSystemSecurityGroup E secGrp
      in foldl (rule_step E secGrpSetId system_sec_group) L rules)"

definition systemDropLogFlow :: "flow_consts \<Rightarrow> table_id \<Rightarrow> FlowEntry" where
  "systemDropLogFlow K t =
     add_act (Go EXP_DROP_TABLE_ID)
       (add_act (DropLog t None None)
          (FlowBuilder0\<lparr>fb_priority := 2, fb_cookie := cookie_TABLE_DROP_FLOW K,
             fb_flags := OFPUTIL_FF_SEND_FLOW_REM K\<rparr>))"

definition handleSecGrpSetUpdate ::
  "env \<Rightarrow> string list \<Rightarrow> string \<Rightarrow> AccessFlowManager \<Rightarrow> AccessFlowManager" where
  "handleSecGrpSetUpdate E secGrps secGrpsIdStr s =
     (if epMgr_secGrpSetEmpty E secGrps
         then clearFlows secGrpsIdStr SYS_SEC_GRP_OUT_TABLE_ID
                (clearFlows secGrpsIdStr SYS_SEC_GRP_IN_TABLE_ID
                   (clearFlows secGrpsIdStr SEC_GROUP_OUT_TABLE_ID
                      (clearFlows secGrpsIdStr SEC_GROUP_IN_TABLE_ID s)))
         else
           let K = env_consts E;
               (secGrpSetId, g) = getId ID_NMSPC_SECGROUP_SET secGrpsIdStr (idGen s);
               L0 = \<lparr> secGrpIn = [], secGrpOut = [], sysSecGrpIn = [], sysSecGrpOut = [],
                      any_system_sec_rule_configured = False, lists_idGen = g \<rparr>;
               L = foldl (group_step E secGrpSetId) L0 secGrps;
               s1 = s\<lparr>idGen := lists_idGen L\<rparr>;
               s2 = writeFlow secGrpsIdStr SEC_GROUP_IN_TABLE_ID (secGrpIn L) s1;
               s3 = writeFlow secGrpsIdStr SEC_GROUP_OUT_TABLE_ID (secGrpOut L) s2
           in if any_system_sec_rule_configured L
              then
                let s4 = writeFlow ''SystemDropLogFlow'' SYS_SEC_GRP_IN_TABLE_ID
                           [systemDropLogFlow K SYS_SEC_GRP_IN_TABLE_ID] s3;
                    s5 = writeFlow ''SystemDropLogFlow'' SYS_SEC_GRP_OUT_TABLE_ID
                           [systemDropLogFlow K SYS_SEC_GRP_OUT_TABLE_ID] s4;
                    s6 = writeFlow secGrpsIdStr SYS_SEC_GRP_IN_TABLE_ID (sysSecGrpIn L) s5
                in writeFlow secGrpsIdStr SYS_SEC_GRP_OUT_TABLE_ID (sysSecGrpOut L) s6
              else
                let s4 = clearFlows secGrpsIdStr SYS_SEC_GRP_IN_TABLE_ID s3;
                    s5 = clearFlows secGrpsIdStr SYS_SEC_GRP_OUT_TABLE_ID s4;
                    s6 = clearFlows ''SystemDropLogFlow'' SYS_SEC_GRP_IN_TABLE_ID s5
                in clearFlows ''SystemDropLogFlow'' SYS_SEC_GRP_OUT_TABLE_ID s6)"

subsection \<open>Static flows and the other handlers\<close>

definition default_out_flow :: "flow_consts \<Rightarrow> FlowEntry" where
  "default_out_flow K =
     add_act (OutputReg MFF_REG7)
       (FlowBuilder0\<lparr>fb_priority := 1, m_metadata := Some (0, meta_out_MASK K)\<rparr>)"

definition handleDropLogPortUpdate :: "env \<Rightarrow> AccessFlowManager \<Rightarrow> AccessFlowManager" where
  "handleDropLogPortUpdate E s =
     (if dropLogIface s = [] \<or> \<not> is_v4 (dropLogDst s)
      then LOG WARNING ''Ignoring dropLog port '' (clearFlows ''static'' EXP_DROP_TABLE_ID s)
      else
        let K = env_consts E;
            dropLogPort = portMapper_FindPort E (dropLogIface s)
        in if dropLogPort \<noteq> OFPP_NONE K
           then
             let f = add_act (Output dropLogPort)
                       (add_act (SetReg MFF_TUN_DST (case dropLogDst s of V4 a \<Rightarrow> a | V6 _ \<Rightarrow> 0))
                          (FlowBuilder0\<lparr>fb_priority := 0,
                             m_metadata := Some (meta_DROP_LOG K, meta_DROP_LOG K)\<rparr>))
             in writeFlow ''static'' EXP_DROP_TABLE_ID [f] s
           else s)"

text \<open>The tables from \<^verbatim>\<open>SERVICE_BYPASS_TABLE_ID\<close> up to, not including,
  \<^verbatim>\<open>EXP_DROP_TABLE_ID\<close>, which the drop-log loop of \<^verbatim>\<open>createStaticFlows\<close> visits.\<close>

definition dropLog_tables :: "table_id list" where
  "dropLog_tables =
     [SERVICE_BYPASS_TABLE_ID, GROUP_MAP_TABLE_ID, SYS_SEC_GRP_IN_TABLE_ID,
      SEC_GROUP_IN_TABLE_ID, SYS_SEC_GRP_OUT_TABLE_ID, SEC_GROUP_OUT_TABLE_ID,
      TAP_TABLE_ID, OUT_TABLE_ID]"

definition tableDropFlow :: "flow_consts \<Rightarrow> table_id \<Rightarrow> FlowEntry" where
  "tableDropFlow K table_id =
     add_act (Go EXP_DROP_TABLE_ID)
       (add_act (DropLog table_id None None)
          (FlowBuilder0\<lparr>fb_priority := 0, fb_cookie := cookie_TABLE_DROP_FLOW K,
             fb_flags := OFPUTIL_FF_SEND_FLOW_REM K\<rparr>))"

definition dnsPuntFlow :: "ovs_be64 \<Rightarrow> 16 word \<Rightarrow> 8 word \<Rightarrow> FlowEntry" where
  "dnsPuntFlow ck ethT proto =
     add_act (Go OUT_TABLE_ID)
       (add_act Controller
          (FlowBuilder0\<lparr>fb_priority := 2, fb_cookie := ck, m_ethType := Some ethT,
             m_proto := Some proto, m_tpSrc := Some (53, None),
             m_metadata := Some (INGRESS_DIR, access_meta_MASK)\<rparr>))"

definition createStaticFlows :: "env \<Rightarrow> AccessFlowManager \<Rightarrow> AccessFlowManager" where
  "createStaticFlows E s =
     (let K = env_consts E;
          outFlows =
            [add_act (OutputReg MFF_REG7)
               (add_act PopVlan
                  (FlowBuilder0\<lparr>fb_priority := 1, m_metadata := Some (POP_VLAN, meta_out_MASK K),
                     m_tci := Some (0x1000, 0x1000)\<rparr>)),
             add_act (OutputReg MFF_REG7)
               (add_act (RegMove MFF_REG5 MFF_VLAN_VID)
                  (add_act PushVlan
                     (FlowBuilder0\<lparr>fb_priority := 1,
                        m_metadata := Some (PUSH_VLAN, meta_out_MASK K)\<rparr>))),
             add_act (OutputReg MFF_REG7)
               (add_act (RegMove MFF_REG5 MFF_VLAN_VID)
                  (add_act PushVlan
                     (add_act (OutputReg MFF_REG7)
                        (FlowBuilder0\<lparr>fb_priority := 1,
                           m_metadata := Some (UNTAGGED_AND_PUSH_VLAN, meta_out_MASK K)\<rparr>)))),
             default_out_flow K];
          s1 = writeFlow ''static'' OUT_TABLE_ID outFlows s;
          tlvFlows = map (\<lambda>i. (0xffff, i, 4, i)) [0 ..< 11]
                       @ [(0xffff, 11, 16, 11), (0xffff, 12, 4, 12), (0xffff, 13, 4, 13),
                          (0xffff, 14, 8, 14)];
          s2 = writeTlv ''DropLogStatic'' tlvFlows s1;
          s3 = writeFlow ''static'' DROP_LOG_TABLE_ID
                 [add_act (Go SERVICE_BYPASS_TABLE_ID) (FlowBuilder0\<lparr>fb_priority := 0\<rparr>)] s2;
          s4 = foldl (\<lambda>st table_id. writeFlow ''DropLogFlow'' table_id [tableDropFlow K table_id] st)
                 s3 dropLog_tables;
          s5 = handleDropLogPortUpdate E s4;
          s6 = writeFlow ''static'' SERVICE_BYPASS_TABLE_ID
                 [add_act (Go GROUP_MAP_TABLE_ID) (FlowBuilder0\<lparr>fb_priority := 1\<rparr>)] s5;
          tapFlows =
            [dnsPuntFlow (cookie_DNS_RESPONSE_V4 K) eth_IP 6,
             dnsPuntFlow (cookie_DNS_RESPONSE_V6 K) eth_IPV6 6,
             dnsPuntFlow (cookie_DNS_RESPONSE_V4 K) eth_IP 17,
             dnsPuntFlow (cookie_DNS_RESPONSE_V6 K) eth_IPV6 17,
             add_act (Go OUT_TABLE_ID) (FlowBuilder0\<lparr>fb_priority := 1\<rparr>)];
          s7 = writeFlow ''static'' TAP_TABLE_ID tapFlows s6;
          s8 = writeFlow ''static'' SYS_SEC_GRP_IN_TABLE_ID
                 [add_act (Go SEC_GROUP_IN_TABLE_ID) (FlowBuilder0\<lparr>fb_priority := 1\<rparr>)] s7;
          s9 = writeFlow ''static'' SYS_SEC_GRP_OUT_TABLE_ID
                 [add_act (Go SEC_GROUP_OUT_TABLE_ID) (FlowBuilder0\<lparr>fb_priority := 1\<rparr>)] s8;
          (emptySecGrpSetId, g) = getId ID_NMSPC_SECGROUP_SET [] (idGen s9);
          s10 = s9\<lparr>idGen := g\<rparr>;
          s11 = writeFlow ''static'' SEC_GROUP_OUT_TABLE_ID
                  [flowEmptySecGroup K emptySecGrpSetId] s10
      in writeFlow ''static'' SEC_GROUP_IN_TABLE_ID [flowEmptySecGroup K emptySecGrpSetId] s11)"

text \<open>\<^verbatim>\<open>start\<close> registers the listeners, initialises the id namespaces and creates the
  static flows.\<close>

definition start :: "env \<Rightarrow> AccessFlowManager \<Rightarrow> AccessFlowManager" where
  "start E s = createStaticFlows E (s\<lparr>listening := True\<rparr>)"

definition dscpFlow :: "16 word \<Rightarrow> 32 word \<Rightarrow> 8 word \<Rightarrow> FlowEntry" where
  "dscpFlow ethT ofPort dscp =
     add_act (Resubmit ofPort 1)
       (add_act (SetDscp dscp)
          (FlowBuilder0\<lparr>fb_table := Some 0, fb_priority := 65535, m_ethType := Some ethT,
             m_inPort := Some ofPort\<rparr>))"

text \<open>The flows for a DSCP marking are written to table 0, which is the entry table of the
  pipeline.\<close>

definition handleDscpQosUpdate ::
  "env \<Rightarrow> string \<Rightarrow> 8 word \<Rightarrow> AccessFlowManager \<Rightarrow> AccessFlowManager" where
  "handleDscpQosUpdate E interface dscp s =
     (let objIdV4 = interface @ ''ipv4'';
          objIdV6 = interface @ ''ipv6'';
          s1 = clearFlows objIdV4 DROP_LOG_TABLE_ID s;
          s2 = clearFlows objIdV6 DROP_LOG_TABLE_ID s1
      in if dscp = 0 then s2
         else
           let ofPort = portMapper_FindPort E interface;
               s3 = writeFlow objIdV4 DROP_LOG_TABLE_ID [dscpFlow eth_IP ofPort dscp] s2
           in writeFlow objIdV6 DROP_LOG_TABLE_ID [dscpFlow eth_IPV6 ofPort dscp] s3)"

definition handlePortStatusUpdate ::
  "env \<Rightarrow> string \<Rightarrow> 32 word \<Rightarrow> AccessFlowManager \<Rightarrow> AccessFlowManager" where
  "handlePortStatusUpdate E portName portNo s =
     (let eps = remdups (epMgr_getEndpointsByAccessIface E portName
                          @ epMgr_getEndpointsByAccessUplink E portName);
          s1 = foldl (\<lambda>st ep. endpointUpdated ep st) s eps
      in if portName = dropLogIface s1 then handleDropLogPortUpdate E s1 else s1)"

definition handleSecGrpUpdate :: "env \<Rightarrow> string \<Rightarrow> AccessFlowManager \<Rightarrow> AccessFlowManager" where
  "handleSecGrpUpdate E uri s =
     foldl (\<lambda>st secGrpSet. secGroupSetUpdated secGrpSet st) s
       (epMgr_getSecGrpSetsForSecGrp E uri)"

definition lbIfaceUpdated :: "env \<Rightarrow> string \<Rightarrow> AccessFlowManager \<Rightarrow> AccessFlowManager" where
  "lbIfaceUpdated E uuid s =
     (case lbMgr_getLBIface E uuid of
        None \<Rightarrow> s
      | Some iface \<Rightarrow>
          (case lb_interfaceName iface of
             None \<Rightarrow> s
           | Some name \<Rightarrow>
               foldl (\<lambda>st epUuid. endpointUpdated epUuid st) s
                 (epMgr_getEndpointsByIface E name)))"

definition rdConfigUpdated :: "string \<Rightarrow> AccessFlowManager \<Rightarrow> AccessFlowManager" where
  "rdConfigUpdated rdURI s = s"

definition packetDropLogConfigUpdated ::
  "env \<Rightarrow> string \<Rightarrow> AccessFlowManager \<Rightarrow> AccessFlowManager" where
  "packetDropLogConfigUpdated E dropLogCfgURI s =
     (if stopping s then s
      else
        case resolve_DropLogConfig E dropLogCfgURI of
          None \<Rightarrow>
            LOG INFO ''Defaulting to droplog disabled''
              (writeFlow ''DropLogConfig'' DROP_LOG_TABLE_ID
                 [add_act (Go SERVICE_BYPASS_TABLE_ID) (FlowBuilder0\<lparr>fb_priority := 2\<rparr>)] s)
        | Some dropLogCfg \<Rightarrow>
            if getOr 0 (dlc_dropLogEnable dropLogCfg) \<noteq> 0
            then
              (if getOr CONST_UNFILTERED_DROP_LOG (dlc_dropLogMode dropLogCfg)
                    = CONST_UNFILTERED_DROP_LOG
               then
                 writeFlow ''DropLogConfig'' DROP_LOG_TABLE_ID
                   [add_act (Go SERVICE_BYPASS_TABLE_ID)
                      (add_act (SetMetadata (meta_DROP_LOG (env_consts E))
                                  (meta_DROP_LOG (env_consts E)))
                         (FlowBuilder0\<lparr>fb_priority := 2\<rparr>))]
                   (LOG INFO ''Droplog mode set to unfiltered'' s)
               else
                 LOG INFO ''Droplog mode set to filtered''
                   (clearFlows ''DropLogConfig'' DROP_LOG_TABLE_ID s))
            else
              writeFlow ''DropLogConfig'' DROP_LOG_TABLE_ID
                [add_act (Go SERVICE_BYPASS_TABLE_ID) (FlowBuilder0\<lparr>fb_priority := 2\<rparr>)]
                (LOG INFO ''Droplog disabled'' s))"

text \<open>\<^verbatim>\<open>address::from_string\<close> without an error code throws on a malformed string; the
  exception leaves the handler.\<close>

datatype error = system_error

definition addr_match ::
  "env \<Rightarrow> string option \<Rightarrow> (address \<Rightarrow> FlowBuilder \<Rightarrow> FlowBuilder) \<Rightarrow> FlowBuilder
     \<Rightarrow> error + FlowBuilder" where
  "addr_match E a upd fb =
     (case a of
        None \<Rightarrow> Inr fb
      | Some str \<Rightarrow>
          (case env_from_string E str of
             None \<Rightarrow> Inl system_error
           | Some addr \<Rightarrow> Inr (upd addr fb)))"

definition dropFlow_match :: "env \<Rightarrow> DropFlowConfig \<Rightarrow> error + FlowBuilder" where
  "dropFlow_match E cfg =
     (let fb0 = FlowBuilder0\<lparr>fb_priority := 1\<rparr>;
          fb1 = (case dfc_ethType cfg of None \<Rightarrow> fb0 | Some e \<Rightarrow> fb0\<lparr>m_ethType := Some e\<rparr>)
      in case addr_match E (dfc_innerSrcAddress cfg)
                (\<lambda>addr fb. fb\<lparr>m_ipSrc := Some (addr, None)\<rparr>) fb1 of
           Inl e \<Rightarrow> Inl e
         | Inr fb2 \<Rightarrow>
        (case addr_match E (dfc_innerDstAddress cfg)
                (\<lambda>addr fb. fb\<lparr>m_ipDst := Some (addr, None)\<rparr>) fb2 of
           Inl e \<Rightarrow> Inl e
         | Inr fb3 \<Rightarrow>
        (case addr_match E (dfc_outerSrcAddress cfg)
                (\<lambda>addr fb. fb\<lparr>m_outerIpSrc := Some addr\<rparr>) fb3 of
           Inl e \<Rightarrow> Inl e
         | Inr fb4 \<Rightarrow>
        (case addr_match E (dfc_outerDstAddress cfg)
                (\<lambda>addr fb. fb\<lparr>m_outerIpDst := Some addr\<rparr>) fb4 of
           Inl e \<Rightarrow> Inl e
         | Inr fb5 \<Rightarrow>
             let fb6 = (case dfc_tunnelId cfg of None \<Rightarrow> fb5 | Some t \<Rightarrow> fb5\<lparr>m_tunId := Some t\<rparr>);
                 fb7 = (case dfc_ipProto cfg of None \<Rightarrow> fb6 | Some p \<Rightarrow> fb6\<lparr>m_proto := Some p\<rparr>);
                 fb8 = (case dfc_srcPort cfg of
                          None \<Rightarrow> fb7
                        | Some p \<Rightarrow> fb7\<lparr>m_tpSrc := Some (p, None)\<rparr>);
                 fb9 = (case dfc_dstPort cfg of
                          None \<Rightarrow> fb8
                        | Some p \<Rightarrow> fb8\<lparr>m_tpDst := Some (p, None)\<rparr>)
             in Inr fb9))))"

definition packetDropFlowConfigUpdated ::
  "env \<Rightarrow> string \<Rightarrow> AccessFlowManager \<Rightarrow> error + AccessFlowManager" where
  "packetDropFlowConfigUpdated E dropFlowCfgURI s =
     (if stopping s then Inr s
      else
        case resolve_DropFlowConfig E dropFlowCfgURI of
          None \<Rightarrow> Inr (clearFlows dropFlowCfgURI DROP_LOG_TABLE_ID s)
        | Some dropFlowCfg \<Rightarrow>
            (case dropFlow_match E dropFlowCfg of
               Inl e \<Rightarrow> Inl e
             | Inr fb \<Rightarrow>
                 Inr (writeFlow dropFlowCfgURI DROP_LOG_TABLE_ID
                        [add_act (Go SERVICE_BYPASS_TABLE_ID)
                           (add_act (SetMetadata (meta_DROP_LOG (env_consts E))
                                       (meta_DROP_LOG (env_consts E))) fb)] s)))"

definition secGrpSetIdGarbageCb :: "env \<Rightarrow> string \<Rightarrow> bool" where
  "secGrpSetIdGarbageCb E str =
     (let secGrps = remdups (filter (\<lambda>uri. uri \<noteq> []) (split CHR '','' str))
      in if secGrps = [] then True else \<not> epMgr_secGrpSetEmpty E secGrps)"

definition cleanup :: "env \<Rightarrow> AccessFlowManager \<Rightarrow> AccessFlowManager" where
  "cleanup E s =
     (let g1 = collectGarbage ID_NMSPC_SECGROUP (\<lambda>ns str. polMgr_secGroupExists E str) (idGen s);
          g2 = collectGarbage ID_NMSPC_SECGROUP_SET (\<lambda>ns str. secGrpSetIdGarbageCb E str) g1
      in s\<lparr>idGen := g2\<rparr>)"

subsection \<open>The manager as a state machine\<close>

definition run_task :: "env \<Rightarrow> task \<Rightarrow> AccessFlowManager \<Rightarrow> AccessFlowManager" where
  "run_task E t s =
     (case t of
        HandleEndpointUpdate uuid \<Rightarrow> handleEndpointUpdate E uuid s
      | HandleDscpQosUpdate interface dscp \<Rightarrow> handleDscpQosUpdate E interface dscp s
      | HandleSecGrpSetUpdate secGrps idStr \<Rightarrow> handleSecGrpSetUpdate E secGrps idStr s
      | HandleSecGrpUpdate uri \<Rightarrow> handleSecGrpUpdate E uri s
      | HandlePortStatusUpdate portName portNo \<Rightarrow> handlePortStatusUpdate E portName portNo s)"

text \<open>
  What can happen to a started manager: a listener callback arrives, a public method is
  called, or the task queue runs one of the pending tasks (the \<open>n\<close>-th; tasks with
  different keys run in any order). An exception that leaves
  \<^verbatim>\<open>packetDropFlowConfigUpdated\<close> is thrown before the handler changes anything, so
  the state stays as it was.
\<close>

datatype event =
    EndpointUpdated string
  | DscpQosUpdated string "8 word"
  | SecGroupSetUpdated "string list"
  | SecGroupUpdated string
  | ConfigUpdated string
  | PortStatusUpdate string "32 word"
  | PacketDropLogConfigUpdated string
  | PacketDropFlowConfigUpdated string
  | LbIfaceUpdated string
  | RdConfigUpdated string
  | SetDropLog string string "16 word"
  | EnableConnTrack
  | Stop
  | Cleanup
  | RunTask nat

definition step :: "env \<Rightarrow> event \<Rightarrow> AccessFlowManager \<Rightarrow> AccessFlowManager" where
  "step E ev s =
     (case ev of
        EndpointUpdated uuid \<Rightarrow> endpointUpdated uuid s
      | DscpQosUpdated interface dscp \<Rightarrow> dscpQosUpdated interface dscp s
      | SecGroupSetUpdated secGrps \<Rightarrow> secGroupSetUpdated secGrps s
      | SecGroupUpdated uri \<Rightarrow> secGroupUpdated uri s
      | ConfigUpdated uri \<Rightarrow> configUpdated uri s
      | PortStatusUpdate portName portNo \<Rightarrow> portStatusUpdate portName portNo s
      | PacketDropLogConfigUpdated uri \<Rightarrow> packetDropLogConfigUpdated E uri s
      | PacketDropFlowConfigUpdated uri \<Rightarrow>
          (case packetDropFlowConfigUpdated E uri s of Inl e \<Rightarrow> s | Inr s' \<Rightarrow> s')
      | LbIfaceUpdated uuid \<Rightarrow> lbIfaceUpdated E uuid s
      | RdConfigUpdated uri \<Rightarrow> rdConfigUpdated uri s
      | SetDropLog port ip rport \<Rightarrow> setDropLog E port ip rport s
      | EnableConnTrack \<Rightarrow> enableConnTrack s
      | Stop \<Rightarrow> stop s
      | Cleanup \<Rightarrow> cleanup E s
      | RunTask n \<Rightarrow>
          if n < length (taskQueue s)
          then run_task E (snd (taskQueue s ! n))
                 (s\<lparr>taskQueue := take n (taskQueue s) @ drop (Suc n) (taskQueue s)\<rparr>)
          else s)"

fun run :: "(env \<times> event) list \<Rightarrow> AccessFlowManager \<Rightarrow> AccessFlowManager" where
  "run [] s = s"
| "run ((E, ev) # evs) s = run evs (step E ev s)"

section \<open>RangeMask\<close>

text \<open>
  Modelled from the spec: \<^verbatim>\<open>RangeMask::getMasks\<close> (not among the sources) is the range
  expander, which "expands an inclusive integer range [lo, hi] into a minimal set of
  (value, mask) bit patterns". The expansion descends the binary tree of the 16-bit
  values: a block of \<open>2 ^ k\<close> values that starts at a multiple of \<open>2 ^ k\<close> is one
  pattern when it lies inside the range, contributes nothing when it lies outside, and is
  split into its two halves otherwise. A pattern is kept as the first value of its block
  and the number \<open>k\<close> of low bits that it leaves free.
\<close>

fun masks_in :: "nat \<Rightarrow> nat \<Rightarrow> nat \<Rightarrow> nat \<Rightarrow> (nat \<times> nat) list" where
  "masks_in 0 base lo hi = (if lo \<le> base \<and> base \<le> hi then [(base, 0)] else [])"
| "masks_in (Suc k) base lo hi =
     (if hi < base \<or> base + 2 ^ Suc k \<le> lo then []
      else if lo \<le> base \<and> base + 2 ^ Suc k \<le> hi + 1 then [(base, Suc k)]
      else masks_in k base lo hi @ masks_in k (base + 2 ^ k) lo hi)"

definition getMasks :: "16 word \<Rightarrow> 16 word \<Rightarrow> MaskList" where
  "getMasks lo hi =
     map (\<lambda>(v, k). (word_of_nat v, NOT (mask k))) (masks_in 16 0 (unat lo) (unat hi))"

text \<open>A 16-bit field value matches a (value, mask) pattern when it agrees with the value
  on the bits of the mask.\<close>

definition mask_matches :: "16 word \<Rightarrow> Mask \<Rightarrow> bool" where
  "mask_matches p m = (p AND snd m = fst m AND snd m)"

section \<open>Examples\<close>

text \<open>A fresh id generator and zone manager, an endpoint with an access and an uplink
  interface and nothing else, an allow rule with reflexive connection tracking for TCP
  port 80 from one remote subnet, and collaborators that know them.\<close>

definition example_idGen :: IdGenerator where
  "example_idGen = \<lparr> idmap = (\<lambda>_. None), lastUsedId = (\<lambda>_. 0) \<rparr>"

definition example_ctZoneManager :: CtZoneManager where
  "example_ctZoneManager = \<lparr> zones = (\<lambda>_. None), lastZone = 0 \<rparr>"

definition example_endpoint :: Endpoint where
  "example_endpoint = \<lparr> ep_accessInterface = Some ''veth0'',
     ep_accessUplinkInterface = Some ''veth0-up'', ep_accessIfaceVlan = None,
     ep_accessAllowUntagged = False, ep_IPs = [''10.0.0.0''], ep_serviceIPs = [],
     ep_IPAddressMappings = [], ep_DHCPv4Config = False, ep_DHCPv6Config = False,
     ep_interfaceName = None, ep_securityGroups = [] \<rparr>"

definition example_rule :: PolicyRule where
  "example_rule = \<lparr> pr_direction = CONST_IN, pr_allow = True, pr_log = False,
     pr_priority = 100, pr_l24Classifier = example_classifier,
     pr_remoteSubnets = [(''10.0.0.0'', 8)], pr_namedServicePorts = [] \<rparr>"

definition example_getMasks :: "16 word option \<Rightarrow> 16 word option \<Rightarrow> MaskList" where
  "example_getMasks a b =
     (case a of
        None \<Rightarrow> []
      | Some lo \<Rightarrow> (case b of None \<Rightarrow> [] | Some hi \<Rightarrow> getMasks lo hi))"

definition example_env :: env where
  "example_env = \<lparr> env_consts = example_consts, env_from_string = example_from_string,
     env_cidr_from_string = (\<lambda>s. map_option (\<lambda>a. (a, 32)) (example_from_string s)),
     env_getMasks = example_getMasks,
     portMapper_FindPort = (\<lambda>n. if n = ''veth0'' then 5 else if n = ''veth0-up'' then 6
                                  else 0xffff),
     epMgr_getEndpoint = (\<lambda>u. if u = ''ep1'' then Some example_endpoint else None),
     epMgr_getEndpointsByAccessIface = (\<lambda>n. if n = ''veth0'' then [''ep1''] else []),
     epMgr_getEndpointsByAccessUplink = (\<lambda>n. if n = ''veth0-up'' then [''ep1''] else []),
     epMgr_getEndpointsByIface = (\<lambda>_. []),
     epMgr_getSecGrpSetsForSecGrp = (\<lambda>_. []),
     epMgr_secGrpSetEmpty = (\<lambda>_. False),
     lbMgr_getLBIfaceByIface = (\<lambda>_. []),
     lbMgr_getLBIface = (\<lambda>_. None),
     polMgr_getSecGroupRules =
       (\<lambda>u. if u = ''/PolicyUniverse/PolicySpace/t/GbpSecGroup/web/'' then [example_rule]
             else []),
     polMgr_getOpflexDomain = ''comp/prov-OpenStack/ctrlr-[k8s]-dom1/sw-InsiemeLSOid'',
     polMgr_secGroupExists = (\<lambda>_. True),
     agent_addL34FlowsWithoutSubnet = False,
     resolve_DropLogConfig = (\<lambda>_. None),
     resolve_DropFlowConfig = (\<lambda>_. None) \<rparr>"

definition example_manager :: AccessFlowManager where
  "example_manager = start example_env (new_AccessFlowManager example_idGen example_ctZoneManager)"

text \<open>A system security group of the example domain, and the example collaborators with
  a policy manager that knows the rules of this group only.\<close>

definition example_sys_group :: string where
  "example_sys_group = ''/PolicyUniverse/PolicySpace/t/GbpSecGroup/dom1_SystemSecurityGroup/''"

definition example_sys_env :: "PolicyRule list \<Rightarrow> env" where
  "example_sys_env rules =
     example_env\<lparr>polMgr_getSecGroupRules := (\<lambda>u. if u = example_sys_group then rules else [])\<rparr>"

section \<open>Notions used in the statements\<close>

text \<open>The drop-log tunnel destination that \<^verbatim>\<open>setDropLog\<close> rejects: a string that does
  not parse as an IP address, or an IPv6 address.\<close>

definition rejected_ip :: "env \<Rightarrow> string \<Rightarrow> bool" where
  "rejected_ip E ip = (case env_from_string E ip of None \<Rightarrow> True | Some a \<Rightarrow> is_v6 a)"

text \<open>The listener callbacks of the manager.\<close>

fun is_callback :: "event \<Rightarrow> bool" where
  "is_callback (EndpointUpdated _) = True"
| "is_callback (DscpQosUpdated _ _) = True"
| "is_callback (SecGroupSetUpdated _) = True"
| "is_callback (SecGroupUpdated _) = True"
| "is_callback (ConfigUpdated _) = True"
| "is_callback (PortStatusUpdate _ _) = True"
| "is_callback (PacketDropLogConfigUpdated _) = True"
| "is_callback (PacketDropFlowConfigUpdated _) = True"
| "is_callback (LbIfaceUpdated _) = True"
| "is_callback _ = False"

text \<open>
  The reflexive expansion, entry by entry: the connection-tracking match and the action
  list of an entry of each kind, for the table \<open>nextTable\<close> that the call names.
  Forward-track and reverse-track entries send untracked packets through conntrack in the
  zone of reg6 and on to \<open>nextTable\<close>; a forward entry matches tracked new
  connections and commits them unless the rule is a system rule; forward-established,
  reverse-allow and reverse-related entries match on the state and go to \<open>nextTable\<close>.
\<close>

fun expected_ctState :: "ClassAction \<Rightarrow> (ct_flag set \<times> ct_flag set) option" where
  "expected_ctState CA_REFLEX_FWD_TRACK = Some ({}, {CT_TRACKED})"
| "expected_ctState CA_REFLEX_REV_TRACK = Some ({}, {CT_TRACKED})"
| "expected_ctState CA_REFLEX_FWD = Some ({CT_TRACKED, CT_NEW}, {CT_TRACKED, CT_NEW})"
| "expected_ctState CA_REFLEX_FWD_EST =
     Some ({CT_TRACKED, CT_ESTABLISHED}, {CT_TRACKED, CT_ESTABLISHED})"
| "expected_ctState CA_REFLEX_REV_ALLOW =
     Some ({CT_TRACKED, CT_ESTABLISHED, CT_REPLY},
           {CT_TRACKED, CT_ESTABLISHED, CT_REPLY, CT_NEW, CT_INVALID, CT_RELATED})"
| "expected_ctState CA_REFLEX_REV_RELATED =
     Some ({CT_TRACKED, CT_RELATED, CT_REPLY},
           {CT_TRACKED, CT_RELATED, CT_REPLY, CT_ESTABLISHED, CT_INVALID, CT_NEW})"
| "expected_ctState CA_ALLOW = None"
| "expected_ctState CA_DENY = None"

definition log_action :: "bool \<Rightarrow> table_id \<Rightarrow> table_id \<Rightarrow> 64 word \<Rightarrow> action list" where
  "log_action log currentTable dropTable cookie =
     (if log then [PermitLog currentTable dropTable cookie] else [])"

fun expected_actions ::
  "flow_consts \<Rightarrow> ClassAction \<Rightarrow> bool \<Rightarrow> table_id \<Rightarrow> table_id \<Rightarrow> table_id \<Rightarrow> 64 word \<Rightarrow> bool
     \<Rightarrow> action list" where
  "expected_actions K CA_REFLEX_FWD_TRACK log nextTable currentTable dropTable cookie sys =
     [Conntrack False MFF_REG6 (Some 0) (Some nextTable)]"
| "expected_actions K CA_REFLEX_REV_TRACK log nextTable currentTable dropTable cookie sys =
     [Conntrack False MFF_REG6 (Some 0) (Some nextTable)]"
| "expected_actions K CA_REFLEX_FWD log nextTable currentTable dropTable cookie sys =
     (if sys then []
      else Conntrack True MFF_REG6 None None # log_action log currentTable dropTable cookie)
     @ [Go nextTable]"
| "expected_actions K CA_REFLEX_FWD_EST log nextTable currentTable dropTable cookie sys =
     log_action log currentTable dropTable cookie @ [Go nextTable]"
| "expected_actions K CA_REFLEX_REV_ALLOW log nextTable currentTable dropTable cookie sys =
     log_action log currentTable dropTable cookie @ [Go nextTable]"
| "expected_actions K CA_REFLEX_REV_RELATED log nextTable currentTable dropTable cookie sys =
     [Go nextTable]"
| "expected_actions K CA_ALLOW log nextTable currentTable dropTable cookie sys =
     log_action log currentTable dropTable cookie @ [Go nextTable]"
| "expected_actions K CA_DENY log nextTable currentTable dropTable cookie sys =
     (if log then DropLog currentTable (Some POLICY_DENY) (Some cookie)
      else SetMetadata 0 (meta_DROP_LOG K)) # [Go nextTable]"

text \<open>An entry of kind \<open>a\<close>: priority, flags and cookie of the call, and the match on
  the connection state and the actions of the kind. A reverse-related entry moreover
  matches the EtherType IPv4 or IPv6 and nothing of L3 or L4.\<close>

definition entry_shape ::
  "flow_consts \<Rightarrow> ClassAction \<Rightarrow> bool \<Rightarrow> table_id \<Rightarrow> table_id \<Rightarrow> table_id \<Rightarrow> 16 word
     \<Rightarrow> 32 word \<Rightarrow> 64 word \<Rightarrow> bool \<Rightarrow> FlowEntry \<Rightarrow> bool" where
  "entry_shape K a log nextTable currentTable dropTable priority flags cookie sys e =
     (fb_cookie e = BE64 cookie \<and> fb_priority e = priority \<and> fb_flags e = flags
      \<and> m_ctState e = expected_ctState a
      \<and> fb_actions e = expected_actions K a log nextTable currentTable dropTable cookie sys
      \<and> (a \<noteq> CA_REFLEX_REV_RELATED
          \<or> ((m_ethType e = Some EtherT_IPV4 \<or> m_ethType e = Some EtherT_IPV6)
              \<and> m_proto e = None \<and> m_ipSrc e = None \<and> m_ipDst e = None
              \<and> m_tpSrc e = None \<and> m_tpDst e = None \<and> m_tcpFlags e = None)))"

text \<open>Two builders that agree on priority, flags, cookie, connection-state match and
  actions.\<close>

definition same_core :: "FlowBuilder \<Rightarrow> FlowBuilder \<Rightarrow> bool" where
  "same_core f g =
     (fb_cookie g = fb_cookie f \<and> fb_priority g = fb_priority f \<and> fb_flags g = fb_flags f
      \<and> m_ctState g = m_ctState f \<and> fb_actions g = fb_actions f)"

text \<open>A source subnet or destination service port takes part in the L3/L4 entries for an
  EtherType when it has no address to match (empty or not parsable) or the family of its
  address agrees with the EtherType.\<close>

definition family_agrees :: "address \<Rightarrow> 16 word \<Rightarrow> bool" where
  "family_agrees addr ethType =
     (if is_v4 addr then ethType = eth_ARP \<or> ethType = eth_IP else ethType = eth_IPV6)"

definition address_applies :: "(string \<Rightarrow> address option) \<Rightarrow> string \<Rightarrow> 16 word \<Rightarrow> bool" where
  "address_applies from_string a ethType =
     (a = [] \<or> (case from_string a of None \<Rightarrow> True | Some addr \<Rightarrow> family_agrees addr ethType))"

text \<open>The domain token of the agent's OpFlex domain path, in the words of the
  specification: when the path has four components separated by \<open>/\<close> and the third one
  has three tokens separated by \<open>-\<close>, the third token.\<close>

definition domain_token :: "string \<Rightarrow> string option" where
  "domain_token opflex_domain =
     (case split CHR ''/'' opflex_domain of
        [p1, p2, ctrlr, p4] \<Rightarrow>
          (case split CHR ''-'' ctrlr of
             [t1, t2, domain_name] \<Rightarrow> Some domain_name
           | _ \<Rightarrow> None)
      | _ \<Rightarrow> None)"

text \<open>An entry whose \<open>go\<close> actions all lead to the table \<open>after\<close> or to the drop
  table.\<close>

fun go_allowed :: "table_id \<Rightarrow> action \<Rightarrow> bool" where
  "go_allowed after (Go t) = (t = after \<or> t = EXP_DROP_TABLE_ID)"
| "go_allowed after _ = True"

definition goes_only_to :: "table_id \<Rightarrow> FlowEntry \<Rightarrow> bool" where
  "goes_only_to after e = list_all (go_allowed after) (fb_actions e)"

text \<open>The entry lists with which \<^verbatim>\<open>handleSecGrpSetUpdate\<close> starts, and those that it
  has after the loop over the groups of the set.\<close>

definition empty_lists :: "IdGenerator \<Rightarrow> secGrpLists" where
  "empty_lists g = \<lparr> secGrpIn = [], secGrpOut = [], sysSecGrpIn = [], sysSecGrpOut = [],
                      any_system_sec_rule_configured = False, lists_idGen = g \<rparr>"

definition secGrpSet_lists :: "env \<Rightarrow> string list \<Rightarrow> string \<Rightarrow> IdGenerator \<Rightarrow> secGrpLists" where
  "secGrpSet_lists E secGrps secGrpsIdStr g0 =
     foldl (group_step E (fst (getId ID_NMSPC_SECGROUP_SET secGrpsIdStr g0)))
       (empty_lists (snd (getId ID_NMSPC_SECGROUP_SET secGrpsIdStr g0))) secGrps"

text \<open>The entries that one call of \<^verbatim>\<open>add_classifier_entries\<close> appends to its list.\<close>

definition appended_entries ::
  "flow_consts \<Rightarrow> (string \<Rightarrow> address option) \<Rightarrow> (16 word option \<Rightarrow> 16 word option \<Rightarrow> MaskList)
     \<Rightarrow> L24Classifier \<Rightarrow> ClassAction \<Rightarrow> bool
     \<Rightarrow> subnet_t list option \<Rightarrow> subnet_t list option \<Rightarrow> service_port_t list option
     \<Rightarrow> table_id \<Rightarrow> table_id \<Rightarrow> table_id
     \<Rightarrow> 16 word \<Rightarrow> 32 word \<Rightarrow> 64 word \<Rightarrow> 32 word \<Rightarrow> 32 word \<Rightarrow> bool \<Rightarrow> FlowEntryList" where
  "appended_entries K from_string masks clsfr a log sourceSub destSub destNamedAddresses
       nextTable currentTable dropTable priority flags cookie svnid dvnid isSystemRule =
     add_classifier_entries K from_string masks clsfr a log sourceSub destSub
       destNamedAddresses nextTable currentTable dropTable priority flags cookie svnid dvnid
       isSystemRule []"

text \<open>
  How the rules of one group are routed, from the lists \<open>L0\<close> before the group to the
  lists \<open>L\<close> after it: the rules of a system group leave the lists of the user tables
  as they were and add to the lists of the system tables entries that go on to
  SEC_GROUP_IN or SEC_GROUP_OUT; the rules of another group leave the lists of the system
  tables as they were and add to the lists of the user tables entries that go on to TAP.
\<close>

definition routed_as :: "bool \<Rightarrow> secGrpLists \<Rightarrow> secGrpLists \<Rightarrow> bool" where
  "routed_as system L0 L =
     (if system
      then secGrpIn L = secGrpIn L0 \<and> secGrpOut L = secGrpOut L0
           \<and> set (sysSecGrpIn L)
               \<subseteq> set (sysSecGrpIn L0) \<union> {e. goes_only_to SEC_GROUP_IN_TABLE_ID e}
           \<and> set (sysSecGrpOut L)
               \<subseteq> set (sysSecGrpOut L0) \<union> {e. goes_only_to SEC_GROUP_OUT_TABLE_ID e}
      else sysSecGrpIn L = sysSecGrpIn L0 \<and> sysSecGrpOut L = sysSecGrpOut L0
           \<and> any_system_sec_rule_configured L = any_system_sec_rule_configured L0
           \<and> set (secGrpIn L) \<subseteq> set (secGrpIn L0) \<union> {e. goes_only_to TAP_TABLE_ID e}
           \<and> set (secGrpOut L) \<subseteq> set (secGrpOut L0) \<union> {e. goes_only_to TAP_TABLE_ID e})"

text \<open>The lists of the system tables are empty as long as no rule of a system group was
  seen.\<close>

definition sys_lists_flagged :: "secGrpLists \<Rightarrow> bool" where
  "sys_lists_flagged L =
     (any_system_sec_rule_configured L \<or> (sysSecGrpIn L = [] \<and> sysSecGrpOut L = []))"

text \<open>A rule takes the L3/L4 path when it has remote subnets or named service ports, or
  when the agent adds L3/L4 flows without subnet. The remote subnets and named service
  ports are handed to \<^verbatim>\<open>add_classifier_entries\<close> only when one of them is not empty.\<close>

definition l34_path :: "env \<Rightarrow> PolicyRule \<Rightarrow> bool" where
  "l34_path E pc =
     (pr_remoteSubnets pc \<noteq> [] \<or> pr_namedServicePorts pc \<noteq> []
      \<or> agent_addL34FlowsWithoutSubnet E)"

definition rule_remoteSubs :: "PolicyRule \<Rightarrow> subnet_t list option" where
  "rule_remoteSubs pc =
     (if pr_remoteSubnets pc \<noteq> [] \<or> pr_namedServicePorts pc \<noteq> []
      then Some (pr_remoteSubnets pc) else None)"

definition rule_namedSvcPorts :: "PolicyRule \<Rightarrow> service_port_t list option" where
  "rule_namedSvcPorts pc =
     (if pr_remoteSubnets pc \<noteq> [] \<or> pr_namedServicePorts pc \<noteq> []
      then Some (pr_namedServicePorts pc) else None)"

text \<open>
  The six kinds of entries of a reflexive allow rule: the forward entries (new, track,
  established) belong to the table \<open>fwdTable\<close> of the rule's direction and the reverse
  entries (track, allow, related) to the table \<open>revTable\<close> of the other direction.
  Track entries recirculate to GROUP_MAP, the others go to the after-table of their own
  table; all carry the cookie of the rule except the reverse-track entries, whose cookie
  is 0.
\<close>

definition reflexive_quintet ::
  "flow_consts \<Rightarrow> bool \<Rightarrow> bool \<Rightarrow> 16 word \<Rightarrow> 32 word \<Rightarrow> 64 word
     \<Rightarrow> table_id \<Rightarrow> table_id \<Rightarrow> table_id \<Rightarrow> table_id
     \<Rightarrow> FlowEntryList \<Rightarrow> FlowEntryList \<Rightarrow> FlowEntryList
     \<Rightarrow> FlowEntryList \<Rightarrow> FlowEntryList \<Rightarrow> FlowEntryList \<Rightarrow> bool" where
  "reflexive_quintet K log sys prio fl ck fwdTable afterFwd revTable afterRev
       fwd trk est rtrk rallow rrel =
     ((\<forall>e \<in> set fwd. entry_shape K CA_REFLEX_FWD log afterFwd fwdTable EXP_DROP_TABLE_ID
                        prio fl ck sys e)
      \<and> (\<forall>e \<in> set trk. entry_shape K CA_REFLEX_FWD_TRACK log GROUP_MAP_TABLE_ID fwdTable
                           EXP_DROP_TABLE_ID prio fl ck sys e)
      \<and> (\<forall>e \<in> set est. entry_shape K CA_REFLEX_FWD_EST log afterFwd fwdTable EXP_DROP_TABLE_ID
                           prio fl ck sys e)
      \<and> (\<forall>e \<in> set rtrk. entry_shape K CA_REFLEX_REV_TRACK log GROUP_MAP_TABLE_ID revTable
                            EXP_DROP_TABLE_ID prio fl 0 sys e)
      \<and> (\<forall>e \<in> set rallow. entry_shape K CA_REFLEX_REV_ALLOW log afterRev revTable
                              EXP_DROP_TABLE_ID prio fl ck sys e)
      \<and> (\<forall>e \<in> set rrel. entry_shape K CA_REFLEX_REV_RELATED log afterRev revTable
                            EXP_DROP_TABLE_ID prio fl ck sys e))"

definition is_ip :: "16 word \<Rightarrow> bool" where
  "is_ip ethT = (ethT = EtherT_IPV4 \<or> ethT = EtherT_IPV6)"

text \<open>The EtherType of a rule's classifier, and whether one of the effective source subnets
  (destination service ports) of the rule takes part in L3/L4 entries for it.\<close>

definition rule_ethT :: "PolicyRule \<Rightarrow> 16 word" where
  "rule_ethT pc = getOr EtherT_UNSPECIFIED (cls_etherT (pr_l24Classifier pc))"

definition src_applies :: "env \<Rightarrow> PolicyRule \<Rightarrow> bool" where
  "src_applies E pc =
     (\<exists>ss \<in> set (compute_eff_sub (rule_remoteSubs pc)).
        address_applies (env_from_string E) (fst ss) (rule_ethT pc))"

definition dst_applies :: "env \<Rightarrow> PolicyRule \<Rightarrow> bool" where
  "dst_applies E pc =
     (\<exists>ds \<in> set (effDestSvcPorts (rule_remoteSubs pc) (rule_namedSvcPorts pc)).
        address_applies (env_from_string E) (sp_address ds) (rule_ethT pc))"

text \<open>A pattern of the range expander as a block of values: the values from the first
  value of the block up to, and not including, the first value plus two to the number of
  free bits.\<close>

definition in_block :: "nat \<Rightarrow> nat \<times> nat \<Rightarrow> bool" where
  "in_block p b = (fst b \<le> p \<and> p < fst b + 2 ^ snd b)"

text \<open>
  The security-group sets that reach the manager come with the event
  \<^verbatim>\<open>secGroupSetUpdated\<close> and from the endpoint manager's \<^verbatim>\<open>getSecGrpSetsForSecGrp\<close>.
  A set is written under its id string, the URIs of its groups joined by commas; the
  predicates below say that this string is not the key \<open>static\<close> of the static flows.
  The class \<^verbatim>\<open>URI\<close> of the policy model is not among the sources; the string form of
  the URI of a managed object is a path that begins with \<open>/\<close>, as in
  \<^verbatim>\<open>/PolicyUniverse/PolicySpace/t/GbpSecGroup/web/\<close>.
\<close>

definition is_URI :: "string \<Rightarrow> bool" where
  "is_URI u = (case u of [] \<Rightarrow> False | c # cs \<Rightarrow> c = CHR ''/'')"

definition set_ok :: "string list \<Rightarrow> bool" where
  "set_ok secGrps = (getSecGrpSetId secGrps \<noteq> ''static'')"

fun event_ok :: "event \<Rightarrow> bool" where
  "event_ok (SecGroupSetUpdated secGrps) = set_ok secGrps"
| "event_ok ev = True"

definition sets_ok :: "env \<Rightarrow> string \<Rightarrow> bool" where
  "sets_ok E uri = list_all set_ok (epMgr_getSecGrpSetsForSecGrp E uri)"

text \<open>What holds of a started manager at every moment: the flow of the empty
  security-group set is the flow set of the key \<open>static\<close> in both security-group tables,
  the empty set has its id, and no pending update of a security-group set has the key
  \<open>static\<close>.\<close>

definition task_ok :: "task \<Rightarrow> bool" where
  "task_ok t = (case t of HandleSecGrpSetUpdate secGrps idStr \<Rightarrow> idStr \<noteq> ''static'' | _ \<Rightarrow> True)"

definition emptySet_inv :: "flow_consts \<Rightarrow> 32 word \<Rightarrow> AccessFlowManager \<Rightarrow> bool" where
  "emptySet_inv K i s =
     (flows s (''static'', SEC_GROUP_IN_TABLE_ID) = [flowEmptySecGroup K i]
      \<and> flows s (''static'', SEC_GROUP_OUT_TABLE_ID) = [flowEmptySecGroup K i]
      \<and> idmap (idGen s) (ID_NMSPC_SECGROUP_SET, []) = Some i
      \<and> list_all (\<lambda>x. task_ok (snd x)) (taskQueue s))"

text \<open>The combinations of source subnet, destination service port, source port mask and
  destination port mask that the four outer loops of \<^verbatim>\<open>add_classifier_entries\<close> visit,
  in the order of the loops, and whether the addresses of a combination apply to the
  EtherType of the classifier.\<close>

definition combinations ::
  "(16 word option \<Rightarrow> 16 word option \<Rightarrow> MaskList) \<Rightarrow> L24Classifier
     \<Rightarrow> subnet_t list option \<Rightarrow> subnet_t list option \<Rightarrow> service_port_t list option
     \<Rightarrow> (subnet_t \<times> service_port_t \<times> Mask \<times> Mask) list" where
  "combinations masks clsfr sourceSub destSub destNamedAddresses =
     concat (map (\<lambda>ss.
       concat (map (\<lambda>ds.
         concat (map (\<lambda>sm. map (\<lambda>dm. (ss, ds, sm, dm)) (dstPorts masks clsfr))
           (srcPorts masks clsfr)))
         (effDestSvcPorts destSub destNamedAddresses)))
       (compute_eff_sub sourceSub))"

definition combo_applies ::
  "(string \<Rightarrow> address option) \<Rightarrow> L24Classifier
     \<Rightarrow> subnet_t \<times> service_port_t \<times> Mask \<times> Mask \<Rightarrow> bool" where
  "combo_applies from_string clsfr c =
     (address_applies from_string (fst (fst c)) (getOr EtherT_UNSPECIFIED (cls_etherT clsfr))
      \<and> address_applies from_string (sp_address (fst (snd c)))
            (getOr EtherT_UNSPECIFIED (cls_etherT clsfr)))"

text \<open>
  The routing of the rules of a security group in the words of the specification: the
  rules of a system group "go to SYS_SEC_GRP_IN/OUT with after = SEC_GROUP_IN/OUT;
  otherwise to SEC_GROUP_IN/OUT with after = TAP". \<open>routed_rules\<close> hands the rules one
  after the other, each with the cookie allocated for its classifier, to the rule
  compiler with these tables; \<open>routed_group\<close> puts the two lists that come back in the
  place of the two lists of the group's kind and leaves the other two alone.
\<close>

fun routed_rules ::
  "env \<Rightarrow> 32 word \<Rightarrow> bool \<Rightarrow> PolicyRule list \<Rightarrow> IdGenerator
     \<Rightarrow> FlowEntryList \<times> FlowEntryList \<Rightarrow> (FlowEntryList \<times> FlowEntryList) \<times> IdGenerator" where
  "routed_rules E sid system [] g refs = (refs, g)"
| "routed_rules E sid system (pc # rules) g refs =
     (let cookie = ucast (fst (getId ''l24classifierRule'' (cls_uri (pr_l24Classifier pc)) g));
          g' = snd (getId ''l24classifierRule'' (cls_uri (pr_l24Classifier pc)) g)
      in routed_rules E sid system rules g'
           (if system
            then rule_entries E sid SYS_SEC_GRP_IN_TABLE_ID SYS_SEC_GRP_OUT_TABLE_ID
                   SEC_GROUP_IN_TABLE_ID SEC_GROUP_OUT_TABLE_ID True cookie pc refs
            else rule_entries E sid SEC_GROUP_IN_TABLE_ID SEC_GROUP_OUT_TABLE_ID
                   TAP_TABLE_ID TAP_TABLE_ID False cookie pc refs))"

definition routed_group :: "env \<Rightarrow> 32 word \<Rightarrow> string \<Rightarrow> secGrpLists \<Rightarrow> secGrpLists" where
  "routed_group E sid uri L =
     (let rules = polMgr_getSecGroupRules E uri
      in if checkIfSystemSecurityGroup E uri
         then
           let r = routed_rules E sid True rules (lists_idGen L) (sysSecGrpIn L, sysSecGrpOut L)
           in L\<lparr>sysSecGrpIn := fst (fst r), sysSecGrpOut := snd (fst r),
                any_system_sec_rule_configured :=
                  (any_system_sec_rule_configured L \<or> rules \<noteq> []),
                lists_idGen := snd r\<rparr>
         else
           let r = routed_rules E sid False rules (lists_idGen L) (secGrpIn L, secGrpOut L)
           in L\<lparr>secGrpIn := fst (fst r), secGrpOut := snd (fst r), lists_idGen := snd r\<rparr>)"

text \<open>A rule of the L2-only path with an IP protocol: no remote subnets, no named service
  ports, an agent that does not add L3/L4 flows without subnet, and a classifier with
  the protocol set.\<close>

definition l2_only :: "env \<Rightarrow> PolicyRule \<Rightarrow> bool" where
  "l2_only E pc =
     (pr_remoteSubnets pc = [] \<and> pr_namedServicePorts pc = []
      \<and> \<not> agent_addL34FlowsWithoutSubnet E \<and> cls_prot (pr_l24Classifier pc) \<noteq> None)"

text \<open>Some system group of the set has a rule.\<close>

definition system_rule_in :: "env \<Rightarrow> string list \<Rightarrow> bool" where
  "system_rule_in E secGrps =
     list_ex (\<lambda>g. checkIfSystemSecurityGroup E g \<and> polMgr_getSecGroupRules E g \<noteq> []) secGrps"

section \<open>Verification\<close>

subsection \<open>The shape of classifier entries\<close>

lemma same_core_refl: "same_core f f"
  by (simp add: same_core_def)

lemma same_core_trans: "same_core f g \<Longrightarrow> same_core g h \<Longrightarrow> same_core f h"
  by (simp add: same_core_def)

lemma same_core_match_protocol: "same_core f (fst (match_protocol clsfr f))"
  by (simp add: same_core_def match_protocol_def Let_def split: option.splits)

lemma snd_match_protocol: "snd (match_protocol clsfr f) = getOr EtherT_UNSPECIFIED (cls_etherT clsfr)"
  by (simp add: match_protocol_def Let_def)

lemma match_group_core:
  "fb_cookie (match_group prio sv dv f) = fb_cookie f"
  "fb_priority (match_group prio sv dv f) = prio"
  "fb_flags (match_group prio sv dv f) = fb_flags f"
  "m_ctState (match_group prio sv dv f) = m_ctState f"
  "fb_actions (match_group prio sv dv f) = fb_actions f"
  by (simp_all add: match_group_def reg_def Let_def)

lemma apply_sub_core:
  "apply_flow_func (make_flow_functor_sub fs ss) f etht = Some g \<Longrightarrow> same_core f g"
  by (auto simp: apply_flow_func_def make_flow_functor_sub_def applyRemoteSub_def same_core_def
        split: option.splits if_splits)

lemma apply_sp_core:
  "apply_flow_func (make_flow_functor_sp fs ds) f etht = Some g \<Longrightarrow> same_core f g"
  by (auto simp: apply_flow_func_def make_flow_functor_sp_def applyServicePort_def
        servicePort_def Let_def same_core_def split: option.splits if_splits)

lemma is_v6_iff: "is_v6 a = (\<not> is_v4 a)"
  by (cases a) simp_all

lemma apply_sub_Some_iff:
  "(\<exists>g. apply_flow_func (make_flow_functor_sub fs ss) f etht = Some g)
     = address_applies fs (fst ss) etht"
  by (auto simp: apply_flow_func_def make_flow_functor_sub_def applyRemoteSub_def
        address_applies_def family_agrees_def is_v6_iff split: option.splits if_splits)


lemma match_tcp_flags_core: "same_core f (match_tcp_flags K v f)"
  by (simp add: same_core_def match_tcp_flags_def Let_def)

lemma l34_match_deny:
  "l34_match K CA_DENY log nt ct ck tf srcf dstf sm dm fm etht f = Some g \<Longrightarrow>
     fb_cookie g = fb_cookie f \<and> fb_priority g = fb_priority f \<and> fb_flags g = fb_flags f
     \<and> m_ctState g = m_ctState f
     \<and> fb_actions g = fb_actions f @ expected_actions K CA_DENY log nt ct dt ck sys"
  by (auto simp: l34_match_def add_act_def)

lemma l34_match_core:
  assumes "l34_match K a log nt ct ck tf (make_flow_functor_sub fs ss)
             (make_flow_functor_sp fs ds) sm dm fm etht f = Some g"
    and "a \<noteq> CA_DENY"
  shows "same_core f g"
proof (cases "allow_family a")
  case False
  then show ?thesis
    using assms by (auto simp: l34_match_def allow_family_def same_core_refl)
next
  case True
  define g1 where "g1 = (if tf \<noteq> TcpFlags_UNSPECIFIED K then match_tcp_flags K fm f else f)"
  have c1: "same_core f g1"
    by (simp add: g1_def match_tcp_flags_core same_core_refl)
  from assms True obtain g2 g3 where
    g2: "apply_flow_func (make_flow_functor_sub fs ss) g1 etht = Some g2" and
    g3: "apply_flow_func (make_flow_functor_sp fs ds) g2 etht = Some g3" and
    g: "g = (if \<not> isTpDst (g3\<lparr>m_tpSrc := Some (fst sm, Some (snd sm))\<rparr>)
             then g3\<lparr>m_tpSrc := Some (fst sm, Some (snd sm)),
                    m_tpDst := Some (fst dm, Some (snd dm))\<rparr>
             else g3\<lparr>m_tpSrc := Some (fst sm, Some (snd sm))\<rparr>)"
    by (auto simp: l34_match_def allow_family_def g1_def Let_def split: option.splits)
  have "same_core g3 g"
    by (simp add: g same_core_def)
  with c1 apply_sub_core [OF g2] apply_sp_core [OF g3] show ?thesis
    by (blast intro: same_core_trans)
qed

lemma final_actions_fields:
  "fb_cookie (final_actions a log nt ct dt ck sys f) = fb_cookie f"
  "fb_priority (final_actions a log nt ct dt ck sys f) = fb_priority f"
  "fb_flags (final_actions a log nt ct dt ck sys f) = fb_flags f"
  by (simp_all add: final_actions_def add_act_def Let_def)

lemma final_actions_shape:
  assumes "m_ctState f = (if a = CA_REFLEX_FWD \<or> a = CA_REFLEX_FWD_EST then x
                          else expected_ctState a)"
    and "fb_actions f = (if a = CA_DENY then expected_actions K a log nt ct dt ck sys else [])"
    and "a \<noteq> CA_REFLEX_REV_RELATED"
  shows "m_ctState (final_actions a log nt ct dt ck sys f) = expected_ctState a
       \<and> fb_actions (final_actions a log nt ct dt ck sys f)
           = expected_actions K a log nt ct dt ck sys"
  using assms
  by (cases a) (simp_all add: final_actions_def add_act_def Let_def log_action_def)

lemma ct_match_fields:
  "fb_cookie (ct_match a f) = fb_cookie f"
  "fb_priority (ct_match a f) = fb_priority f"
  "fb_flags (ct_match a f) = fb_flags f"
  "fb_actions (ct_match a f) = fb_actions f"
  by (simp_all add: ct_match_def)

lemma ct_match_state:
  "m_ctState f = None \<Longrightarrow>
   m_ctState (ct_match a f) = (if a = CA_REFLEX_FWD \<or> a = CA_REFLEX_FWD_EST
          \<or> a = CA_REFLEX_REV_RELATED then None else expected_ctState a)"
  by (cases a) (auto simp: ct_match_def)

lemma classifier_flow_shape:
  assumes cf: "classifier_flow K clsfr a log nt ct dt prio fl ck sv dv sys
           (make_flow_functor_sub fs ss) (make_flow_functor_sp fs ds) sm dm fm = Some e"
    and a: "a \<noteq> CA_REFLEX_REV_RELATED"
  shows "entry_shape K a log nt ct dt prio fl ck sys e"
proof -
  define f2 where "f2 = ct_match a (FlowBuilder0\<lparr>fb_cookie := ovs_htonll ck, fb_flags := fl\<rparr>)"
  define f3 where "f3 = match_group prio sv dv f2"
  define f4 where "f4 = fst (match_protocol clsfr f3)"
  from cf obtain f5 where
    f5: "l34_match K a log nt ct ck (getOr (TcpFlags_UNSPECIFIED K) (cls_tcpFlags clsfr))
           (make_flow_functor_sub fs ss) (make_flow_functor_sp fs ds) sm dm fm
           (snd (match_protocol clsfr f3)) f4 = Some f5"
    and e: "e = final_actions a log nt ct dt ck sys f5"
    by (auto simp: classifier_flow_def Let_def f2_def f3_def f4_def split: option.splits)
  have f2: "fb_cookie f2 = BE64 ck" "fb_flags f2 = fl" "fb_actions f2 = []"
    "m_ctState f2 = (if a = CA_REFLEX_FWD \<or> a = CA_REFLEX_FWD_EST
          \<or> a = CA_REFLEX_REV_RELATED then None else expected_ctState a)"
    by (simp_all add: f2_def ct_match_fields ct_match_state ovs_htonll_def FlowBuilder0_def)
  have f3: "fb_cookie f3 = BE64 ck" "fb_flags f3 = fl" "fb_actions f3 = []"
    "fb_priority f3 = prio" "m_ctState f3 = m_ctState f2"
    by (simp_all add: f3_def match_group_core f2)
  have f4: "fb_cookie f4 = BE64 ck" "fb_flags f4 = fl" "fb_actions f4 = []"
    "fb_priority f4 = prio" "m_ctState f4 = m_ctState f2"
    using same_core_match_protocol [of f3 clsfr] by (simp_all add: f4_def same_core_def f3)
  have core5: "fb_cookie f5 = BE64 ck \<and> fb_flags f5 = fl \<and> fb_priority f5 = prio
      \<and> m_ctState f5 = m_ctState f2
      \<and> fb_actions f5 = (if a = CA_DENY then expected_actions K a log nt ct dt ck sys else [])"
  proof (cases "a = CA_DENY")
    case True
    with l34_match_deny [of K log nt ct ck _ _ _ sm dm fm _ f4 f5 dt sys] f5 f4 show ?thesis
      by simp
  next
    case False
    with l34_match_core [OF f5] f4 show ?thesis
      by (simp add: same_core_def)
  qed
  have st: "m_ctState f5 = (if a = CA_REFLEX_FWD \<or> a = CA_REFLEX_FWD_EST then None
                          else expected_ctState a)"
    using core5 f2(4) a by simp
  from final_actions_shape [OF st, of K log nt ct dt ck sys] core5 a
  show ?thesis
    by (simp add: entry_shape_def e final_actions_fields)
qed

lemma related_flow_shape:
  assumes "related_flow clsfr nt prio fl (ovs_htonll ck) sv dv = Some e"
  shows "entry_shape K CA_REFLEX_REV_RELATED log nt ct dt prio fl ck sys e"
  using assms
  by (auto simp: related_flow_def Let_def entry_shape_def match_group_def reg_def add_act_def
        ovs_htonll_def FlowBuilder0_def split: if_splits)


lemma apply_sp_Some_iff:
  "(\<exists>g. apply_flow_func (make_flow_functor_sp fs ds) f etht = Some g)
     = address_applies fs (sp_address ds) etht"
  by (auto simp: apply_flow_func_def make_flow_functor_sp_def applyServicePort_def
        address_applies_def family_agrees_def is_v6_iff split: option.splits if_splits)

lemma add_classifier_entries_append:
  "add_classifier_entries K fs gm clsfr a log src dst named nt ct dt prio fl ck sv dv sys entries
     = entries @ add_classifier_entries K fs gm clsfr a log src dst named nt ct dt prio fl ck
                   sv dv sys []"
  by (simp add: add_classifier_entries_def Let_def)

lemma set_map_filter_iff: "(y \<in> set (List.map_filter f xs)) = (\<exists>x \<in> set xs. f x = Some y)"
  by (induction xs) (auto split: option.splits)

lemma classifier_combo_shape:
  assumes "e \<in> set (classifier_combo K clsfr a log nt ct dt prio fl ck sv dv sys
           (make_flow_functor_sub fs ss) (make_flow_functor_sp fs ds) sm dm)"
    and "a \<noteq> CA_REFLEX_REV_RELATED"
  shows "entry_shape K a log nt ct dt prio fl ck sys e"
  using assms
  by (auto simp: classifier_combo_def set_map_filter_iff intro: classifier_flow_shape)

lemma add_classifier_entries_shape:
  assumes "e \<in> set (add_classifier_entries K fs gm clsfr a log src dst named nt ct dt prio fl
             ck sv dv sys [])"
  shows "entry_shape K a log nt ct dt prio fl ck sys e"
proof (cases "a = CA_REFLEX_REV_RELATED")
  case True
  with assms obtain sv' dv' where
    "related_flow clsfr nt prio fl (ovs_htonll ck) sv' dv' = Some e"
    by (auto simp: add_classifier_entries_def Let_def split: option.splits if_splits)
  then show ?thesis
    using True by (simp add: related_flow_shape)
next
  case False
  with assms obtain sv' dv' ss ds sm dm where
    "e \<in> set (classifier_combo K clsfr a log nt ct dt prio fl ck sv' dv' sys
           (make_flow_functor_sub fs ss) (make_flow_functor_sp fs ds) sm dm)"
    by (auto simp: add_classifier_entries_def Let_def)
  then show ?thesis
    using False by (rule classifier_combo_shape)
qed

lemma srcPorts_nonempty: "srcPorts gm clsfr \<noteq> []"
  by (simp add: srcPorts_def Let_def)

lemma dstPorts_nonempty: "dstPorts gm clsfr \<noteq> []"
  by (simp add: dstPorts_def Let_def)

lemma tcpFlagsVec_nonempty: "tcpFlagsVec K clsfr \<noteq> []"
  by (simp add: tcpFlagsVec_def Let_def)

lemma map_filter_nonempty:
  "(List.map_filter f xs \<noteq> []) = (\<exists>x \<in> set xs. \<exists>y. f x = Some y)"
  by (induction xs) (auto split: option.splits)

lemma nonempty_ex: "xs \<noteq> [] \<Longrightarrow> \<exists>x. x \<in> set xs"
  by (cases xs) auto

lemma l34_match_Some_iff:
  assumes "allow_family a"
  shows "(\<exists>g. l34_match K a log nt ct ck tf (make_flow_functor_sub fs ss)
           (make_flow_functor_sp fs ds) sm dm fm etht f = Some g)
        = (address_applies fs (fst ss) etht \<and> address_applies fs (sp_address ds) etht)"
proof -
  define g1 where "g1 = (if tf \<noteq> TcpFlags_UNSPECIFIED K then match_tcp_flags K fm f else f)"
  show ?thesis
  proof (cases "apply_flow_func (make_flow_functor_sub fs ss) g1 etht")
    case None
    with apply_sub_Some_iff [of fs ss g1 etht] assms show ?thesis
      by (auto simp: l34_match_def allow_family_def g1_def Let_def)
  next
    case (Some g2)
    with apply_sub_Some_iff [of fs ss g1 etht] apply_sp_Some_iff [of fs ds g2 etht] assms
    show ?thesis
      by (auto simp: l34_match_def allow_family_def g1_def Let_def split: option.splits)
  qed
qed

lemma classifier_flow_Some_iff:
  "(\<exists>e. classifier_flow K clsfr a log nt ct dt prio fl ck sv dv sys
           (make_flow_functor_sub fs ss) (make_flow_functor_sp fs ds) sm dm fm = Some e)
     = (allow_family a \<longrightarrow>
          address_applies fs (fst ss) (getOr EtherT_UNSPECIFIED (cls_etherT clsfr))
          \<and> address_applies fs (sp_address ds) (getOr EtherT_UNSPECIFIED (cls_etherT clsfr)))"
proof -
  let ?f4 = "fst (match_protocol clsfr (match_group prio sv dv
               (ct_match a (FlowBuilder0\<lparr>fb_cookie := ovs_htonll ck, fb_flags := fl\<rparr>))))"
  let ?l = "l34_match K a log nt ct ck (getOr (TcpFlags_UNSPECIFIED K) (cls_tcpFlags clsfr))
              (make_flow_functor_sub fs ss) (make_flow_functor_sp fs ds) sm dm fm
              (getOr EtherT_UNSPECIFIED (cls_etherT clsfr)) ?f4"
  have eq: "(\<exists>e. classifier_flow K clsfr a log nt ct dt prio fl ck sv dv sys
           (make_flow_functor_sub fs ss) (make_flow_functor_sp fs ds) sm dm fm = Some e)
           = (\<exists>g. ?l = Some g)"
    by (cases ?l) (simp_all add: classifier_flow_def Let_def snd_match_protocol)
  show ?thesis
  proof (cases "allow_family a")
    case True
    then show ?thesis
      unfolding eq by (simp add: l34_match_Some_iff)
  next
    case False
    then show ?thesis
      unfolding eq by (auto simp: l34_match_def allow_family_def)
  qed
qed

lemma classifier_combo_nonempty:
  "(classifier_combo K clsfr a log nt ct dt prio fl ck sv dv sys
           (make_flow_functor_sub fs ss) (make_flow_functor_sp fs ds) sm dm \<noteq> [])
     = (allow_family a \<longrightarrow>
          address_applies fs (fst ss) (getOr EtherT_UNSPECIFIED (cls_etherT clsfr))
          \<and> address_applies fs (sp_address ds) (getOr EtherT_UNSPECIFIED (cls_etherT clsfr)))"
  using nonempty_ex [OF tcpFlagsVec_nonempty [of K clsfr]]
  by (auto simp: classifier_combo_def map_filter_nonempty classifier_flow_Some_iff)

lemma add_classifier_entries_nonempty:
  assumes "a \<noteq> CA_REFLEX_REV_RELATED"
  shows "(add_classifier_entries K fs gm clsfr a log src dst named nt ct dt prio fl
             ck sv dv sys [] \<noteq> [])
     = (\<exists>ss \<in> set (compute_eff_sub src). \<exists>ds \<in> set (effDestSvcPorts dst named).
          allow_family a \<longrightarrow>
          address_applies fs (fst ss) (getOr EtherT_UNSPECIFIED (cls_etherT clsfr))
          \<and> address_applies fs (sp_address ds) (getOr EtherT_UNSPECIFIED (cls_etherT clsfr)))"
  using assms nonempty_ex [OF srcPorts_nonempty [of gm clsfr]]
    nonempty_ex [OF dstPorts_nonempty [of gm clsfr]]
  by (simp add: add_classifier_entries_def Let_def classifier_combo_nonempty)

lemma add_classifier_entries_related_nonempty:
  "(add_classifier_entries K fs gm clsfr CA_REFLEX_REV_RELATED log src dst named nt ct dt prio fl
             ck sv dv sys [] \<noteq> [])
     = (compute_eff_sub src \<noteq> [] \<and> effDestSvcPorts dst named \<noteq> []
        \<and> (getOr EtherT_UNSPECIFIED (cls_etherT clsfr) = EtherT_IPV4
           \<or> getOr EtherT_UNSPECIFIED (cls_etherT clsfr) = EtherT_IPV6))"
  by (cases "compute_eff_sub src"; cases "effDestSvcPorts dst named")
     (simp_all add: add_classifier_entries_def Let_def related_flow_def)

lemma add_classifier_entries_eq:
  "add_classifier_entries K fs gm clsfr a log src dst named nt ct dt prio fl ck sv dv sys entries
     = entries @ appended_entries K fs gm clsfr a log src dst named nt ct dt prio fl ck
                   sv dv sys"
  unfolding appended_entries_def by (rule add_classifier_entries_append)

lemma appended_entries_shape:
  "e \<in> set (appended_entries K fs gm clsfr a log src dst named nt ct dt prio fl ck sv dv sys)
     \<Longrightarrow> entry_shape K a log nt ct dt prio fl ck sys e"
  unfolding appended_entries_def by (rule add_classifier_entries_shape)

subsection \<open>Reflexive rules\<close>

lemma appended_entries_nonempty:
  assumes "a \<noteq> CA_REFLEX_REV_RELATED"
  shows "(appended_entries K fs gm clsfr a log src dst named nt ct dt prio fl ck sv dv sys \<noteq> [])
     = (\<exists>ss \<in> set (compute_eff_sub src). \<exists>ds \<in> set (effDestSvcPorts dst named).
          allow_family a \<longrightarrow>
          address_applies fs (fst ss) (getOr EtherT_UNSPECIFIED (cls_etherT clsfr))
          \<and> address_applies fs (sp_address ds) (getOr EtherT_UNSPECIFIED (cls_etherT clsfr)))"
  unfolding appended_entries_def by (rule add_classifier_entries_nonempty [OF assms])

lemma appended_entries_related_nonempty:
  "(appended_entries K fs gm clsfr CA_REFLEX_REV_RELATED log src dst named nt ct dt prio fl
             ck sv dv sys \<noteq> [])
     = (compute_eff_sub src \<noteq> [] \<and> effDestSvcPorts dst named \<noteq> []
        \<and> is_ip (getOr EtherT_UNSPECIFIED (cls_etherT clsfr)))"
  unfolding appended_entries_def is_ip_def by (rule add_classifier_entries_related_nonempty)

lemma fwd_in_nonempty:
  assumes "allow_family a"
  shows "(appended_entries K fs gm clsfr a log src None None nt ct dt prio fl ck sv dv sys \<noteq> [])
     = (\<exists>ss \<in> set (compute_eff_sub src).
          address_applies fs (fst ss) (getOr EtherT_UNSPECIFIED (cls_etherT clsfr)))"
proof -
  have "a \<noteq> CA_REFLEX_REV_RELATED"
    using assms by (auto simp: allow_family_def)
  then show ?thesis
    using assms
    by (simp add: appended_entries_nonempty effDestSvcPorts_def compute_eff_sub_def
          subnet_as_service_port_def ALL_sub_def address_applies_def)
qed

lemma fwd_out_nonempty:
  assumes "allow_family a"
  shows "(appended_entries K fs gm clsfr a log None dst named nt ct dt prio fl ck sv dv sys \<noteq> [])
     = (\<exists>ds \<in> set (effDestSvcPorts dst named).
          address_applies fs (sp_address ds) (getOr EtherT_UNSPECIFIED (cls_etherT clsfr)))"
proof -
  have "a \<noteq> CA_REFLEX_REV_RELATED"
    using assms by (auto simp: allow_family_def)
  then show ?thesis
    using assms
    by (simp add: appended_entries_nonempty compute_eff_sub_def ALL_sub_def
          address_applies_def)
qed

lemma rev_nonempty:
  assumes "a = CA_REFLEX_REV_TRACK \<or> a = CA_REFLEX_REV_ALLOW"
  shows "(appended_entries K fs gm clsfr a log src dst named nt ct dt prio fl ck sv dv sys \<noteq> [])
     = (compute_eff_sub src \<noteq> [] \<and> effDestSvcPorts dst named \<noteq> [])"
proof -
  have ne: "a \<noteq> CA_REFLEX_REV_RELATED" and na: "allow_family a = False"
    using assms by (auto simp: allow_family_def)
  have 1: "(\<exists>ss \<in> set X. \<exists>ds \<in> set Y. False \<longrightarrow> P ss ds) = (X \<noteq> [] \<and> Y \<noteq> [])"
    for X :: "'x list" and Y :: "'y list" and P
    by (cases X; cases Y) auto
  show ?thesis
    unfolding appended_entries_nonempty [OF ne] na by (rule 1)
qed

lemma rule_dsts_nonempty:
  "l34_path E pc \<Longrightarrow> effDestSvcPorts (rule_remoteSubs pc) (rule_namedSvcPorts pc) \<noteq> []"
  by (auto simp: l34_path_def effDestSvcPorts_def rule_remoteSubs_def rule_namedSvcPorts_def
        compute_eff_sub_def)

lemma eff_none: "compute_eff_sub None \<noteq> []" "effDestSvcPorts None None \<noteq> []"
  by (simp_all add: compute_eff_sub_def effDestSvcPorts_def)

lemma rule_entries_reflexive_in:
  assumes "pr_allow pc"
    and "getOr CONST_NORMAL (cls_connectionTracking (pr_l24Classifier pc)) = CONST_REFLEXIVE"
    and "l34_path E pc" and "pr_direction pc = CONST_IN"
  shows "rule_entries E sid it et ait aet sys ck pc (inL, outL) =
     (inL @ appended_entries (env_consts E) (env_from_string E) (env_getMasks E)
              (pr_l24Classifier pc) CA_REFLEX_FWD (pr_log pc) (rule_remoteSubs pc) None None
              ait it EXP_DROP_TABLE_ID (pr_priority pc)
              (OFPUTIL_FF_SEND_FLOW_REM (env_consts E)) ck sid 0 sys
          @ appended_entries (env_consts E) (env_from_string E) (env_getMasks E)
              (pr_l24Classifier pc) CA_REFLEX_FWD_TRACK (pr_log pc) (rule_remoteSubs pc) None None
              GROUP_MAP_TABLE_ID it EXP_DROP_TABLE_ID (pr_priority pc)
              (OFPUTIL_FF_SEND_FLOW_REM (env_consts E)) ck sid 0 sys
          @ appended_entries (env_consts E) (env_from_string E) (env_getMasks E)
              (pr_l24Classifier pc) CA_REFLEX_FWD_EST (pr_log pc) (rule_remoteSubs pc) None None
              ait it EXP_DROP_TABLE_ID (pr_priority pc)
              (OFPUTIL_FF_SEND_FLOW_REM (env_consts E)) ck sid 0 sys,
      outL @ appended_entries (env_consts E) (env_from_string E) (env_getMasks E)
              (pr_l24Classifier pc) CA_REFLEX_REV_TRACK (pr_log pc) None (rule_remoteSubs pc)
              (rule_namedSvcPorts pc)
              GROUP_MAP_TABLE_ID et EXP_DROP_TABLE_ID (pr_priority pc)
              (OFPUTIL_FF_SEND_FLOW_REM (env_consts E)) 0 sid 0 sys
          @ appended_entries (env_consts E) (env_from_string E) (env_getMasks E)
              (pr_l24Classifier pc) CA_REFLEX_REV_ALLOW (pr_log pc) None (rule_remoteSubs pc)
              (rule_namedSvcPorts pc)
              aet et EXP_DROP_TABLE_ID (pr_priority pc)
              (OFPUTIL_FF_SEND_FLOW_REM (env_consts E)) ck sid 0 sys
          @ appended_entries (env_consts E) (env_from_string E) (env_getMasks E)
              (pr_l24Classifier pc) CA_REFLEX_REV_RELATED (pr_log pc) None (rule_remoteSubs pc)
              (rule_namedSvcPorts pc)
              aet et EXP_DROP_TABLE_ID (pr_priority pc)
              (OFPUTIL_FF_SEND_FLOW_REM (env_consts E)) ck sid 0 sys)"
  using assms
  by (auto simp: rule_entries_def Let_def add_classifier_entries_eq l34_path_def
        rule_remoteSubs_def rule_namedSvcPorts_def)

lemma rule_entries_reflexive_out:
  assumes "pr_allow pc"
    and "getOr CONST_NORMAL (cls_connectionTracking (pr_l24Classifier pc)) = CONST_REFLEXIVE"
    and "l34_path E pc" and "pr_direction pc = CONST_OUT"
  shows "rule_entries E sid it et ait aet sys ck pc (inL, outL) =
     (inL @ appended_entries (env_consts E) (env_from_string E) (env_getMasks E)
              (pr_l24Classifier pc) CA_REFLEX_REV_TRACK (pr_log pc) (rule_remoteSubs pc) None None
              GROUP_MAP_TABLE_ID it EXP_DROP_TABLE_ID (pr_priority pc)
              (OFPUTIL_FF_SEND_FLOW_REM (env_consts E)) 0 sid 0 sys
          @ appended_entries (env_consts E) (env_from_string E) (env_getMasks E)
              (pr_l24Classifier pc) CA_REFLEX_REV_ALLOW (pr_log pc) (rule_remoteSubs pc) None None
              ait it EXP_DROP_TABLE_ID (pr_priority pc)
              (OFPUTIL_FF_SEND_FLOW_REM (env_consts E)) ck sid 0 sys
          @ appended_entries (env_consts E) (env_from_string E) (env_getMasks E)
              (pr_l24Classifier pc) CA_REFLEX_REV_RELATED (pr_log pc) (rule_remoteSubs pc) None None
              ait it EXP_DROP_TABLE_ID (pr_priority pc)
              (OFPUTIL_FF_SEND_FLOW_REM (env_consts E)) ck sid 0 sys,
      outL @ appended_entries (env_consts E) (env_from_string E) (env_getMasks E)
              (pr_l24Classifier pc) CA_REFLEX_FWD (pr_log pc) None (rule_remoteSubs pc)
              (rule_namedSvcPorts pc)
              aet et EXP_DROP_TABLE_ID (pr_priority pc)
              (OFPUTIL_FF_SEND_FLOW_REM (env_consts E)) ck sid 0 sys
          @ appended_entries (env_consts E) (env_from_string E) (env_getMasks E)
              (pr_l24Classifier pc) CA_REFLEX_FWD_TRACK (pr_log pc) None (rule_remoteSubs pc)
              (rule_namedSvcPorts pc)
              GROUP_MAP_TABLE_ID et EXP_DROP_TABLE_ID (pr_priority pc)
              (OFPUTIL_FF_SEND_FLOW_REM (env_consts E)) ck sid 0 sys
          @ appended_entries (env_consts E) (env_from_string E) (env_getMasks E)
              (pr_l24Classifier pc) CA_REFLEX_FWD_EST (pr_log pc) None (rule_remoteSubs pc)
              (rule_namedSvcPorts pc)
              aet et EXP_DROP_TABLE_ID (pr_priority pc)
              (OFPUTIL_FF_SEND_FLOW_REM (env_consts E)) ck sid 0 sys)"
  using assms
  by (auto simp: rule_entries_def Let_def add_classifier_entries_eq l34_path_def
        rule_remoteSubs_def rule_namedSvcPorts_def)

lemma quintetI:
  assumes "fwd = appended_entries K fs gm c CA_REFLEX_FWD log s1 d1 n1 afterFwd fwdTable
                   EXP_DROP_TABLE_ID prio fl ck sv dv sys"
    and "trk = appended_entries K fs gm c CA_REFLEX_FWD_TRACK log s1 d1 n1 GROUP_MAP_TABLE_ID
                   fwdTable EXP_DROP_TABLE_ID prio fl ck sv dv sys"
    and "est = appended_entries K fs gm c CA_REFLEX_FWD_EST log s1 d1 n1 afterFwd fwdTable
                   EXP_DROP_TABLE_ID prio fl ck sv dv sys"
    and "rtrk = appended_entries K fs gm c CA_REFLEX_REV_TRACK log s2 d2 n2 GROUP_MAP_TABLE_ID
                   revTable EXP_DROP_TABLE_ID prio fl 0 sv dv sys"
    and "rallow = appended_entries K fs gm c CA_REFLEX_REV_ALLOW log s2 d2 n2 afterRev
                   revTable EXP_DROP_TABLE_ID prio fl ck sv dv sys"
    and "rrel = appended_entries K fs gm c CA_REFLEX_REV_RELATED log s2 d2 n2 afterRev
                   revTable EXP_DROP_TABLE_ID prio fl ck sv dv sys"
  shows "reflexive_quintet K log sys prio fl ck fwdTable afterFwd revTable afterRev
           fwd trk est rtrk rallow rrel"
  unfolding reflexive_quintet_def assms
  by (intro conjI ballI) (erule appended_entries_shape)+

lemma example_rule_reflexive:
  "pr_allow example_rule"
  "getOr CONST_NORMAL (cls_connectionTracking (pr_l24Classifier example_rule))
     = CONST_REFLEXIVE"
  "l34_path example_env example_rule"
  "pr_direction example_rule = CONST_IN"
  by (simp_all add: example_rule_def example_classifier_def getOr_def l34_path_def)

lemma example_rule_src_applies: "src_applies example_env example_rule"
  by (simp add: src_applies_def rule_remoteSubs_def example_rule_def compute_eff_sub_def
        address_applies_def example_env_def example_from_string_def family_agrees_def
        rule_ethT_def example_classifier_def getOr_def eth_IP_def)

lemma example_rule_is_ip: "is_ip (rule_ethT example_rule)"
  by (simp add: is_ip_def rule_ethT_def example_rule_def example_classifier_def getOr_def
        EtherT_IPV4_def)

lemma example_rule_fields:
  "env_consts example_env = example_consts" "pr_log example_rule = False"
  "pr_priority example_rule = 100"
  by (simp_all add: example_env_def example_rule_def)


text \<open>
  Claim C1. A rule with allow, connection tracking REFLEXIVE and direction IN that takes
  the L3/L4 path appends to the ingress list its forward entries of the three kinds
  \<^verbatim>\<open>CA_REFLEX_FWD\<close>, \<^verbatim>\<open>CA_REFLEX_FWD_TRACK\<close>, \<^verbatim>\<open>CA_REFLEX_FWD_EST\<close> and to the egress list its
  reverse entries of the three kinds \<^verbatim>\<open>CA_REFLEX_REV_TRACK\<close>, \<^verbatim>\<open>CA_REFLEX_REV_ALLOW\<close>,
  \<^verbatim>\<open>CA_REFLEX_REV_RELATED\<close>, in this order and nothing else; for direction OUT the forward
  entries go to the egress list and the reverse entries to the ingress list. Every entry
  has the priority and the flags of the rule, the connection-state match and the actions
  of its kind (\<open>entry_shape\<close>): the track entries match \<open>tracked = 0\<close> and recirculate
  through \<open>ct(zone = reg6)\<close> to GROUP_MAP, the other entries go to the after-table of their
  table, the forward entry commits only for a rule that is not a system rule, and every
  entry carries the cookie of the rule except the reverse-track entries, whose cookie
  is 0. Reverse-related entries exist exactly for the EtherTypes IPv4 and IPv6 and match
  the EtherType and nothing of L3 or L4. The forward entries exist exactly when a source
  subnet (for OUT: a destination) of the rule applies to the rule's EtherType; for IN the
  reverse track and allow entries always exist, for OUT exactly when the rule has a
  remote subnet.
\<close>

theorem reflexive_rule_entries:
  assumes "pr_allow pc"
    and "getOr CONST_NORMAL (cls_connectionTracking (pr_l24Classifier pc)) = CONST_REFLEXIVE"
    and "l34_path E pc"
  shows "(pr_direction pc = CONST_IN \<longrightarrow>
            (\<exists>fwd trk est rtrk rallow rrel.
               rule_entries E sid it et ait aet sys ck pc (inL, outL)
                 = (inL @ fwd @ trk @ est, outL @ rtrk @ rallow @ rrel)
               \<and> reflexive_quintet (env_consts E) (pr_log pc) sys (pr_priority pc)
                     (OFPUTIL_FF_SEND_FLOW_REM (env_consts E)) ck it ait et aet
                     fwd trk est rtrk rallow rrel
               \<and> (fwd \<noteq> []) = src_applies E pc
               \<and> (trk \<noteq> []) = src_applies E pc
               \<and> (est \<noteq> []) = src_applies E pc
               \<and> rtrk \<noteq> [] \<and> rallow \<noteq> []
               \<and> (rrel \<noteq> []) = is_ip (rule_ethT pc)))
       \<and> (pr_direction pc = CONST_OUT \<longrightarrow>
            (\<exists>fwd trk est rtrk rallow rrel.
               rule_entries E sid it et ait aet sys ck pc (inL, outL)
                 = (inL @ rtrk @ rallow @ rrel, outL @ fwd @ trk @ est)
               \<and> reflexive_quintet (env_consts E) (pr_log pc) sys (pr_priority pc)
                     (OFPUTIL_FF_SEND_FLOW_REM (env_consts E)) ck et aet it ait
                     fwd trk est rtrk rallow rrel
               \<and> (fwd \<noteq> []) = dst_applies E pc
               \<and> (trk \<noteq> []) = dst_applies E pc
               \<and> (est \<noteq> []) = dst_applies E pc
               \<and> (rtrk \<noteq> []) = (compute_eff_sub (rule_remoteSubs pc) \<noteq> [])
               \<and> (rallow \<noteq> []) = (compute_eff_sub (rule_remoteSubs pc) \<noteq> [])
               \<and> (rrel \<noteq> [])
                     = (compute_eff_sub (rule_remoteSubs pc) \<noteq> [] \<and> is_ip (rule_ethT pc))))"
proof (intro conjI impI)
  assume dir: "pr_direction pc = CONST_IN"
  note d = rule_dsts_nonempty [OF assms(3)]
  show "\<exists>fwd trk est rtrk rallow rrel.
          rule_entries E sid it et ait aet sys ck pc (inL, outL)
            = (inL @ fwd @ trk @ est, outL @ rtrk @ rallow @ rrel)
          \<and> reflexive_quintet (env_consts E) (pr_log pc) sys (pr_priority pc)
                (OFPUTIL_FF_SEND_FLOW_REM (env_consts E)) ck it ait et aet
                fwd trk est rtrk rallow rrel
          \<and> (fwd \<noteq> []) = src_applies E pc
          \<and> (trk \<noteq> []) = src_applies E pc
          \<and> (est \<noteq> []) = src_applies E pc
          \<and> rtrk \<noteq> [] \<and> rallow \<noteq> []
          \<and> (rrel \<noteq> []) = is_ip (rule_ethT pc)"
    unfolding rule_entries_reflexive_in [OF assms dir]
    apply (intro exI conjI)
           apply (rule refl)
          apply (rule quintetI; rule refl)
         apply (simp_all add: fwd_in_nonempty rev_nonempty appended_entries_related_nonempty
                  allow_family_def eff_none d src_applies_def rule_ethT_def)
    done
next
  assume dir: "pr_direction pc = CONST_OUT"
  note d = rule_dsts_nonempty [OF assms(3)]
  show "\<exists>fwd trk est rtrk rallow rrel.
          rule_entries E sid it et ait aet sys ck pc (inL, outL)
            = (inL @ rtrk @ rallow @ rrel, outL @ fwd @ trk @ est)
          \<and> reflexive_quintet (env_consts E) (pr_log pc) sys (pr_priority pc)
                (OFPUTIL_FF_SEND_FLOW_REM (env_consts E)) ck et aet it ait
                fwd trk est rtrk rallow rrel
          \<and> (fwd \<noteq> []) = dst_applies E pc
          \<and> (trk \<noteq> []) = dst_applies E pc
          \<and> (est \<noteq> []) = dst_applies E pc
          \<and> (rtrk \<noteq> []) = (compute_eff_sub (rule_remoteSubs pc) \<noteq> [])
          \<and> (rallow \<noteq> []) = (compute_eff_sub (rule_remoteSubs pc) \<noteq> [])
          \<and> (rrel \<noteq> [])
                = (compute_eff_sub (rule_remoteSubs pc) \<noteq> [] \<and> is_ip (rule_ethT pc))"
    unfolding rule_entries_reflexive_out [OF assms dir]
    apply (intro exI conjI)
           apply (rule refl)
          apply (rule quintetI; rule refl)
         apply (simp_all add: fwd_out_nonempty rev_nonempty appended_entries_related_nonempty
                  allow_family_def eff_none d dst_applies_def rule_ethT_def)
    done
qed

theorem reflexive_rule_entries_witness:
  "pr_allow example_rule
   \<and> getOr CONST_NORMAL (cls_connectionTracking (pr_l24Classifier example_rule))
       = CONST_REFLEXIVE
   \<and> l34_path example_env example_rule
   \<and> pr_direction example_rule = CONST_IN
   \<and> (\<exists>fwd trk est rtrk rallow rrel.
         rule_entries example_env 1 SEC_GROUP_IN_TABLE_ID SEC_GROUP_OUT_TABLE_ID TAP_TABLE_ID
             TAP_TABLE_ID False 7 example_rule ([], [])
           = (fwd @ trk @ est, rtrk @ rallow @ rrel)
         \<and> reflexive_quintet example_consts False False 100
               (OFPUTIL_FF_SEND_FLOW_REM example_consts) 7
               SEC_GROUP_IN_TABLE_ID TAP_TABLE_ID SEC_GROUP_OUT_TABLE_ID TAP_TABLE_ID
               fwd trk est rtrk rallow rrel
         \<and> fwd \<noteq> [] \<and> trk \<noteq> [] \<and> est \<noteq> [] \<and> rtrk \<noteq> [] \<and> rallow \<noteq> [] \<and> rrel \<noteq> [])"
proof -
  note x = example_rule_reflexive
  note t = reflexive_rule_entries [OF x(1-3), of 1 SEC_GROUP_IN_TABLE_ID
      SEC_GROUP_OUT_TABLE_ID TAP_TABLE_ID TAP_TABLE_ID False 7 "[]" "[]", THEN conjunct1,
      rule_format, OF x(4)]
  show ?thesis
    using t x example_rule_src_applies example_rule_is_ip
    by (simp add: example_rule_fields)
qed


text \<open>
  For the example rule (allow, REFLEXIVE, IN, TCP port 80 from 10.0.0.0/8) the entry of
  the ingress list that matches \<open>tracked = 0\<close> recirculates to GROUP_MAP, and no entry of
  the ingress list recirculates to the ingress table. The same rule without its remote
  subnet, for an agent that does not add L3/L4 flows without subnet, appends no entry
  at all.
\<close>

theorem reflexive_track_recirculates_to_group_map:
  "(\<exists>e \<in> set (fst (rule_entries example_env 1 SEC_GROUP_IN_TABLE_ID SEC_GROUP_OUT_TABLE_ID
                       TAP_TABLE_ID TAP_TABLE_ID False 7 example_rule ([], []))).
      m_ctState e = Some ({}, {CT_TRACKED})
      \<and> fb_actions e = [Conntrack False MFF_REG6 (Some 0) (Some GROUP_MAP_TABLE_ID)])
   \<and> \<not> (\<exists>e \<in> set (fst (rule_entries example_env 1 SEC_GROUP_IN_TABLE_ID
                            SEC_GROUP_OUT_TABLE_ID TAP_TABLE_ID TAP_TABLE_ID False 7
                            example_rule ([], []))).
            Conntrack False MFF_REG6 (Some 0) (Some SEC_GROUP_IN_TABLE_ID)
              \<in> set (fb_actions e))
   \<and> rule_entries example_env 1 SEC_GROUP_IN_TABLE_ID SEC_GROUP_OUT_TABLE_ID TAP_TABLE_ID
        TAP_TABLE_ID False 7 (example_rule\<lparr>pr_remoteSubnets := []\<rparr>) ([], []) = ([], [])"
proof (intro conjI)
  note x = example_rule_reflexive
  note eq = rule_entries_reflexive_in [OF x, of 1 SEC_GROUP_IN_TABLE_ID
      SEC_GROUP_OUT_TABLE_ID TAP_TABLE_ID TAP_TABLE_ID False 7 "[]" "[]"]
  let ?ae = "\<lambda>a nt. appended_entries (env_consts example_env) (env_from_string example_env)
      (env_getMasks example_env) (pr_l24Classifier example_rule) a (pr_log example_rule)
      (rule_remoteSubs example_rule) None None nt SEC_GROUP_IN_TABLE_ID EXP_DROP_TABLE_ID
      (pr_priority example_rule) (OFPUTIL_FF_SEND_FLOW_REM (env_consts example_env)) 7 1 0 False"
  have fst_eq: "fst (rule_entries example_env 1 SEC_GROUP_IN_TABLE_ID SEC_GROUP_OUT_TABLE_ID
                       TAP_TABLE_ID TAP_TABLE_ID False 7 example_rule ([], []))
      = ?ae CA_REFLEX_FWD TAP_TABLE_ID @ ?ae CA_REFLEX_FWD_TRACK GROUP_MAP_TABLE_ID
          @ ?ae CA_REFLEX_FWD_EST TAP_TABLE_ID"
    unfolding eq by simp
  have "?ae CA_REFLEX_FWD_TRACK GROUP_MAP_TABLE_ID \<noteq> []"
    using example_rule_src_applies
    by (simp add: fwd_in_nonempty allow_family_def src_applies_def rule_ethT_def)
  then obtain e where e: "e \<in> set (?ae CA_REFLEX_FWD_TRACK GROUP_MAP_TABLE_ID)"
    using nonempty_ex by blast
  have "m_ctState e = Some ({}, {CT_TRACKED})
      \<and> fb_actions e = [Conntrack False MFF_REG6 (Some 0) (Some GROUP_MAP_TABLE_ID)]"
    using appended_entries_shape [OF e] by (simp add: entry_shape_def)
  with e show "\<exists>e \<in> set (fst (rule_entries example_env 1 SEC_GROUP_IN_TABLE_ID
                       SEC_GROUP_OUT_TABLE_ID
                       TAP_TABLE_ID TAP_TABLE_ID False 7 example_rule ([], []))).
      m_ctState e = Some ({}, {CT_TRACKED})
      \<and> fb_actions e = [Conntrack False MFF_REG6 (Some 0) (Some GROUP_MAP_TABLE_ID)]"
    unfolding fst_eq by auto
  show "\<not> (\<exists>e \<in> set (fst (rule_entries example_env 1 SEC_GROUP_IN_TABLE_ID
                            SEC_GROUP_OUT_TABLE_ID TAP_TABLE_ID TAP_TABLE_ID False 7
                            example_rule ([], []))).
            Conntrack False MFF_REG6 (Some 0) (Some SEC_GROUP_IN_TABLE_ID)
              \<in> set (fb_actions e))"
    unfolding fst_eq
    by (auto dest!: appended_entries_shape simp: entry_shape_def log_action_def)
  show "rule_entries example_env 1 SEC_GROUP_IN_TABLE_ID SEC_GROUP_OUT_TABLE_ID TAP_TABLE_ID
        TAP_TABLE_ID False 7 (example_rule\<lparr>pr_remoteSubnets := []\<rparr>) ([], []) = ([], [])"
    by (simp add: rule_entries_def Let_def add_l2classifier_entries_def example_rule_def
          example_env_def example_classifier_def)
qed

subsection \<open>The flows of an endpoint\<close>

lemma getSecGrpSetId_Nil: "getSecGrpSetId [] = []"
  by (simp add: getSecGrpSetId_def)

lemma flowBypassServiceIP_none:
  "ep_serviceIPs ep = [] \<Longrightarrow> flowBypassServiceIP E [] accessPort uplinkPort ep = []"
  by (auto simp: flowBypassServiceIP_def split: option.splits)

text \<open>
  Claim C2. For an endpoint without security groups, access VLAN, DHCP configuration,
  service IPs, trunked VLANs and floating-IP mappings, whose access interface resolves to
  port A and whose uplink interface resolves to port U, \<^verbatim>\<open>handleEndpointUpdate\<close> leaves
  exactly two flows under the endpoint's UUID in GROUP_MAP. The first has priority 100,
  matches in_port A and tci(0, 0x1fff), sets reg0 to the id of the empty set, reg7 to U and
  the metadata to EGRESS_DIR under the access_meta mask, and goes to SYS_SEC_GRP_OUT; the
  second has priority 100, matches in_port U, sets reg0 to the same id, reg7 to A and the
  metadata to INGRESS_DIR, and goes to SYS_SEC_GRP_IN. When conntrack is enabled and a zone
  is allocated, both flows set reg6 to the zone first. The flow set of the UUID in
  SERVICE_BYPASS is empty.
\<close>

theorem empty_endpoint_flows:
  assumes ep: "epMgr_getEndpoint E uuid = Some ep"
    and empty: "ep_securityGroups ep = []" "ep_accessIfaceVlan ep = None"
      "\<not> ep_DHCPv4Config ep" "\<not> ep_DHCPv6Config ep" "ep_serviceIPs ep = []"
      "trunkVlans E ep = []" "ep_IPAddressMappings ep = []"
    and access: "ep_accessInterface ep = Some accessIface"
      "portMapper_FindPort E accessIface = A" "A \<noteq> OFPP_NONE (env_consts E)"
    and uplink: "ep_accessUplinkInterface ep = Some uplinkIface"
      "portMapper_FindPort E uplinkIface = U" "U \<noteq> OFPP_NONE (env_consts E)"
    and sid: "secGrpSetId = fst (getId ID_NMSPC_SECGROUP_SET [] (idGen s))"
    and zone: "zoneId = (if conntrackEnabled s then fst (ctZone_getId uuid (ctZoneManager s))
                         else - 1)"
    and zoneActs: "zoneActs = (if zoneId \<noteq> - 1 then [SetReg MFF_REG6 (ucast zoneId)] else [])"
  shows "flows (handleEndpointUpdate E uuid s) (uuid, GROUP_MAP_TABLE_ID) =
           [FlowBuilder0\<lparr>fb_priority := 100, m_inPort := Some A, m_tci := Some (0, 0x1fff),
              fb_actions := zoneActs @ [SetReg MFF_REG0 secGrpSetId, SetReg MFF_REG7 U,
                SetMetadata EGRESS_DIR access_meta_MASK, Go SYS_SEC_GRP_OUT_TABLE_ID]\<rparr>,
            FlowBuilder0\<lparr>fb_priority := 100, m_inPort := Some U,
              fb_actions := zoneActs @ [SetReg MFF_REG0 secGrpSetId, SetReg MFF_REG7 A,
                SetMetadata INGRESS_DIR access_meta_MASK, Go SYS_SEC_GRP_IN_TABLE_ID]\<rparr>]
       \<and> flows (handleEndpointUpdate E uuid s) (uuid, SERVICE_BYPASS_TABLE_ID) = []"
proof -
  obtain i g where g: "getId ID_NMSPC_SECGROUP_SET [] (idGen s) = (i, g)"
    by (cases "getId ID_NMSPC_SECGROUP_SET [] (idGen s)")
  obtain z zm where z: "ctZone_getId uuid (ctZoneManager s) = (z, zm)"
    by (cases "ctZone_getId uuid (ctZoneManager s)")
  have gm: "groupMap_flows E ep A U i zid =
           [FlowBuilder0\<lparr>fb_priority := 100, m_inPort := Some A, m_tci := Some (0, 0x1fff),
              fb_actions := (if zid \<noteq> - 1 then [SetReg MFF_REG6 (ucast zid)] else [])
                @ [SetReg MFF_REG0 i, SetReg MFF_REG7 U,
                SetMetadata EGRESS_DIR access_meta_MASK, Go SYS_SEC_GRP_OUT_TABLE_ID]\<rparr>,
            FlowBuilder0\<lparr>fb_priority := 100, m_inPort := Some U,
              fb_actions := (if zid \<noteq> - 1 then [SetReg MFF_REG6 (ucast zid)] else [])
                @ [SetReg MFF_REG0 i, SetReg MFF_REG7 A,
                SetMetadata INGRESS_DIR access_meta_MASK, Go SYS_SEC_GRP_IN_TABLE_ID]\<rparr>]" for zid
    using empty by (simp add: groupMap_flows_def Let_def add_act_def FlowBuilder0_def)
  show ?thesis
    using ep empty(1,5) access uplink g z
    by (simp add: handleEndpointUpdate_def Let_def getSecGrpSetId_Nil gm sid zone zoneActs
          flowBypassServiceIP_none writeFlow_def LOG_def)
qed


theorem empty_endpoint_flows_witness:
  "epMgr_getEndpoint example_env ''ep1'' = Some example_endpoint
   \<and> portMapper_FindPort example_env ''veth0'' = 5
   \<and> portMapper_FindPort example_env ''veth0-up'' = 6
   \<and> map fb_actions (flows (handleEndpointUpdate example_env ''ep1''
          (new_AccessFlowManager example_idGen example_ctZoneManager))
        (''ep1'', GROUP_MAP_TABLE_ID))
       = [[SetReg MFF_REG0 1, SetReg MFF_REG7 6, SetMetadata EGRESS_DIR access_meta_MASK,
           Go SYS_SEC_GRP_OUT_TABLE_ID],
          [SetReg MFF_REG0 1, SetReg MFF_REG7 5, SetMetadata INGRESS_DIR access_meta_MASK,
           Go SYS_SEC_GRP_IN_TABLE_ID]]"
proof -
  let ?s = "new_AccessFlowManager example_idGen example_ctZoneManager"
  have ep: "epMgr_getEndpoint example_env ''ep1'' = Some example_endpoint"
    by (simp add: example_env_def)
  have empty: "ep_securityGroups example_endpoint = []" "ep_accessIfaceVlan example_endpoint = None"
      "\<not> ep_DHCPv4Config example_endpoint" "\<not> ep_DHCPv6Config example_endpoint"
      "ep_serviceIPs example_endpoint = []" "trunkVlans example_env example_endpoint = []"
      "ep_IPAddressMappings example_endpoint = []"
    by (simp_all add: example_endpoint_def trunkVlans_def)
  have access: "ep_accessInterface example_endpoint = Some ''veth0''"
      "portMapper_FindPort example_env ''veth0'' = 5" "5 \<noteq> OFPP_NONE (env_consts example_env)"
    by (simp_all add: example_endpoint_def example_env_def example_consts_def)
  have uplink: "ep_accessUplinkInterface example_endpoint = Some ''veth0-up''"
      "portMapper_FindPort example_env ''veth0-up'' = 6" "6 \<noteq> OFPP_NONE (env_consts example_env)"
    by (simp_all add: example_endpoint_def example_env_def example_consts_def)
  have sid: "fst (getId ID_NMSPC_SECGROUP_SET [] (idGen ?s)) = 1"
    by (simp add: getId_def new_AccessFlowManager_def example_idGen_def Let_def)
  have nz: "\<not> conntrackEnabled ?s"
    by (simp add: new_AccessFlowManager_def)
  from empty_endpoint_flows [OF ep empty access uplink refl refl refl, of ?s]
  have "flows (handleEndpointUpdate example_env ''ep1'' ?s) (''ep1'', GROUP_MAP_TABLE_ID) =
           [FlowBuilder0\<lparr>fb_priority := 100, m_inPort := Some 5, m_tci := Some (0, 0x1fff),
              fb_actions := [SetReg MFF_REG0 1, SetReg MFF_REG7 6,
                SetMetadata EGRESS_DIR access_meta_MASK, Go SYS_SEC_GRP_OUT_TABLE_ID]\<rparr>,
            FlowBuilder0\<lparr>fb_priority := 100, m_inPort := Some 6,
              fb_actions := [SetReg MFF_REG0 1, SetReg MFF_REG7 5,
                SetMetadata INGRESS_DIR access_meta_MASK, Go SYS_SEC_GRP_IN_TABLE_ID]\<rparr>]"
    by (simp add: sid nz)
  then show ?thesis
    using ep access(2) uplink(2) by simp
qed

subsection \<open>System and user security groups\<close>

lemma starts_with_prefix: "starts_with name s = prefix name s"
  by (induction name s rule: starts_with.induct) simp_all

lemma find_str_sublist: "find_str name s = sublist name s"
  by (induction s) (simp_all add: starts_with_prefix sublist_Cons_right)

lemma checkIfSystemSecurityGroup_iff:
  "checkIfSystemSecurityGroup E uri =
     (case domain_token (polMgr_getOpflexDomain E) of
        Some tok \<Rightarrow> sublist (tok @ ''_SystemSecurityGroup'') uri
      | None \<Rightarrow> sublist ''_SystemSecurityGroup'' uri)"
  by (simp add: checkIfSystemSecurityGroup_def domain_token_def Let_def find_str_sublist
        VMM_DOMAIN_DN_PARTS_def split: list.splits)


lemma expected_actions_go:
  "a = CA_REFLEX_FWD_TRACK \<or> a = CA_REFLEX_REV_TRACK \<or> nt = after \<or> nt = EXP_DROP_TABLE_ID
     \<Longrightarrow> list_all (go_allowed after) (expected_actions K a log nt ct dt ck sys)"
  by (cases a) (auto simp: log_action_def)

lemma entry_shape_goes:
  "entry_shape K a log nt ct dt prio fl ck sys e \<Longrightarrow>
   a = CA_REFLEX_FWD_TRACK \<or> a = CA_REFLEX_REV_TRACK \<or> nt = after \<or> nt = EXP_DROP_TABLE_ID
     \<Longrightarrow> goes_only_to after e"
  by (simp add: entry_shape_def goes_only_to_def expected_actions_go)

lemma appended_entries_goes:
  assumes "a = CA_REFLEX_FWD_TRACK \<or> a = CA_REFLEX_REV_TRACK \<or> nt = after
             \<or> nt = EXP_DROP_TABLE_ID"
  shows "set (appended_entries K fs gm clsfr a log src dst named nt ct dt prio fl ck sv dv sys)
           \<subseteq> {e. goes_only_to after e}"
proof
  fix e
  assume "e \<in> set (appended_entries K fs gm clsfr a log src dst named nt ct dt prio fl ck
                      sv dv sys)"
  then have "entry_shape K a log nt ct dt prio fl ck sys e"
    by (rule appended_entries_shape)
  then show "e \<in> {e. goes_only_to after e}"
    using assms by (simp add: entry_shape_goes)
qed

lemma add_l2classifier_entries_goes:
  "nt = after \<or> nt = EXP_DROP_TABLE_ID \<Longrightarrow>
   set (add_l2classifier_entries K clsfr a log nt ct dt prio fl ck sv dv sys entries)
     \<subseteq> set entries \<union> {e. goes_only_to after e}"
  by (auto simp: add_l2classifier_entries_def Let_def goes_only_to_def add_act_def
        match_group_def reg_def match_protocol_def FlowBuilder0_def split: option.splits)

lemma rule_entries_goes_in:
  "set (fst (rule_entries E sid it et ait aet sys ck pc (inL, outL)))
     \<subseteq> set inL \<union> {e. goes_only_to ait e}"
proof -
  note g = appended_entries_goes [of _ _ ait] add_l2classifier_entries_goes [of _ ait]
  show ?thesis
    by (auto simp: rule_entries_def Let_def add_classifier_entries_eq split: prod.splits
          dest!: g [THEN subsetD, rotated])
qed


lemma rule_entries_goes_out:
  "set (snd (rule_entries E sid it et ait aet sys ck pc (inL, outL)))
     \<subseteq> set outL \<union> {e. goes_only_to aet e}"
proof -
  note g = appended_entries_goes [of _ _ aet] add_l2classifier_entries_goes [of _ aet]
  show ?thesis
    by (auto simp: rule_entries_def Let_def add_classifier_entries_eq split: prod.splits
          dest!: g [THEN subsetD, rotated])
qed

lemma routed_as_refl: "routed_as system L L"
  by (simp add: routed_as_def)

lemma rule_step_routed:
  assumes "routed_as system L0 L"
  shows "routed_as system L0 (rule_step E sid system L pc)"
proof (cases system)
  case True
  obtain c g where g: "getId ''l24classifierRule'' (cls_uri (pr_l24Classifier pc))
                         (lists_idGen L) = (c, g)"
    by (cases "getId ''l24classifierRule'' (cls_uri (pr_l24Classifier pc)) (lists_idGen L)")
  obtain i out where r: "rule_entries E sid SYS_SEC_GRP_IN_TABLE_ID SYS_SEC_GRP_OUT_TABLE_ID
        SEC_GROUP_IN_TABLE_ID SEC_GROUP_OUT_TABLE_ID True (ucast c) pc
        (sysSecGrpIn L, sysSecGrpOut L) = (i, out)"
    by (cases "rule_entries E sid SYS_SEC_GRP_IN_TABLE_ID SYS_SEC_GRP_OUT_TABLE_ID
        SEC_GROUP_IN_TABLE_ID SEC_GROUP_OUT_TABLE_ID True (ucast c) pc
        (sysSecGrpIn L, sysSecGrpOut L)")
  have "set i \<subseteq> set (sysSecGrpIn L) \<union> {e. goes_only_to SEC_GROUP_IN_TABLE_ID e}"
    using rule_entries_goes_in [of E sid SYS_SEC_GRP_IN_TABLE_ID SYS_SEC_GRP_OUT_TABLE_ID
        SEC_GROUP_IN_TABLE_ID SEC_GROUP_OUT_TABLE_ID True "ucast c" pc "sysSecGrpIn L"
        "sysSecGrpOut L"] r by simp
  moreover have "set out \<subseteq> set (sysSecGrpOut L) \<union> {e. goes_only_to SEC_GROUP_OUT_TABLE_ID e}"
    using rule_entries_goes_out [of E sid SYS_SEC_GRP_IN_TABLE_ID SYS_SEC_GRP_OUT_TABLE_ID
        SEC_GROUP_IN_TABLE_ID SEC_GROUP_OUT_TABLE_ID True "ucast c" pc "sysSecGrpIn L"
        "sysSecGrpOut L"] r by simp
  ultimately show ?thesis
    using assms True g r by (auto simp: routed_as_def rule_step_def Let_def)
next
  case False
  obtain c g where g: "getId ''l24classifierRule'' (cls_uri (pr_l24Classifier pc))
                         (lists_idGen L) = (c, g)"
    by (cases "getId ''l24classifierRule'' (cls_uri (pr_l24Classifier pc)) (lists_idGen L)")
  obtain i out where r: "rule_entries E sid SEC_GROUP_IN_TABLE_ID SEC_GROUP_OUT_TABLE_ID
        TAP_TABLE_ID TAP_TABLE_ID False (ucast c) pc (secGrpIn L, secGrpOut L) = (i, out)"
    by (cases "rule_entries E sid SEC_GROUP_IN_TABLE_ID SEC_GROUP_OUT_TABLE_ID
        TAP_TABLE_ID TAP_TABLE_ID False (ucast c) pc (secGrpIn L, secGrpOut L)")
  have "set i \<subseteq> set (secGrpIn L) \<union> {e. goes_only_to TAP_TABLE_ID e}"
    using rule_entries_goes_in [of E sid SEC_GROUP_IN_TABLE_ID SEC_GROUP_OUT_TABLE_ID
        TAP_TABLE_ID TAP_TABLE_ID False "ucast c" pc "secGrpIn L" "secGrpOut L"] r by simp
  moreover have "set out \<subseteq> set (secGrpOut L) \<union> {e. goes_only_to TAP_TABLE_ID e}"
    using rule_entries_goes_out [of E sid SEC_GROUP_IN_TABLE_ID SEC_GROUP_OUT_TABLE_ID
        TAP_TABLE_ID TAP_TABLE_ID False "ucast c" pc "secGrpIn L" "secGrpOut L"] r by simp
  ultimately show ?thesis
    using assms False g r by (auto simp: routed_as_def rule_step_def Let_def)
qed

lemma foldl_rule_step_routed:
  "routed_as system L0 L \<Longrightarrow> routed_as system L0 (foldl (rule_step E sid system) L rules)"
  by (induction rules arbitrary: L) (simp_all add: rule_step_routed)

lemma group_step_routed:
  "routed_as (checkIfSystemSecurityGroup E secGrp) L (group_step E sid L secGrp)"
  by (simp add: group_step_def Let_def foldl_rule_step_routed routed_as_refl)

lemma rule_step_flagged:
  "sys_lists_flagged L \<Longrightarrow> sys_lists_flagged (rule_step E sid system L pc)"
  by (auto simp: sys_lists_flagged_def rule_step_def Let_def split: prod.splits)

lemma foldl_rule_step_flagged:
  "sys_lists_flagged L \<Longrightarrow> sys_lists_flagged (foldl (rule_step E sid system) L rules)"
  by (induction rules arbitrary: L) (simp_all add: rule_step_flagged)

lemma foldl_group_step_flagged:
  "sys_lists_flagged L \<Longrightarrow> sys_lists_flagged (foldl (group_step E sid) L secGrps)"
  by (induction secGrps arbitrary: L) (simp_all add: group_step_def foldl_rule_step_flagged)

lemma empty_lists_flagged: "sys_lists_flagged (empty_lists g)"
  by (simp add: sys_lists_flagged_def empty_lists_def)

lemma secGrpSet_lists_flagged: "sys_lists_flagged (secGrpSet_lists E secGrps idStr g0)"
  unfolding secGrpSet_lists_def
  by (rule foldl_group_step_flagged) (rule empty_lists_flagged)

lemma handleSecGrpSetUpdate_flows:
  assumes "\<not> epMgr_secGrpSetEmpty E secGrps"
    and "L = secGrpSet_lists E secGrps idStr (idGen s)"
    and "s' = handleSecGrpSetUpdate E secGrps idStr s"
  shows "flows s' (idStr, SEC_GROUP_IN_TABLE_ID) = secGrpIn L
       \<and> flows s' (idStr, SEC_GROUP_OUT_TABLE_ID) = secGrpOut L
       \<and> flows s' (idStr, SYS_SEC_GRP_IN_TABLE_ID) = sysSecGrpIn L
       \<and> flows s' (idStr, SYS_SEC_GRP_OUT_TABLE_ID) = sysSecGrpOut L"
proof -
  obtain i g where g: "getId ID_NMSPC_SECGROUP_SET idStr (idGen s) = (i, g)"
    by (cases "getId ID_NMSPC_SECGROUP_SET idStr (idGen s)")
  have L: "L = foldl (group_step E i) (empty_lists g) secGrps"
    by (simp add: assms(2) secGrpSet_lists_def g)
  have fl: "sys_lists_flagged L"
    unfolding assms(2) by (rule secGrpSet_lists_flagged)
  show ?thesis
  proof (cases "any_system_sec_rule_configured L")
    case True
    then show ?thesis
      using assms(1) g
      by (simp add: assms(3) handleSecGrpSetUpdate_def Let_def L [symmetric]
            empty_lists_def [symmetric] writeFlow_def)
  next
    case False
    with fl have "sysSecGrpIn L = []" "sysSecGrpOut L = []"
      by (simp_all add: sys_lists_flagged_def)
    with False show ?thesis
      using assms(1) g
      by (simp add: assms(3) handleSecGrpSetUpdate_def Let_def L [symmetric]
            empty_lists_def [symmetric] writeFlow_def clearFlows_def)
  qed
qed


lemma rule_step_system:
  "rule_step E sid True L pc =
     L\<lparr>any_system_sec_rule_configured := True,
       lists_idGen := snd (getId ''l24classifierRule'' (cls_uri (pr_l24Classifier pc))
                            (lists_idGen L)),
       sysSecGrpIn :=
         fst (rule_entries E sid SYS_SEC_GRP_IN_TABLE_ID SYS_SEC_GRP_OUT_TABLE_ID
                SEC_GROUP_IN_TABLE_ID SEC_GROUP_OUT_TABLE_ID True
                (ucast (fst (getId ''l24classifierRule'' (cls_uri (pr_l24Classifier pc))
                               (lists_idGen L))))
                pc (sysSecGrpIn L, sysSecGrpOut L)),
       sysSecGrpOut :=
         snd (rule_entries E sid SYS_SEC_GRP_IN_TABLE_ID SYS_SEC_GRP_OUT_TABLE_ID
                SEC_GROUP_IN_TABLE_ID SEC_GROUP_OUT_TABLE_ID True
                (ucast (fst (getId ''l24classifierRule'' (cls_uri (pr_l24Classifier pc))
                               (lists_idGen L))))
                pc (sysSecGrpIn L, sysSecGrpOut L))\<rparr>"
  by (simp add: rule_step_def Let_def split: prod.splits)

lemma rule_step_user:
  "rule_step E sid False L pc =
     L\<lparr>lists_idGen := snd (getId ''l24classifierRule'' (cls_uri (pr_l24Classifier pc))
                            (lists_idGen L)),
       secGrpIn :=
         fst (rule_entries E sid SEC_GROUP_IN_TABLE_ID SEC_GROUP_OUT_TABLE_ID
                TAP_TABLE_ID TAP_TABLE_ID False
                (ucast (fst (getId ''l24classifierRule'' (cls_uri (pr_l24Classifier pc))
                               (lists_idGen L))))
                pc (secGrpIn L, secGrpOut L)),
       secGrpOut :=
         snd (rule_entries E sid SEC_GROUP_IN_TABLE_ID SEC_GROUP_OUT_TABLE_ID
                TAP_TABLE_ID TAP_TABLE_ID False
                (ucast (fst (getId ''l24classifierRule'' (cls_uri (pr_l24Classifier pc))
                               (lists_idGen L))))
                pc (secGrpIn L, secGrpOut L))\<rparr>"
  by (simp add: rule_step_def Let_def split: prod.splits)

lemma foldl_rule_step_system:
  "foldl (rule_step E sid True) L rules =
     (let r = routed_rules E sid True rules (lists_idGen L) (sysSecGrpIn L, sysSecGrpOut L)
      in L\<lparr>sysSecGrpIn := fst (fst r), sysSecGrpOut := snd (fst r),
           any_system_sec_rule_configured := (any_system_sec_rule_configured L \<or> rules \<noteq> []),
           lists_idGen := snd r\<rparr>)"
proof (induction rules arbitrary: L)
  case Nil
  then show ?case by simp
next
  case (Cons pc rules)
  show ?case
    unfolding foldl_Cons Cons
    by (simp add: rule_step_system Let_def)
qed

lemma foldl_rule_step_user:
  "foldl (rule_step E sid False) L rules =
     (let r = routed_rules E sid False rules (lists_idGen L) (secGrpIn L, secGrpOut L)
      in L\<lparr>secGrpIn := fst (fst r), secGrpOut := snd (fst r), lists_idGen := snd r\<rparr>)"
proof (induction rules arbitrary: L)
  case Nil
  then show ?case by simp
next
  case (Cons pc rules)
  show ?case
    unfolding foldl_Cons Cons
    by (simp add: rule_step_user Let_def)
qed

lemma group_step_routed_group: "group_step E sid L uri = routed_group E sid uri L"
  by (simp add: group_step_def routed_group_def Let_def foldl_rule_step_system
        foldl_rule_step_user)



text \<open>
  Claim C3, as the code has it. \<^verbatim>\<open>checkIfSystemSecurityGroup\<close> classifies a URI as
  a system group exactly when it contains the system name: the domain token followed by
  \<open>_SystemSecurityGroup\<close> when the agent's OpFlex domain path yields a token (four
  components separated by \<open>/\<close>, the third with three tokens separated by \<open>-\<close>, of
  which the third is taken), and the bare literal \<open>_SystemSecurityGroup\<close> otherwise.
  The loop body of \<^verbatim>\<open>handleSecGrpSetUpdate\<close> for one group does what the specification
  says (\<open>routed_group\<close>): every rule of a system group is compiled for the tables
  SYS_SEC_GRP_IN and SYS_SEC_GRP_OUT with the after-tables SEC_GROUP_IN and SEC_GROUP_OUT
  and its entries are added to the lists of the system tables, every rule of another
  group is compiled for SEC_GROUP_IN and SEC_GROUP_OUT with the after-table TAP and its
  entries are added to the lists of the user tables; the two other lists stay as they
  were. The entries that a system group adds go on to SEC_GROUP_IN and SEC_GROUP_OUT (or
  to the drop table) and those of another group to TAP (or to the drop table). For a set
  that some endpoint uses, \<^verbatim>\<open>handleSecGrpSetUpdate\<close> leaves the four lists under the key
  of the set in the four tables.
\<close>

theorem system_group_routing:
  "checkIfSystemSecurityGroup E uri =
     (case domain_token (polMgr_getOpflexDomain E) of
        Some tok \<Rightarrow> sublist (tok @ ''_SystemSecurityGroup'') uri
      | None \<Rightarrow> sublist ''_SystemSecurityGroup'' uri)
   \<and> group_step E secGrpSetId L uri = routed_group E secGrpSetId uri L
   \<and> routed_as (checkIfSystemSecurityGroup E uri) L (group_step E secGrpSetId L uri)
   \<and> (\<not> epMgr_secGrpSetEmpty E secGrps \<longrightarrow>
        flows (handleSecGrpSetUpdate E secGrps idStr s) (idStr, SEC_GROUP_IN_TABLE_ID)
          = secGrpIn (secGrpSet_lists E secGrps idStr (idGen s))
        \<and> flows (handleSecGrpSetUpdate E secGrps idStr s) (idStr, SEC_GROUP_OUT_TABLE_ID)
          = secGrpOut (secGrpSet_lists E secGrps idStr (idGen s))
        \<and> flows (handleSecGrpSetUpdate E secGrps idStr s) (idStr, SYS_SEC_GRP_IN_TABLE_ID)
          = sysSecGrpIn (secGrpSet_lists E secGrps idStr (idGen s))
        \<and> flows (handleSecGrpSetUpdate E secGrps idStr s) (idStr, SYS_SEC_GRP_OUT_TABLE_ID)
          = sysSecGrpOut (secGrpSet_lists E secGrps idStr (idGen s)))"
proof (intro conjI impI)
  show "checkIfSystemSecurityGroup E uri =
     (case domain_token (polMgr_getOpflexDomain E) of
        Some tok \<Rightarrow> sublist (tok @ ''_SystemSecurityGroup'') uri
      | None \<Rightarrow> sublist ''_SystemSecurityGroup'' uri)"
    by (rule checkIfSystemSecurityGroup_iff)
  show "group_step E secGrpSetId L uri = routed_group E secGrpSetId uri L"
    by (rule group_step_routed_group)
  show "routed_as (checkIfSystemSecurityGroup E uri) L (group_step E secGrpSetId L uri)"
    by (rule group_step_routed)
next
  assume ne: "\<not> epMgr_secGrpSetEmpty E secGrps"
  note f = handleSecGrpSetUpdate_flows [OF ne refl refl, of idStr s]
  show "flows (handleSecGrpSetUpdate E secGrps idStr s) (idStr, SEC_GROUP_IN_TABLE_ID)
          = secGrpIn (secGrpSet_lists E secGrps idStr (idGen s))"
    using f by simp
  show "flows (handleSecGrpSetUpdate E secGrps idStr s) (idStr, SEC_GROUP_OUT_TABLE_ID)
          = secGrpOut (secGrpSet_lists E secGrps idStr (idGen s))"
    using f by simp
  show "flows (handleSecGrpSetUpdate E secGrps idStr s) (idStr, SYS_SEC_GRP_IN_TABLE_ID)
          = sysSecGrpIn (secGrpSet_lists E secGrps idStr (idGen s))"
    using f by simp
  show "flows (handleSecGrpSetUpdate E secGrps idStr s) (idStr, SYS_SEC_GRP_OUT_TABLE_ID)
          = sysSecGrpOut (secGrpSet_lists E secGrps idStr (idGen s))"
    using f by simp
qed

lemma example_sys_domain_token:
  "domain_token (polMgr_getOpflexDomain (example_sys_env rules)) = Some ''dom1''"
  by (simp add: example_sys_env_def example_env_def domain_token_def)

lemma example_sys_group_sublist: "sublist ''dom1_SystemSecurityGroup'' example_sys_group"
  by (simp add: example_sys_group_def sublist_Cons_right)

lemma example_sys_env_fields:
  "polMgr_getSecGroupRules (example_sys_env rules) example_sys_group = rules"
  "env_consts (example_sys_env rules) = example_consts"
  "env_from_string (example_sys_env rules) = example_from_string"
  "agent_addL34FlowsWithoutSubnet (example_sys_env rules) = False"
  by (simp_all add: example_sys_env_def example_env_def)

theorem system_group_routing_witness:
  "checkIfSystemSecurityGroup (example_sys_env [example_rule]) example_sys_group
   \<and> polMgr_getSecGroupRules (example_sys_env [example_rule]) example_sys_group
       = [example_rule]
   \<and> sysSecGrpIn (group_step (example_sys_env [example_rule]) 1 (empty_lists example_idGen)
        example_sys_group) \<noteq> []
   \<and> sysSecGrpOut (group_step (example_sys_env [example_rule]) 1 (empty_lists example_idGen)
        example_sys_group) \<noteq> []
   \<and> list_all (goes_only_to SEC_GROUP_IN_TABLE_ID)
        (sysSecGrpIn (group_step (example_sys_env [example_rule]) 1
           (empty_lists example_idGen) example_sys_group))
   \<and> list_all (goes_only_to SEC_GROUP_OUT_TABLE_ID)
        (sysSecGrpOut (group_step (example_sys_env [example_rule]) 1
           (empty_lists example_idGen) example_sys_group))
   \<and> secGrpIn (group_step (example_sys_env [example_rule]) 1 (empty_lists example_idGen)
        example_sys_group) = []
   \<and> secGrpOut (group_step (example_sys_env [example_rule]) 1 (empty_lists example_idGen)
        example_sys_group) = []"
proof -
  let ?E = "example_sys_env [example_rule]"
  let ?Z = "empty_lists example_idGen"
  let ?L = "group_step ?E 1 ?Z example_sys_group"
  note t = system_group_routing [where E = ?E and uri = example_sys_group
      and secGrpSetId = 1 and L = ?Z]
  have c: "checkIfSystemSecurityGroup ?E example_sys_group"
    using t example_sys_group_sublist by (simp add: example_sys_domain_token)
  have eq: "?L = routed_group ?E 1 example_sys_group ?Z"
    using t by (rule conjunct1 [OF conjunct2])
  have ra: "routed_as True ?Z ?L"
    using t [THEN conjunct2, THEN conjunct2, THEN conjunct1] c by simp
  have l34: "l34_path ?E example_rule"
    by (simp add: l34_path_def example_rule_def)
  have sa: "src_applies ?E example_rule"
    using example_rule_src_applies
    by (simp add: src_applies_def example_sys_env_fields example_env_def)
  obtain ck where
    lists: "(sysSecGrpIn ?L, sysSecGrpOut ?L)
        = rule_entries ?E 1 SYS_SEC_GRP_IN_TABLE_ID SYS_SEC_GRP_OUT_TABLE_ID
            SEC_GROUP_IN_TABLE_ID SEC_GROUP_OUT_TABLE_ID True ck example_rule ([], [])"
    unfolding eq using c
    by (simp add: routed_group_def example_sys_env_fields Let_def empty_lists_def)
  note re = rule_entries_reflexive_in [OF example_rule_reflexive(1,2) l34
      example_rule_reflexive(4), of 1 SYS_SEC_GRP_IN_TABLE_ID SYS_SEC_GRP_OUT_TABLE_ID
      SEC_GROUP_IN_TABLE_ID SEC_GROUP_OUT_TABLE_ID True ck "[]" "[]"]
  have i: "sysSecGrpIn ?L \<noteq> []"
    using lists [unfolded re] sa
    by (simp add: fwd_in_nonempty allow_family_def src_applies_def rule_ethT_def)
  have o: "sysSecGrpOut ?L \<noteq> []"
    using lists [unfolded re] rule_dsts_nonempty [OF l34]
    by (simp add: rev_nonempty eff_none)
  have gi: "list_all (goes_only_to SEC_GROUP_IN_TABLE_ID) (sysSecGrpIn ?L)"
    and go: "list_all (goes_only_to SEC_GROUP_OUT_TABLE_ID) (sysSecGrpOut ?L)"
    and ui: "secGrpIn ?L = []" and uo: "secGrpOut ?L = []"
    using ra by (auto simp: routed_as_def empty_lists_def list_all_iff)
  show ?thesis
    using c i o gi go ui uo by (simp add: example_sys_env_fields)
qed

text \<open>The claim as stated fails: with the domain token \<open>dom1\<close>, a URI that contains the
  literal \<open>_SystemSecurityGroup\<close> after another prefix is not a system group.\<close>

theorem system_literal_without_token:
  "sublist ''_SystemSecurityGroup''
     ''/PolicyUniverse/PolicySpace/t/GbpSecGroup/x_SystemSecurityGroup/''
   \<and> \<not> checkIfSystemSecurityGroup example_env
         ''/PolicyUniverse/PolicySpace/t/GbpSecGroup/x_SystemSecurityGroup/''"
  by (simp add: sublist_Cons_right checkIfSystemSecurityGroup_def example_env_def Let_def
        VMM_DOMAIN_DN_PARTS_def)

subsection \<open>Rejected drop-log destinations\<close>

text \<open>
  Claim C4, as the code has it. When \<^verbatim>\<open>setDropLog\<close> rejects the remote IP (a malformed
  string or an IPv6 address), it logs one error and leaves the stored tunnel destination
  as it was; the drop-log interface name and the remote port are nevertheless set to the
  arguments of the call. No flow or TLV is written and no task is queued.
\<close>

theorem setDropLog_rejected:
  assumes "rejected_ip E dropLogRemoteIp"
    and "s' = setDropLog E dropLogPort dropLogRemoteIp remotePort s"
  shows "dropLogDst s' = dropLogDst s
       \<and> dropLogIface s' = dropLogPort
       \<and> dropLogRemotePort s' = remotePort
       \<and> (\<exists>msg. logged s' = logged s @ [(ERROR, msg)])
       \<and> flows s' = flows s \<and> tlvs s' = tlvs s \<and> swcalls s' = swcalls s
       \<and> taskQueue s' = taskQueue s"
  using assms
  by (cases "env_from_string E dropLogRemoteIp")
     (simp_all add: rejected_ip_def setDropLog_def LOG_def Let_def)

theorem setDropLog_rejected_witness:
  "rejected_ip example_env ''fd00::''
   \<and> dropLogDst (setDropLog example_env ''new0'' ''fd00::'' 2
        (new_AccessFlowManager example_idGen example_ctZoneManager)) = V4 0
   \<and> dropLogIface (setDropLog example_env ''new0'' ''fd00::'' 2
        (new_AccessFlowManager example_idGen example_ctZoneManager)) = ''new0''"
  using setDropLog_rejected [of example_env "''fd00::''" _ "''new0''" 2
      "new_AccessFlowManager example_idGen example_ctZoneManager", OF _ refl]
  by (simp add: rejected_ip_def example_env_def example_from_string_def
        new_AccessFlowManager_def)

text \<open>The claim as stated fails: on a new manager, whose interface name is empty and whose
  remote port is 0, the rejected call with an IPv6 destination changes both.\<close>

theorem setDropLog_rejected_changes_config:
  "rejected_ip example_env ''fd00::''
   \<and> \<not> (dropLogIface (setDropLog example_env ''new0'' ''fd00::'' 2
             (new_AccessFlowManager example_idGen example_ctZoneManager))
          = dropLogIface (new_AccessFlowManager example_idGen example_ctZoneManager)
        \<and> dropLogRemotePort (setDropLog example_env ''new0'' ''fd00::'' 2
             (new_AccessFlowManager example_idGen example_ctZoneManager))
          = dropLogRemotePort (new_AccessFlowManager example_idGen example_ctZoneManager))"
  by (simp add: setDropLog_def Let_def LOG_def example_env_def example_from_string_def
        new_AccessFlowManager_def rejected_ip_def)

subsection \<open>Removed endpoints\<close>

lemma writeFlow_flows: "flows (writeFlow k t el s) = (flows s)((k, t) := el)"
  by (simp add: writeFlow_def)

lemma clearFlows_flows: "flows (clearFlows k t s) = (flows s)((k, t) := [])"
  by (simp add: clearFlows_def)

text \<open>Whatever the endpoint, the handler changes the flow sets of its UUID in the group-map
  and service-bypass tables only.\<close>

lemma handleEndpointUpdate_flows:
  "\<exists>el sf. flows (handleEndpointUpdate E uuid s)
      = (flows s)((uuid, GROUP_MAP_TABLE_ID) := el, (uuid, SERVICE_BYPASS_TABLE_ID) := sf)"
  by (auto simp: handleEndpointUpdate_def Let_def writeFlow_def clearFlows_def LOG_def
       split: option.splits prod.splits)

text \<open>
  Claim C5. For a UUID whose endpoint lookup returns absent, \<^verbatim>\<open>handleEndpointUpdate\<close>
  makes exactly two calls on the switch manager, which clear the flow sets of the UUID in
  GROUP_MAP and in SERVICE_BYPASS, and it erases the conntrack zone of the UUID when
  conntrack is enabled; the TLVs, the task queue and the id generator stay as they were.
  These are the only two tables that the handler ever writes under a UUID, so when they
  held the only entries keyed by the UUID, no entry keyed by it remains in any table.
\<close>

theorem handleEndpointUpdate_absent:
  assumes "epMgr_getEndpoint E uuid = None"
    and "s' = handleEndpointUpdate E uuid s"
  shows "flows s' = (flows s)((uuid, GROUP_MAP_TABLE_ID) := [],
                               (uuid, SERVICE_BYPASS_TABLE_ID) := [])
       \<and> swcalls s' = swcalls s @ [ClearFlows uuid GROUP_MAP_TABLE_ID,
                                     ClearFlows uuid SERVICE_BYPASS_TABLE_ID]
       \<and> ctZoneManager s' = (if conntrackEnabled s then ctZone_erase uuid (ctZoneManager s)
                               else ctZoneManager s)
       \<and> (conntrackEnabled s \<longrightarrow> zones (ctZoneManager s') uuid = None)
       \<and> tlvs s' = tlvs s \<and> taskQueue s' = taskQueue s \<and> idGen s' = idGen s
       \<and> ((\<forall>t. t \<noteq> GROUP_MAP_TABLE_ID \<and> t \<noteq> SERVICE_BYPASS_TABLE_ID \<longrightarrow> flows s (uuid, t) = [])
            \<longrightarrow> (\<forall>t. flows s' (uuid, t) = []))"
  using assms
  by (simp add: handleEndpointUpdate_def Let_def clearFlows_def ctZone_erase_def)

theorem handleEndpointUpdate_absent_witness:
  "epMgr_getEndpoint example_env ''gone'' = None
   \<and> conntrackEnabled (enableConnTrack (writeFlow ''gone'' GROUP_MAP_TABLE_ID [FlowBuilder0]
        (new_AccessFlowManager example_idGen example_ctZoneManager)))
   \<and> (\<forall>t. flows (enableConnTrack (writeFlow ''gone'' GROUP_MAP_TABLE_ID [FlowBuilder0]
          (new_AccessFlowManager example_idGen example_ctZoneManager))) (''gone'', t)
        = (if t = GROUP_MAP_TABLE_ID then [FlowBuilder0] else []))
   \<and> (\<forall>t. flows (handleEndpointUpdate example_env ''gone''
        (enableConnTrack (writeFlow ''gone'' GROUP_MAP_TABLE_ID [FlowBuilder0]
          (new_AccessFlowManager example_idGen example_ctZoneManager)))) (''gone'', t) = [])"
  using handleEndpointUpdate_absent [of example_env "''gone''" _
      "enableConnTrack (writeFlow ''gone'' GROUP_MAP_TABLE_ID [FlowBuilder0]
          (new_AccessFlowManager example_idGen example_ctZoneManager))", OF _ refl]
  by (simp add: example_env_def enableConnTrack_def writeFlow_def new_AccessFlowManager_def)

subsection \<open>The flows of the empty security-group set\<close>

lemma getSecGrpSetId_loop_prefix: "prefix ss (getSecGrpSetId_loop b ss xs)"
proof (induction xs arbitrary: b ss)
  case Nil
  show ?case by simp
next
  case (Cons u us)
  have 1: "prefix ss ((if b then ss @ '','' else ss) @ u)"
    by (cases b) (simp_all add: prefix_def)
  have 2: "prefix ((if b then ss @ '','' else ss) @ u)
             (getSecGrpSetId_loop True ((if b then ss @ '','' else ss) @ u) us)"
    by (rule Cons.IH)
  show ?case
    unfolding getSecGrpSetId_loop.simps by (rule prefix_order.trans [OF 1 2])
qed

lemma getSecGrpSetId_not_static:
  assumes "list_all is_URI secGrps"
  shows "getSecGrpSetId secGrps \<noteq> ''static''"
proof (cases secGrps)
  case Nil
  then show ?thesis by (simp add: getSecGrpSetId_def)
next
  case (Cons u us)
  with assms obtain cs where u: "u = CHR ''/'' # cs"
    by (auto simp: is_URI_def split: list.splits)
  have "prefix u (getSecGrpSetId secGrps)"
    using getSecGrpSetId_loop_prefix [where ss = u and b = True and xs = us] by (simp add: Cons getSecGrpSetId_def)
  then obtain zs where "getSecGrpSetId secGrps = u @ zs"
    by (auto simp: prefix_def)
  then show ?thesis
    by (simp add: u)
qed

lemma URIs_set_ok: "list_all is_URI secGrps \<Longrightarrow> set_ok secGrps"
  by (simp add: set_ok_def getSecGrpSetId_not_static)

lemma getId_keeps:
  "getId n str g = (c, g') \<Longrightarrow> idmap g k = Some i \<Longrightarrow> idmap g' k = Some i"
  by (auto simp: getId_def Let_def split: option.splits)

lemma getId_idmap: "getId n str g = (c, g') \<Longrightarrow> idmap g' (n, str) = Some c"
  by (auto simp: getId_def Let_def split: option.splits)

lemma getId_known: "idmap g (n, str) = Some c \<Longrightarrow> getId n str g = (c, g)"
  by (simp add: getId_def)

lemma rule_step_keeps:
  "idmap (lists_idGen L) k = Some i \<Longrightarrow>
   idmap (lists_idGen (rule_step E sid sys L pc)) k = Some i"
  by (auto simp: rule_step_def Let_def split: prod.splits dest: getId_keeps)

lemma foldl_rule_step_keeps:
  "idmap (lists_idGen L) k = Some i \<Longrightarrow>
   idmap (lists_idGen (foldl (rule_step E sid sys) L rules)) k = Some i"
  by (induction rules arbitrary: L) (simp_all add: rule_step_keeps)

lemma foldl_group_step_keeps:
  "idmap (lists_idGen L) k = Some i \<Longrightarrow>
   idmap (lists_idGen (foldl (group_step E sid) L secGrps)) k = Some i"
  by (induction secGrps arbitrary: L) (simp_all add: group_step_def Let_def foldl_rule_step_keeps)

lemma writeFlow_inv:
  "k \<noteq> ''static'' \<or> (t \<noteq> SEC_GROUP_IN_TABLE_ID \<and> t \<noteq> SEC_GROUP_OUT_TABLE_ID) \<Longrightarrow>
   emptySet_inv K i (writeFlow k t el s) = emptySet_inv K i s"
  by (auto simp: emptySet_inv_def writeFlow_def)

lemma clearFlows_inv:
  "k \<noteq> ''static'' \<or> (t \<noteq> SEC_GROUP_IN_TABLE_ID \<and> t \<noteq> SEC_GROUP_OUT_TABLE_ID) \<Longrightarrow>
   emptySet_inv K i (clearFlows k t s) = emptySet_inv K i s"
  by (auto simp: emptySet_inv_def clearFlows_def)

lemma LOG_inv: "emptySet_inv K i (LOG lvl msg s) = emptySet_inv K i s"
  by (simp add: emptySet_inv_def LOG_def)

lemma dispatch_inv:
  "task_ok t \<Longrightarrow> emptySet_inv K i (dispatch key t s) = emptySet_inv K i s"
  by (simp add: emptySet_inv_def dispatch_def)

lemma idGen_inv:
  "emptySet_inv K i s \<Longrightarrow> idmap g (ID_NMSPC_SECGROUP_SET, []) = Some i \<Longrightarrow>
   emptySet_inv K i (s\<lparr>idGen := g\<rparr>)"
  by (simp add: emptySet_inv_def)

lemma handleSecGrpSetUpdate_inv:
  assumes "emptySet_inv K i s" and "idStr \<noteq> ''static''"
  shows "emptySet_inv K i (handleSecGrpSetUpdate E secGrps idStr s)"
proof (cases "epMgr_secGrpSetEmpty E secGrps")
  case True
  then show ?thesis
    using assms by (simp add: handleSecGrpSetUpdate_def clearFlows_inv)
next
  case False
  obtain sid g where g: "getId ID_NMSPC_SECGROUP_SET idStr (idGen s) = (sid, g)"
    by (cases "getId ID_NMSPC_SECGROUP_SET idStr (idGen s)")
  define L where "L = foldl (group_step E sid) (empty_lists g) secGrps"
  have "idmap g (ID_NMSPC_SECGROUP_SET, []) = Some i"
    using assms(1) getId_keeps [OF g] by (simp add: emptySet_inv_def)
  then have "idmap (lists_idGen L) (ID_NMSPC_SECGROUP_SET, []) = Some i"
    unfolding L_def by (intro foldl_group_step_keeps) (simp add: empty_lists_def)
  then have "emptySet_inv K i (s\<lparr>idGen := lists_idGen L\<rparr>)"
    using assms(1) by (rule idGen_inv [rotated])
  then show ?thesis
    using False assms(2) g
    by (simp add: handleSecGrpSetUpdate_def Let_def empty_lists_def [symmetric]
          L_def [symmetric] writeFlow_inv clearFlows_inv)
qed

lemma handleEndpointUpdate_inv:
  assumes "emptySet_inv K i s"
  shows "emptySet_inv K i (handleEndpointUpdate E uuid s)"
proof (cases "epMgr_getEndpoint E uuid")
  case None
  then show ?thesis
    using assms
    by (simp add: handleEndpointUpdate_def Let_def emptySet_inv_def clearFlows_def)
next
  case (Some ep)
  obtain sid g where g: "getId ID_NMSPC_SECGROUP_SET (getSecGrpSetId (ep_securityGroups ep))
                           (idGen s) = (sid, g)"
    by (cases "getId ID_NMSPC_SECGROUP_SET (getSecGrpSetId (ep_securityGroups ep)) (idGen s)")
  have "idmap g (ID_NMSPC_SECGROUP_SET, []) = Some i"
    using assms(1) getId_keeps [OF g] by (simp add: emptySet_inv_def)
  then show ?thesis
    using assms Some g
    by (simp add: handleEndpointUpdate_def Let_def emptySet_inv_def writeFlow_def LOG_def
          split: prod.splits)
qed

lemma endpointUpdated_inv:
  "emptySet_inv K i (endpointUpdated uuid s) = emptySet_inv K i s"
  by (simp add: endpointUpdated_def dispatch_inv task_ok_def)

lemma foldl_endpointUpdated_inv:
  "emptySet_inv K i (foldl (\<lambda>st ep. endpointUpdated ep st) s eps) = emptySet_inv K i s"
  by (induction eps arbitrary: s) (simp_all add: endpointUpdated_inv)

lemma secGroupSetUpdated_inv:
  "set_ok secGrps \<Longrightarrow>
   emptySet_inv K i (secGroupSetUpdated secGrps s) = emptySet_inv K i s"
  by (simp add: secGroupSetUpdated_def Let_def dispatch_inv task_ok_def set_ok_def)

lemma foldl_secGroupSetUpdated_inv:
  "list_all set_ok sets \<Longrightarrow>
   emptySet_inv K i (foldl (\<lambda>st secGrpSet. secGroupSetUpdated secGrpSet st) s sets)
     = emptySet_inv K i s"
  by (induction sets arbitrary: s) (simp_all add: secGroupSetUpdated_inv)

lemma handleDropLogPortUpdate_inv:
  "emptySet_inv K i (handleDropLogPortUpdate E s) = emptySet_inv K i s"
  by (simp add: handleDropLogPortUpdate_def Let_def LOG_inv clearFlows_inv writeFlow_inv)

lemma run_task_inv:
  assumes "emptySet_inv K i s" and "task_ok t" and "\<forall>uri. sets_ok E uri"
  shows "emptySet_inv K i (run_task E t s)"
proof (cases t)
  case (HandleEndpointUpdate uuid)
  then show ?thesis
    using assms(1) by (simp add: run_task_def handleEndpointUpdate_inv)
next
  case (HandleDscpQosUpdate interface dscp)
  then show ?thesis
    using assms(1)
    by (simp add: run_task_def handleDscpQosUpdate_def Let_def clearFlows_inv writeFlow_inv)
next
  case (HandleSecGrpSetUpdate secGrps idStr)
  then show ?thesis
    using assms(1,2) by (simp add: run_task_def handleSecGrpSetUpdate_inv task_ok_def)
next
  case (HandleSecGrpUpdate uri)
  then show ?thesis
    using assms(1,3)
    by (simp add: run_task_def handleSecGrpUpdate_def foldl_secGroupSetUpdated_inv sets_ok_def)
next
  case (HandlePortStatusUpdate portName portNo)
  then show ?thesis
    using assms(1)
    by (simp add: run_task_def handlePortStatusUpdate_def Let_def foldl_endpointUpdated_inv
          handleDropLogPortUpdate_inv)
qed

lemma cleanup_inv: "emptySet_inv K i s \<Longrightarrow> emptySet_inv K i (cleanup E s)"
  by (simp add: cleanup_def Let_def emptySet_inv_def collectGarbage_def
        secGrpSetIdGarbageCb_def ID_NMSPC_SECGROUP_def ID_NMSPC_SECGROUP_SET_def)

lemma dequeue_inv:
  assumes "emptySet_inv K i s" and "n < length (taskQueue s)"
  shows "emptySet_inv K i (s\<lparr>taskQueue := take n (taskQueue s) @ drop (Suc n) (taskQueue s)\<rparr>)"
    and "task_ok (snd (taskQueue s ! n))"
proof -
  have all: "list_all (\<lambda>x. task_ok (snd x)) (taskQueue s)"
    using assms(1) by (simp add: emptySet_inv_def)
  then show "task_ok (snd (taskQueue s ! n))"
    using assms(2) by (simp add: list_all_length)
  have "list_all (\<lambda>x. task_ok (snd x)) (take n (taskQueue s) @ drop (Suc n) (taskQueue s))"
    using all by (auto simp: list_all_iff dest: in_set_takeD in_set_dropD)
  then show "emptySet_inv K i
      (s\<lparr>taskQueue := take n (taskQueue s) @ drop (Suc n) (taskQueue s)\<rparr>)"
    using assms(1) by (simp add: emptySet_inv_def)
qed

lemma step_inv:
  assumes "emptySet_inv K i s" and "event_ok ev" and "\<forall>uri. sets_ok E uri"
  shows "emptySet_inv K i (step E ev s)"
proof (cases ev)
  case (EndpointUpdated uuid)
  then show ?thesis using assms(1) by (simp add: step_def endpointUpdated_inv)
next
  case (DscpQosUpdated interface dscp)
  then show ?thesis
    using assms(1) by (simp add: step_def dscpQosUpdated_def dispatch_inv task_ok_def)
next
  case (SecGroupSetUpdated secGrps)
  then show ?thesis
    using assms(1,2) by (simp add: step_def secGroupSetUpdated_inv)
next
  case (SecGroupUpdated uri)
  then show ?thesis
    using assms(1) by (simp add: step_def secGroupUpdated_def dispatch_inv task_ok_def)
next
  case (ConfigUpdated uri)
  then show ?thesis
    using assms(1) by (simp add: step_def configUpdated_def enableSync_def emptySet_inv_def)
next
  case (PortStatusUpdate portName portNo)
  then show ?thesis
    using assms(1) by (simp add: step_def portStatusUpdate_def dispatch_inv task_ok_def)
next
  case (PacketDropLogConfigUpdated uri)
  then show ?thesis
    using assms(1)
    by (simp add: step_def packetDropLogConfigUpdated_def LOG_inv writeFlow_inv
          clearFlows_inv split: option.splits)
next
  case (PacketDropFlowConfigUpdated uri)
  then show ?thesis
    using assms(1)
    by (simp add: step_def packetDropFlowConfigUpdated_def writeFlow_inv clearFlows_inv
          split: option.splits sum.splits)
next
  case (LbIfaceUpdated uuid)
  then show ?thesis
    using assms(1)
    by (simp add: step_def lbIfaceUpdated_def foldl_endpointUpdated_inv split: option.splits)
next
  case (RdConfigUpdated uri)
  then show ?thesis using assms(1) by (simp add: step_def rdConfigUpdated_def)
next
  case (SetDropLog port ip rport)
  then show ?thesis
    using assms(1)
    by (simp add: step_def setDropLog_def Let_def LOG_def emptySet_inv_def
          split: option.splits)
next
  case EnableConnTrack
  then show ?thesis
    using assms(1) by (simp add: step_def enableConnTrack_def emptySet_inv_def)
next
  case Stop
  then show ?thesis using assms(1) by (simp add: step_def stop_def emptySet_inv_def)
next
  case Cleanup
  then show ?thesis using assms(1) by (simp add: step_def cleanup_inv)
next
  case (RunTask n)
  show ?thesis
  proof (cases "n < length (taskQueue s)")
    case True
    note d = dequeue_inv [OF assms(1) True]
    show ?thesis
      using True run_task_inv [OF d(1) d(2) assms(3)] by (simp add: step_def RunTask)
  next
    case False
    then show ?thesis using assms(1) by (simp add: step_def RunTask)
  qed
qed

lemma run_inv:
  "emptySet_inv K i s \<Longrightarrow> list_all (\<lambda>x. event_ok (snd x)) evs \<Longrightarrow>
   \<forall>x \<in> set evs. \<forall>uri. sets_ok (fst x) uri \<Longrightarrow> emptySet_inv K i (run evs s)"
proof (induction evs arbitrary: s)
  case Nil
  then show ?case by simp
next
  case (Cons x evs)
  obtain E ev where x: "x = (E, ev)" by (cases x)
  have "emptySet_inv K i (step E ev s)"
    using Cons.prems by (intro step_inv) (simp_all add: x)
  then show ?case
    using Cons.prems by (simp add: x Cons.IH)
qed


lemma writeFlow_fields:
  "idGen (writeFlow k t el s) = idGen s" "taskQueue (writeFlow k t el s) = taskQueue s"
  by (simp_all add: writeFlow_def)

lemma writeTlv_fields:
  "idGen (writeTlv k el s) = idGen s" "taskQueue (writeTlv k el s) = taskQueue s"
  by (simp_all add: writeTlv_def)

lemma handleDropLogPortUpdate_fields:
  "idGen (handleDropLogPortUpdate E s) = idGen s"
  "taskQueue (handleDropLogPortUpdate E s) = taskQueue s"
  by (simp_all add: handleDropLogPortUpdate_def Let_def LOG_def clearFlows_def writeFlow_def)

lemma foldl_writeFlow_fields:
  "idGen (foldl (\<lambda>st t. writeFlow k t (f t) st) s ts) = idGen s"
  "taskQueue (foldl (\<lambda>st t. writeFlow k t (f t) st) s ts) = taskQueue s"
  by (induction ts arbitrary: s) (simp_all add: writeFlow_fields)

lemma createStaticFlows_inv:
  assumes "taskQueue s = []"
  shows "emptySet_inv (env_consts E) (fst (getId ID_NMSPC_SECGROUP_SET [] (idGen s)))
           (createStaticFlows E s)"
proof -
  obtain i g where g: "getId ID_NMSPC_SECGROUP_SET [] (idGen s) = (i, g)"
    by (cases "getId ID_NMSPC_SECGROUP_SET [] (idGen s)")
  show ?thesis
    using assms getId_idmap [OF g]
    by (simp add: createStaticFlows_def Let_def emptySet_inv_def writeFlow_fields
          writeTlv_fields handleDropLogPortUpdate_fields foldl_writeFlow_fields g
          writeFlow_flows)
qed

lemma start_inv:
  "emptySet_inv (env_consts E) (fst (getId ID_NMSPC_SECGROUP_SET [] g))
     (start E (new_AccessFlowManager g z))"
  using createStaticFlows_inv [of "(new_AccessFlowManager g z)\<lparr>listening := True\<rparr>" E]
  by (simp add: start_def new_AccessFlowManager_def)

lemma flowEmptySecGroup_fields:
  "fb_priority (flowEmptySecGroup K i) = MAX_POLICY_RULE_PRIORITY K"
  "fb_actions (flowEmptySecGroup K i) = [Go TAP_TABLE_ID]"
  "m_reg (flowEmptySecGroup K i) 0 = (if i = 0 then None else Some i)"
  "m_reg (flowEmptySecGroup K i) (Suc n) = None"
  "m_ethType (flowEmptySecGroup K i) = None" "m_proto (flowEmptySecGroup K i) = None"
  "m_ipSrc (flowEmptySecGroup K i) = None" "m_ipDst (flowEmptySecGroup K i) = None"
  "m_tpSrc (flowEmptySecGroup K i) = None" "m_tpDst (flowEmptySecGroup K i) = None"
  "m_ctState (flowEmptySecGroup K i) = None" "m_inPort (flowEmptySecGroup K i) = None"
  "m_metadata (flowEmptySecGroup K i) = None"
  by (simp_all add: flowEmptySecGroup_def match_group_def add_act_def reg_def FlowBuilder0_def
        Let_def)

text \<open>
  Claim C6, as the code has it. \<^verbatim>\<open>createStaticFlows\<close>, which \<^verbatim>\<open>start\<close> runs on the new
  manager, allocates the id of the empty security-group set and writes under the key
  \<open>static\<close>, into SEC_GROUP_IN and into SEC_GROUP_OUT, the one flow that has the highest
  policy priority, matches register 0 against this id and nothing else (an id 0 would be
  no match at all), and goes to TAP. After any sequence of callbacks, method calls,
  clean-ups and runs of pending tasks in which no security-group set has the id string
  \<open>static\<close>, this flow still is the flow set of the key \<open>static\<close> in both tables, and the
  empty set still has the same id: asking the id generator again returns it and changes
  nothing.
\<close>

theorem empty_set_flows_persist:
  assumes "list_all (\<lambda>x. event_ok (snd x)) evs"
    and "\<forall>x \<in> set evs. \<forall>uri. sets_ok (fst x) uri"
    and "s = run evs (start E (new_AccessFlowManager g z))"
    and "emptyId = fst (getId ID_NMSPC_SECGROUP_SET [] g)"
    and "f = flowEmptySecGroup (env_consts E) emptyId"
  shows "flows (start E (new_AccessFlowManager g z)) (''static'', SEC_GROUP_IN_TABLE_ID) = [f]
       \<and> flows (start E (new_AccessFlowManager g z)) (''static'', SEC_GROUP_OUT_TABLE_ID) = [f]
       \<and> flows s (''static'', SEC_GROUP_IN_TABLE_ID) = [f]
       \<and> flows s (''static'', SEC_GROUP_OUT_TABLE_ID) = [f]
       \<and> idmap (idGen s) (ID_NMSPC_SECGROUP_SET, []) = Some emptyId
       \<and> getId ID_NMSPC_SECGROUP_SET [] (idGen s) = (emptyId, idGen s)
       \<and> fb_priority f = MAX_POLICY_RULE_PRIORITY (env_consts E)
       \<and> fb_actions f = [Go TAP_TABLE_ID]
       \<and> m_reg f 0 = (if emptyId = 0 then None else Some emptyId)
       \<and> m_reg f 1 = None \<and> m_reg f 2 = None
       \<and> m_inPort f = None \<and> m_metadata f = None \<and> m_ethType f = None \<and> m_proto f = None
       \<and> m_ipSrc f = None \<and> m_ipDst f = None \<and> m_tpSrc f = None \<and> m_tpDst f = None
       \<and> m_ctState f = None"
proof -
  have i0: "emptySet_inv (env_consts E) emptyId (start E (new_AccessFlowManager g z))"
    unfolding assms(4) by (rule start_inv)
  have i: "emptySet_inv (env_consts E) emptyId s"
    unfolding assms(3) by (rule run_inv [OF i0 assms(1,2)])
  have k: "getId ID_NMSPC_SECGROUP_SET [] (idGen s) = (emptyId, idGen s)"
    using i by (intro getId_known) (simp add: emptySet_inv_def)
  have r: "m_reg f 1 = None" "m_reg f 2 = None"
    using flowEmptySecGroup_fields(4) [of "env_consts E" emptyId 0]
      flowEmptySecGroup_fields(4) [of "env_consts E" emptyId 1]
    by (simp_all add: assms(5) numeral_2_eq_2)
  show ?thesis
    using i0 i k r
    by (simp add: emptySet_inv_def assms(5) flowEmptySecGroup_fields)
qed

lemma stopping_fields:
  "stopping (writeFlow k t el s) = stopping s" "stopping (writeTlv k2 el2 s) = stopping s"
  "stopping (handleDropLogPortUpdate E s) = stopping s"
  "stopping (foldl (\<lambda>st t. writeFlow k t (f t) st) s ts) = stopping s"
proof -
  show w: "stopping (writeFlow k t el s) = stopping s" for k t el s
    by (simp add: writeFlow_def)
  show "stopping (writeTlv k2 el2 s) = stopping s"
    by (simp add: writeTlv_def)
  show "stopping (handleDropLogPortUpdate E s) = stopping s"
    by (simp add: handleDropLogPortUpdate_def Let_def LOG_def clearFlows_def writeFlow_def)
  show "stopping (foldl (\<lambda>st t. writeFlow k t (f t) st) s ts) = stopping s"
    by (induction ts arbitrary: s) (simp_all add: w)
qed

lemma start_fields:
  "taskQueue (start E (new_AccessFlowManager g z)) = []"
  "stopping (start E (new_AccessFlowManager g z)) = False"
  by (simp_all add: start_def createStaticFlows_def Let_def writeFlow_fields writeTlv_fields
        handleDropLogPortUpdate_fields foldl_writeFlow_fields stopping_fields
        new_AccessFlowManager_def split: prod.splits)

lemma example_emptyId: "fst (getId ID_NMSPC_SECGROUP_SET [] example_idGen) = 1"
  by (simp add: getId_def example_idGen_def)

lemma example_sets_ok: "sets_ok example_env uri"
  by (simp add: sets_ok_def example_env_def)

theorem empty_set_flows_persist_witness:
  "list_all (\<lambda>x. event_ok (snd x))
     [(example_env, SecGroupSetUpdated [''/PolicyUniverse/PolicySpace/t/GbpSecGroup/web/'']),
      (example_env, RunTask 0), (example_env, EndpointUpdated ''ep1''),
      (example_env, RunTask 0), (example_env, Cleanup)]
   \<and> (\<forall>uri. sets_ok example_env uri)
   \<and> flows (run [(example_env,
                    SecGroupSetUpdated [''/PolicyUniverse/PolicySpace/t/GbpSecGroup/web/'']),
                  (example_env, RunTask 0), (example_env, EndpointUpdated ''ep1''),
                  (example_env, RunTask 0), (example_env, Cleanup)]
              (start example_env (new_AccessFlowManager example_idGen example_ctZoneManager)))
        (''static'', SEC_GROUP_IN_TABLE_ID) = [flowEmptySecGroup example_consts 1]
   \<and> flows (run [(example_env,
                    SecGroupSetUpdated [''/PolicyUniverse/PolicySpace/t/GbpSecGroup/web/'']),
                  (example_env, RunTask 0), (example_env, EndpointUpdated ''ep1''),
                  (example_env, RunTask 0), (example_env, Cleanup)]
              (start example_env (new_AccessFlowManager example_idGen example_ctZoneManager)))
        (''static'', SEC_GROUP_OUT_TABLE_ID) = [flowEmptySecGroup example_consts 1]
   \<and> idmap (idGen (run [(example_env,
                    SecGroupSetUpdated [''/PolicyUniverse/PolicySpace/t/GbpSecGroup/web/'']),
                  (example_env, RunTask 0), (example_env, EndpointUpdated ''ep1''),
                  (example_env, RunTask 0), (example_env, Cleanup)]
              (start example_env (new_AccessFlowManager example_idGen example_ctZoneManager))))
        (ID_NMSPC_SECGROUP_SET, []) = Some 1
   \<and> m_reg (flowEmptySecGroup example_consts 1) 0 = Some 1
   \<and> fb_actions (flowEmptySecGroup example_consts 1) = [Go TAP_TABLE_ID]"
proof -
  let ?evs = "[(example_env,
                  SecGroupSetUpdated [''/PolicyUniverse/PolicySpace/t/GbpSecGroup/web/'']),
               (example_env, RunTask 0), (example_env, EndpointUpdated ''ep1''),
               (example_env, RunTask 0), (example_env, Cleanup)]"
  have ev: "list_all (\<lambda>x. event_ok (snd x)) ?evs"
    by (simp add: set_ok_def getSecGrpSetId_def)
  have so2: "\<forall>uri. sets_ok example_env uri"
    by (rule allI) (rule example_sets_ok)
  have so: "\<forall>x \<in> set ?evs. \<forall>uri. sets_ok (fst x) uri"
    using so2 by simp
  have k: "env_consts example_env = example_consts"
    by (simp add: example_env_def)
  note t = empty_set_flows_persist [OF ev so refl refl refl,
      where g = example_idGen and z = example_ctZoneManager and E = example_env,
      unfolded example_emptyId k]
  show ?thesis
    using t ev so2 by simp
qed

text \<open>
  The claim as stated fails for the security-group set of the one URI \<open>static\<close>, whose id
  string is the key of the static flows: the update of this set, which has no rules,
  leaves the key \<open>static\<close> without any flow in both security-group tables.
\<close>

theorem static_key_of_set_named_static:
  "flows (start example_env (new_AccessFlowManager example_idGen example_ctZoneManager))
     (''static'', SEC_GROUP_IN_TABLE_ID) = [flowEmptySecGroup example_consts 1]
   \<and> flows (start example_env (new_AccessFlowManager example_idGen example_ctZoneManager))
       (''static'', SEC_GROUP_OUT_TABLE_ID) = [flowEmptySecGroup example_consts 1]
   \<and> flows (run [(example_env, SecGroupSetUpdated [''static'']), (example_env, RunTask 0)]
              (start example_env (new_AccessFlowManager example_idGen example_ctZoneManager)))
       (''static'', SEC_GROUP_IN_TABLE_ID) = []
   \<and> flows (run [(example_env, SecGroupSetUpdated [''static'']), (example_env, RunTask 0)]
              (start example_env (new_AccessFlowManager example_idGen example_ctZoneManager)))
       (''static'', SEC_GROUP_OUT_TABLE_ID) = []"
proof -
  let ?s = "start example_env (new_AccessFlowManager example_idGen example_ctZoneManager)"
  have k: "env_consts example_env = example_consts"
    by (simp add: example_env_def)
  have i: "emptySet_inv example_consts 1 ?s"
    using start_inv [of example_env example_idGen example_ctZoneManager]
    by (simp add: example_emptyId k)
  have r: "run [(example_env, SecGroupSetUpdated [''static'']), (example_env, RunTask 0)] ?s
      = handleSecGrpSetUpdate example_env [''static''] ''static'' (?s\<lparr>taskQueue := []\<rparr>)"
    by (simp add: step_def secGroupSetUpdated_def Let_def start_fields dispatch_def
          getSecGrpSetId_def run_task_def)
  have ne: "\<not> epMgr_secGrpSetEmpty example_env [''static'']"
    by (simp add: example_env_def)
  have L: "secGrpIn (secGrpSet_lists example_env [''static''] ''static'' g) = []"
    "secGrpOut (secGrpSet_lists example_env [''static''] ''static'' g) = []" for g
    by (simp_all add: secGrpSet_lists_def group_step_def Let_def example_env_def
          empty_lists_def)
  note f = handleSecGrpSetUpdate_flows [OF ne refl refl, of "''static''" "?s\<lparr>taskQueue := []\<rparr>"]
  show ?thesis
    using i f unfolding r by (simp add: emptySet_inv_def L)
qed

subsection \<open>Range expansion\<close>

lemma masks_in_bounds:
  "b \<in> set (masks_in k base lo hi) \<Longrightarrow>
     base \<le> fst b \<and> fst b + 2 ^ snd b \<le> base + 2 ^ k \<and> snd b \<le> k"
proof (induction k arbitrary: base)
  case 0
  then show ?case by (auto split: if_splits)
next
  case (Suc k)
  show ?case
    using Suc.prems Suc.IH [of base] Suc.IH [of "base + 2 ^ k"]
    by (fastforce split: if_splits)
qed

lemma masks_in_aligned:
  "b \<in> set (masks_in k base lo hi) \<Longrightarrow> 2 ^ k dvd base \<Longrightarrow> 2 ^ snd b dvd fst b"
proof (induction k arbitrary: base)
  case 0
  then show ?case by (auto split: if_splits)
next
  case (Suc k)
  have d1: "2 ^ k dvd base"
    using Suc.prems(2) by (metis dvd_mult_right power_Suc)
  then have d2: "2 ^ k dvd base + 2 ^ k" by simp
  show ?case
    using Suc.prems Suc.IH [OF _ d1] Suc.IH [OF _ d2]
    by (fastforce split: if_splits)
qed

lemma masks_in_cover:
  "base \<le> p \<Longrightarrow> p < base + 2 ^ k \<Longrightarrow>
     (\<exists>b \<in> set (masks_in k base lo hi). in_block p b) = (lo \<le> p \<and> p \<le> hi)"
proof (induction k arbitrary: base)
  case 0
  then show ?case by (auto simp: in_block_def)
next
  case (Suc k)
  let ?A = "masks_in k base lo hi" and ?B = "masks_in k (base + 2 ^ k) lo hi"
  have split: "(\<exists>b \<in> set (?A @ ?B). in_block p b) = (lo \<le> p \<and> p \<le> hi)"
  proof (cases "p < base + 2 ^ k")
    case True
    have "\<not> in_block p b" if "b \<in> set ?B" for b
      using masks_in_bounds [OF that] True by (simp add: in_block_def)
    then have "(\<exists>b \<in> set (?A @ ?B). in_block p b) = (\<exists>b \<in> set ?A. in_block p b)"
      by auto
    then show ?thesis
      using Suc.IH [OF Suc.prems(1) True] by simp
  next
    case False
    then have 1: "base + 2 ^ k \<le> p" by simp
    have 2: "p < base + 2 ^ k + 2 ^ k"
      using Suc.prems(2) by simp
    have "\<not> in_block p b" if "b \<in> set ?A" for b
      using masks_in_bounds [OF that] False by (simp add: in_block_def)
    then have "(\<exists>b \<in> set (?A @ ?B). in_block p b) = (\<exists>b \<in> set ?B. in_block p b)"
      by auto
    then show ?thesis
      using Suc.IH [OF 1 2] by simp
  qed
  show ?case
  proof (cases "hi < base \<or> base + 2 ^ Suc k \<le> lo")
    case True
    then show ?thesis
      using Suc.prems by auto
  next
    case False
    note nf = False
    show ?thesis
    proof (cases "lo \<le> base \<and> base + 2 ^ Suc k \<le> hi + 1")
      case True
      then show ?thesis
        using Suc.prems nf by (auto simp: in_block_def)
    next
      case False
      then show ?thesis
        using nf split by auto
    qed
  qed
qed

lemma and_not_mask_eq_iff:
  "(p AND NOT (mask j) = q AND NOT (mask j)) = (drop_bit j p = drop_bit j q)"
  for p q :: "16 word"
proof
  assume a: "p AND NOT (mask j) = q AND NOT (mask j)"
  show "drop_bit j p = drop_bit j q"
  proof (rule bit_word_eqI)
    fix n
    from a have "bit (p AND NOT (mask j)) (j + n) = bit (q AND NOT (mask j)) (j + n)"
      by simp
    then show "bit (drop_bit j p) n = bit (drop_bit j q) n"
      by (auto simp: bit_simps dest: bit_imp_le_length)
  qed
next
  assume a: "drop_bit j p = drop_bit j q"
  show "p AND NOT (mask j) = q AND NOT (mask j)"
  proof (rule bit_word_eqI)
    fix n
    show "bit (p AND NOT (mask j)) n = bit (q AND NOT (mask j)) n"
    proof (cases "n < j")
      case True
      then show ?thesis by (simp add: bit_simps)
    next
      case False
      from a have "bit (drop_bit j p) (n - j) = bit (drop_bit j q) (n - j)"
        by simp
      with False show ?thesis by (simp add: bit_simps)
    qed
  qed
qed

lemma div_eq_block:
  fixes p v :: nat
  assumes "2 ^ j dvd v"
  shows "(p div 2 ^ j = v div 2 ^ j) = (v \<le> p \<and> p < v + 2 ^ j)"
proof -
  obtain m where v: "v = 2 ^ j * m"
    using assms by (auto elim: dvdE)
  have "(p div 2 ^ j = m) = (2 ^ j * m \<le> p \<and> p < 2 ^ j * Suc m)"
  proof
    assume "p div 2 ^ j = m"
    then show "2 ^ j * m \<le> p \<and> p < 2 ^ j * Suc m"
      using dividend_less_times_div [of "2 ^ j" p] times_div_less_eq_dividend [of "2 ^ j" p]
      by auto
  next
    assume "2 ^ j * m \<le> p \<and> p < 2 ^ j * Suc m"
    then show "p div 2 ^ j = m"
      by (intro div_nat_eqI) simp_all
  qed
  then show ?thesis
    by (simp add: v add.commute)
qed

lemma mask_matches_block:
  assumes "2 ^ j dvd v" and "v + 2 ^ j \<le> 2 ^ 16"
  shows "mask_matches p (word_of_nat v, NOT (mask j)) = in_block (unat p) (v, j)"
proof -
  have v: "v < 2 ^ 16"
    using assms(2) by (metis add_lessD1 less_add_same_cancel1 less_le_trans zero_less_numeral zero_less_power)
  have u: "unat (word_of_nat v :: 16 word) = v"
    using v by (simp add: unsigned_of_nat take_bit_nat_eq_self)
  have "mask_matches p (word_of_nat v, NOT (mask j))
          = (drop_bit j p = drop_bit j (word_of_nat v :: 16 word))"
    by (simp add: mask_matches_def and_not_mask_eq_iff)
  also have "\<dots> = (unat (drop_bit j p) = unat (drop_bit j (word_of_nat v :: 16 word)))"
    by (simp add: word_unat_eq_iff)
  also have "\<dots> = (unat p div 2 ^ j = v div 2 ^ j)"
    unfolding unat_drop_bit_eq u by (simp add: drop_bit_eq_div)
  also have "\<dots> = in_block (unat p) (v, j)"
    by (simp add: div_eq_block [OF assms(1)] in_block_def)
  finally show ?thesis .
qed

text \<open>
  Claim C7. For every port range \<open>[lo, hi]\<close> the patterns of \<^verbatim>\<open>RangeMask::getMasks\<close> cover
  exactly the range: a 16-bit value matches one of the produced (value, mask) patterns
  if and only if it lies between \<open>lo\<close> and \<open>hi\<close>, both included. (For \<open>hi < lo\<close> no
  pattern is produced.)
\<close>

theorem getMasks_cover:
  "(\<exists>m \<in> set (getMasks lo hi). mask_matches p m) = (lo \<le> p \<and> p \<le> hi)"
proof -
  have m: "mask_matches p (word_of_nat (fst b), NOT (mask (snd b))) = in_block (unat p) b"
    if "b \<in> set (masks_in 16 0 (unat lo) (unat hi))" for b
  proof -
    have "2 ^ snd b dvd fst b"
      using masks_in_aligned [OF that] by simp
    moreover have "fst b + 2 ^ snd b \<le> 2 ^ 16"
      using masks_in_bounds [OF that] by simp
    ultimately show ?thesis
      using mask_matches_block [of "snd b" "fst b" p] by simp
  qed
  have "(\<exists>m \<in> set (getMasks lo hi). mask_matches p m)
          = (\<exists>b \<in> set (masks_in 16 0 (unat lo) (unat hi)). in_block (unat p) b)"
    by (simp add: getMasks_def case_prod_beta m cong: bex_cong)
  also have "\<dots> = (unat lo \<le> unat p \<and> unat p \<le> unat hi)"
  proof (rule masks_in_cover)
    show "unat p < 0 + 2 ^ 16"
      using unsigned_less [of p, where 'a = nat] by simp
  qed simp
  also have "\<dots> = (lo \<le> p \<and> p \<le> hi)"
    by (simp add: word_le_nat_alt)
  finally show ?thesis .
qed

subsection \<open>Callbacks after stop\<close>

lemma foldl_endpointUpdated_stopping:
  "stopping s \<Longrightarrow> foldl (\<lambda>st ep. endpointUpdated ep st) s eps = s"
  by (induction eps) (simp_all add: endpointUpdated_def)

lemma lbIfaceUpdated_stopping: "stopping s \<Longrightarrow> lbIfaceUpdated E uuid s = s"
  by (simp add: lbIfaceUpdated_def foldl_endpointUpdated_stopping split: option.splits)

lemma callback_stopping:
  assumes "stopping s" and "is_callback ev"
  shows "step E ev s = s"
  using assms
  by (cases ev)
     (simp_all add: step_def endpointUpdated_def dscpQosUpdated_def secGroupSetUpdated_def
        secGroupUpdated_def configUpdated_def portStatusUpdate_def
        packetDropLogConfigUpdated_def packetDropFlowConfigUpdated_def
        lbIfaceUpdated_stopping)

text \<open>
  Claim C8. After \<^verbatim>\<open>stop\<close>, any sequence of listener callbacks (endpointUpdated,
  dscpQosUpdated, secGroupSetUpdated, secGroupUpdated, configUpdated, portStatusUpdate,
  packetDropLogConfigUpdated, packetDropFlowConfigUpdated, lbIfaceUpdated), whatever the
  collaborators hold when each arrives, leaves the manager as \<^verbatim>\<open>stop\<close> left it: no call
  on the switch manager is made, no flow or TLV changes, and no task is queued that could
  write one later.
\<close>

theorem events_after_stop_dropped:
  assumes "\<forall>x \<in> set evs. is_callback (snd x)"
  shows "run evs (stop s) = stop s
       \<and> swcalls (run evs (stop s)) = swcalls s
       \<and> flows (run evs (stop s)) = flows s
       \<and> tlvs (run evs (stop s)) = tlvs s
       \<and> taskQueue (run evs (stop s)) = taskQueue s"
proof -
  have "stopping s0 \<Longrightarrow> \<forall>x \<in> set evs. is_callback (snd x) \<Longrightarrow> run evs s0 = s0" for s0
  proof (induction evs arbitrary: s0)
    case Nil
    then show ?case by simp
  next
    case (Cons x evs)
    obtain E ev where x: "x = (E, ev)" by (cases x)
    with Cons.prems have "step E ev s0 = s0"
      by (simp add: callback_stopping)
    with Cons x show ?case by simp
  qed
  moreover have "stopping (stop s)" by (simp add: stop_def)
  ultimately have "run evs (stop s) = stop s" using assms by blast
  then show ?thesis by (simp add: stop_def)
qed

theorem events_after_stop_dropped_witness:
  "is_callback (EndpointUpdated ''ep1'') \<and> is_callback (LbIfaceUpdated ''lb1'')
   \<and> is_callback (PacketDropLogConfigUpdated ''/cfg/'')
   \<and> swcalls (run [(example_env, EndpointUpdated ''ep1''), (example_env, LbIfaceUpdated ''lb1''),
                   (example_env, PacketDropLogConfigUpdated ''/cfg/'')]
        (stop (new_AccessFlowManager example_idGen example_ctZoneManager))) = []
   \<and> taskQueue (run [(example_env, EndpointUpdated ''ep1''), (example_env, LbIfaceUpdated ''lb1''),
                   (example_env, PacketDropLogConfigUpdated ''/cfg/'')]
        (stop (new_AccessFlowManager example_idGen example_ctZoneManager))) = []"
proof -
  let ?evs = "[(example_env, EndpointUpdated ''ep1''), (example_env, LbIfaceUpdated ''lb1''),
               (example_env, PacketDropLogConfigUpdated ''/cfg/'')]"
  let ?s = "new_AccessFlowManager example_idGen example_ctZoneManager"
  have cb: "\<forall>x \<in> set ?evs. is_callback (snd x)"
    by simp
  note r = events_after_stop_dropped [OF cb, of ?s]
  have "swcalls (run ?evs (stop ?s)) = swcalls ?s"
    using r by (rule conjunct1 [OF conjunct2])
  moreover have "taskQueue (run ?evs (stop ?s)) = taskQueue ?s"
    using r by (rule conjunct2 [OF conjunct2 [OF conjunct2 [OF conjunct2]]])
  moreover have "swcalls ?s = []" and "taskQueue ?s = []"
    by (simp_all add: new_AccessFlowManager_def)
  ultimately show ?thesis
    by simp
qed

subsection \<open>Rules without remote subnets\<close>

lemma l2_only_rule_entries:
  "l2_only E pc \<Longrightarrow> rule_entries E sid it et ait aet sys ck pc refs = refs"
  by (simp add: l2_only_def rule_entries_def Let_def add_l2classifier_entries_def)

lemma l2_only_rule_step:
  "l2_only E pc \<Longrightarrow>
   rule_step E sid sys L pc =
     L\<lparr>any_system_sec_rule_configured := (sys \<or> any_system_sec_rule_configured L),
       lists_idGen := snd (getId ''l24classifierRule'' (cls_uri (pr_l24Classifier pc))
                            (lists_idGen L))\<rparr>"
  by (simp add: l2_only_rule_entries rule_step_def Let_def split: prod.splits)

lemma l2_only_foldl_rule_step:
  "\<forall>r \<in> set rules. l2_only E r \<Longrightarrow>
   secGrpIn (foldl (rule_step E sid sys) L rules) = secGrpIn L
   \<and> secGrpOut (foldl (rule_step E sid sys) L rules) = secGrpOut L
   \<and> sysSecGrpIn (foldl (rule_step E sid sys) L rules) = sysSecGrpIn L
   \<and> sysSecGrpOut (foldl (rule_step E sid sys) L rules) = sysSecGrpOut L
   \<and> any_system_sec_rule_configured (foldl (rule_step E sid sys) L rules)
       = (any_system_sec_rule_configured L \<or> (sys \<and> rules \<noteq> []))"
proof (induction rules arbitrary: L)
  case Nil
  then show ?case by simp
next
  case (Cons pc rules)
  have pc: "l2_only E pc" and rest: "\<forall>r \<in> set rules. l2_only E r"
    using Cons.prems by simp_all
  show ?case
    unfolding foldl_Cons l2_only_rule_step [OF pc]
    using Cons.IH [OF rest] by auto
qed

lemma l2_only_foldl_group_step:
  "\<forall>g \<in> set secGrps. \<forall>r \<in> set (polMgr_getSecGroupRules E g). l2_only E r \<Longrightarrow>
   secGrpIn (foldl (group_step E sid) L secGrps) = secGrpIn L
   \<and> secGrpOut (foldl (group_step E sid) L secGrps) = secGrpOut L
   \<and> sysSecGrpIn (foldl (group_step E sid) L secGrps) = sysSecGrpIn L
   \<and> sysSecGrpOut (foldl (group_step E sid) L secGrps) = sysSecGrpOut L
   \<and> any_system_sec_rule_configured (foldl (group_step E sid) L secGrps)
       = (any_system_sec_rule_configured L \<or> system_rule_in E secGrps)"
proof (induction secGrps arbitrary: L)
  case Nil
  then show ?case by (simp add: system_rule_in_def)
next
  case (Cons g secGrps)
  have g: "\<forall>r \<in> set (polMgr_getSecGroupRules E g). l2_only E r"
    and rest: "\<forall>g \<in> set secGrps. \<forall>r \<in> set (polMgr_getSecGroupRules E g). l2_only E r"
    using Cons.prems by simp_all
  note s = l2_only_foldl_rule_step [OF g, of sid "checkIfSystemSecurityGroup E g" L]
  have gs: "group_step E sid L g
      = foldl (rule_step E sid (checkIfSystemSecurityGroup E g)) L (polMgr_getSecGroupRules E g)"
    by (simp add: group_step_def Let_def)
  show ?case
    unfolding foldl_Cons
    using Cons.IH [OF rest, of "group_step E sid L g"] s
    by (auto simp: gs system_rule_in_def)
qed

lemma handleSecGrpSetUpdate_l2_only:
  assumes l2: "\<forall>g \<in> set secGrps. \<forall>r \<in> set (polMgr_getSecGroupRules E g). l2_only E r"
    and ne: "\<not> epMgr_secGrpSetEmpty E secGrps"
  shows "swcalls (handleSecGrpSetUpdate E secGrps idStr s) =
      swcalls s @ [WriteFlow idStr SEC_GROUP_IN_TABLE_ID [],
                   WriteFlow idStr SEC_GROUP_OUT_TABLE_ID []]
        @ (if system_rule_in E secGrps
           then [WriteFlow ''SystemDropLogFlow'' SYS_SEC_GRP_IN_TABLE_ID
                   [systemDropLogFlow (env_consts E) SYS_SEC_GRP_IN_TABLE_ID],
                 WriteFlow ''SystemDropLogFlow'' SYS_SEC_GRP_OUT_TABLE_ID
                   [systemDropLogFlow (env_consts E) SYS_SEC_GRP_OUT_TABLE_ID],
                 WriteFlow idStr SYS_SEC_GRP_IN_TABLE_ID [],
                 WriteFlow idStr SYS_SEC_GRP_OUT_TABLE_ID []]
           else [ClearFlows idStr SYS_SEC_GRP_IN_TABLE_ID,
                 ClearFlows idStr SYS_SEC_GRP_OUT_TABLE_ID,
                 ClearFlows ''SystemDropLogFlow'' SYS_SEC_GRP_IN_TABLE_ID,
                 ClearFlows ''SystemDropLogFlow'' SYS_SEC_GRP_OUT_TABLE_ID])"
    and "idStr \<noteq> ''SystemDropLogFlow'' \<Longrightarrow>
         flows (handleSecGrpSetUpdate E secGrps idStr s)
               (''SystemDropLogFlow'', SYS_SEC_GRP_IN_TABLE_ID)
           = (if system_rule_in E secGrps
              then [systemDropLogFlow (env_consts E) SYS_SEC_GRP_IN_TABLE_ID] else [])"
    and "idStr \<noteq> ''SystemDropLogFlow'' \<Longrightarrow>
         flows (handleSecGrpSetUpdate E secGrps idStr s)
               (''SystemDropLogFlow'', SYS_SEC_GRP_OUT_TABLE_ID)
           = (if system_rule_in E secGrps
              then [systemDropLogFlow (env_consts E) SYS_SEC_GRP_OUT_TABLE_ID] else [])"
proof -
  obtain sid g where g: "getId ID_NMSPC_SECGROUP_SET idStr (idGen s) = (sid, g)"
    by (cases "getId ID_NMSPC_SECGROUP_SET idStr (idGen s)")
  define L where "L = foldl (group_step E sid) (empty_lists g) secGrps"
  note f = l2_only_foldl_group_step [OF l2, of sid "empty_lists g", folded L_def]
  have L: "secGrpIn L = []" "secGrpOut L = []" "sysSecGrpIn L = []" "sysSecGrpOut L = []"
    "any_system_sec_rule_configured L = system_rule_in E secGrps"
    using f by (simp_all add: empty_lists_def)
  have h: "handleSecGrpSetUpdate E secGrps idStr s =
      (let s1 = s\<lparr>idGen := lists_idGen L\<rparr>;
           s2 = writeFlow idStr SEC_GROUP_IN_TABLE_ID [] s1;
           s3 = writeFlow idStr SEC_GROUP_OUT_TABLE_ID [] s2
       in if system_rule_in E secGrps
          then writeFlow idStr SYS_SEC_GRP_OUT_TABLE_ID []
                 (writeFlow idStr SYS_SEC_GRP_IN_TABLE_ID []
                    (writeFlow ''SystemDropLogFlow'' SYS_SEC_GRP_OUT_TABLE_ID
                       [systemDropLogFlow (env_consts E) SYS_SEC_GRP_OUT_TABLE_ID]
                       (writeFlow ''SystemDropLogFlow'' SYS_SEC_GRP_IN_TABLE_ID
                          [systemDropLogFlow (env_consts E) SYS_SEC_GRP_IN_TABLE_ID] s3)))
          else clearFlows ''SystemDropLogFlow'' SYS_SEC_GRP_OUT_TABLE_ID
                 (clearFlows ''SystemDropLogFlow'' SYS_SEC_GRP_IN_TABLE_ID
                    (clearFlows idStr SYS_SEC_GRP_OUT_TABLE_ID
                       (clearFlows idStr SYS_SEC_GRP_IN_TABLE_ID s3))))"
    using ne g
    by (simp add: handleSecGrpSetUpdate_def Let_def empty_lists_def [symmetric]
          L_def [symmetric] L)
  show "swcalls (handleSecGrpSetUpdate E secGrps idStr s) =
      swcalls s @ [WriteFlow idStr SEC_GROUP_IN_TABLE_ID [],
                   WriteFlow idStr SEC_GROUP_OUT_TABLE_ID []]
        @ (if system_rule_in E secGrps
           then [WriteFlow ''SystemDropLogFlow'' SYS_SEC_GRP_IN_TABLE_ID
                   [systemDropLogFlow (env_consts E) SYS_SEC_GRP_IN_TABLE_ID],
                 WriteFlow ''SystemDropLogFlow'' SYS_SEC_GRP_OUT_TABLE_ID
                   [systemDropLogFlow (env_consts E) SYS_SEC_GRP_OUT_TABLE_ID],
                 WriteFlow idStr SYS_SEC_GRP_IN_TABLE_ID [],
                 WriteFlow idStr SYS_SEC_GRP_OUT_TABLE_ID []]
           else [ClearFlows idStr SYS_SEC_GRP_IN_TABLE_ID,
                 ClearFlows idStr SYS_SEC_GRP_OUT_TABLE_ID,
                 ClearFlows ''SystemDropLogFlow'' SYS_SEC_GRP_IN_TABLE_ID,
                 ClearFlows ''SystemDropLogFlow'' SYS_SEC_GRP_OUT_TABLE_ID])"
    unfolding h by (simp add: Let_def writeFlow_def clearFlows_def)
  show "flows (handleSecGrpSetUpdate E secGrps idStr s)
               (''SystemDropLogFlow'', SYS_SEC_GRP_IN_TABLE_ID)
           = (if system_rule_in E secGrps
              then [systemDropLogFlow (env_consts E) SYS_SEC_GRP_IN_TABLE_ID] else [])"
    if "idStr \<noteq> ''SystemDropLogFlow''"
    unfolding h using that by (simp add: Let_def writeFlow_def clearFlows_def)
  show "flows (handleSecGrpSetUpdate E secGrps idStr s)
               (''SystemDropLogFlow'', SYS_SEC_GRP_OUT_TABLE_ID)
           = (if system_rule_in E secGrps
              then [systemDropLogFlow (env_consts E) SYS_SEC_GRP_OUT_TABLE_ID] else [])"
    if "idStr \<noteq> ''SystemDropLogFlow''"
    unfolding h using that by (simp add: Let_def writeFlow_def clearFlows_def)
qed


text \<open>
  Claim C9, as the code has it. A rule without remote subnets and without named service
  ports, whose classifier has an IP protocol set, appends no entry to any of the four
  entry lists of \<^verbatim>\<open>handleSecGrpSetUpdate\<close> when the agent does not add L3/L4 flows
  without subnet: whatever the direction, the allow flag, the tables and the group kind,
  the ingress and the egress list come back unchanged. All that the loop body does for
  such a rule is to allocate the cookie of its classifier and, for a rule of a system
  group, to mark the set as having a system rule. For a set with such rules only, the
  handler therefore writes empty lists under the key of the set, and, when a system
  group of the set has a rule, the drop-log flow under the key \<open>SystemDropLogFlow\<close> into
  SYS_SEC_GRP_IN and SYS_SEC_GRP_OUT; it makes no other call on the switch manager.
\<close>

theorem l2_only_rule_no_entries:
  assumes "pr_remoteSubnets pc = []" and "pr_namedServicePorts pc = []"
    and "\<not> agent_addL34FlowsWithoutSubnet E"
    and "cls_prot (pr_l24Classifier pc) \<noteq> None"
  shows "rule_entries E secGrpSetId ingress_table egress_table after_ingress_table
           after_egress_table isSystemRule secGrpCookie pc refs = refs
       \<and> secGrpIn (rule_step E secGrpSetId system_sec_group L pc) = secGrpIn L
       \<and> secGrpOut (rule_step E secGrpSetId system_sec_group L pc) = secGrpOut L
       \<and> sysSecGrpIn (rule_step E secGrpSetId system_sec_group L pc) = sysSecGrpIn L
       \<and> sysSecGrpOut (rule_step E secGrpSetId system_sec_group L pc) = sysSecGrpOut L
       \<and> rule_step E secGrpSetId system_sec_group L pc =
           L\<lparr>any_system_sec_rule_configured :=
                (system_sec_group \<or> any_system_sec_rule_configured L),
             lists_idGen := snd (getId ''l24classifierRule'' (cls_uri (pr_l24Classifier pc))
                                  (lists_idGen L))\<rparr>
       \<and> ((\<forall>g \<in> set secGrps. \<forall>r \<in> set (polMgr_getSecGroupRules E g). l2_only E r)
            \<and> \<not> epMgr_secGrpSetEmpty E secGrps \<longrightarrow>
          swcalls (handleSecGrpSetUpdate E secGrps idStr s) =
            swcalls s @ [WriteFlow idStr SEC_GROUP_IN_TABLE_ID [],
                         WriteFlow idStr SEC_GROUP_OUT_TABLE_ID []]
              @ (if system_rule_in E secGrps
                 then [WriteFlow ''SystemDropLogFlow'' SYS_SEC_GRP_IN_TABLE_ID
                         [systemDropLogFlow (env_consts E) SYS_SEC_GRP_IN_TABLE_ID],
                       WriteFlow ''SystemDropLogFlow'' SYS_SEC_GRP_OUT_TABLE_ID
                         [systemDropLogFlow (env_consts E) SYS_SEC_GRP_OUT_TABLE_ID],
                       WriteFlow idStr SYS_SEC_GRP_IN_TABLE_ID [],
                       WriteFlow idStr SYS_SEC_GRP_OUT_TABLE_ID []]
                 else [ClearFlows idStr SYS_SEC_GRP_IN_TABLE_ID,
                       ClearFlows idStr SYS_SEC_GRP_OUT_TABLE_ID,
                       ClearFlows ''SystemDropLogFlow'' SYS_SEC_GRP_IN_TABLE_ID,
                       ClearFlows ''SystemDropLogFlow'' SYS_SEC_GRP_OUT_TABLE_ID]))"
proof -
  have l2: "l2_only E pc"
    using assms by (simp add: l2_only_def)
  note rs = l2_only_rule_step [OF l2, of secGrpSetId system_sec_group L]
  show ?thesis
    using l2_only_rule_entries [OF l2] handleSecGrpSetUpdate_l2_only(1) [of secGrps E idStr s]
    by (simp add: rs)
qed

lemma example_l2_rule:
  "pr_remoteSubnets (example_rule\<lparr>pr_remoteSubnets := []\<rparr>) = []"
  "pr_namedServicePorts (example_rule\<lparr>pr_remoteSubnets := []\<rparr>) = []"
  "cls_prot (pr_l24Classifier (example_rule\<lparr>pr_remoteSubnets := []\<rparr>)) = Some 6"
  "l2_only (example_sys_env rules) (example_rule\<lparr>pr_remoteSubnets := []\<rparr>)"
  by (simp_all add: example_rule_def example_classifier_def l2_only_def
        example_sys_env_fields)

lemma example_rule_prot: "cls_prot (pr_l24Classifier example_rule) = Some 6"
  by (simp add: example_rule_def example_classifier_def)

lemma example_sys_group_system:
  "checkIfSystemSecurityGroup (example_sys_env rules) example_sys_group"
  using example_sys_group_sublist
  by (simp add: checkIfSystemSecurityGroup_iff example_sys_domain_token)

lemma example_system_rule_in:
  "system_rule_in (example_sys_env rules) [example_sys_group] = (rules \<noteq> [])"
  by (simp add: system_rule_in_def example_sys_group_system example_sys_env_fields)

lemma example_sys_env_not_empty: "\<not> epMgr_secGrpSetEmpty (example_sys_env rules) secGrps"
  by (simp add: example_sys_env_def example_env_def)

theorem l2_only_rule_no_entries_witness:
  "pr_remoteSubnets (example_rule\<lparr>pr_remoteSubnets := []\<rparr>) = []
   \<and> pr_namedServicePorts (example_rule\<lparr>pr_remoteSubnets := []\<rparr>) = []
   \<and> \<not> agent_addL34FlowsWithoutSubnet (example_sys_env [example_rule\<lparr>pr_remoteSubnets := []\<rparr>])
   \<and> cls_prot (pr_l24Classifier (example_rule\<lparr>pr_remoteSubnets := []\<rparr>)) = Some 6
   \<and> rule_entries (example_sys_env [example_rule\<lparr>pr_remoteSubnets := []\<rparr>]) 1
        SYS_SEC_GRP_IN_TABLE_ID SYS_SEC_GRP_OUT_TABLE_ID SEC_GROUP_IN_TABLE_ID
        SEC_GROUP_OUT_TABLE_ID True 7 (example_rule\<lparr>pr_remoteSubnets := []\<rparr>) ([], [])
       = ([], [])
   \<and> any_system_sec_rule_configured
        (rule_step (example_sys_env [example_rule\<lparr>pr_remoteSubnets := []\<rparr>]) 1 True
           (empty_lists example_idGen) (example_rule\<lparr>pr_remoteSubnets := []\<rparr>))
   \<and> swcalls (handleSecGrpSetUpdate (example_sys_env [example_rule\<lparr>pr_remoteSubnets := []\<rparr>])
                 [example_sys_group] example_sys_group
                 (new_AccessFlowManager example_idGen example_ctZoneManager))
       = [WriteFlow example_sys_group SEC_GROUP_IN_TABLE_ID [],
          WriteFlow example_sys_group SEC_GROUP_OUT_TABLE_ID [],
          WriteFlow ''SystemDropLogFlow'' SYS_SEC_GRP_IN_TABLE_ID
            [systemDropLogFlow example_consts SYS_SEC_GRP_IN_TABLE_ID],
          WriteFlow ''SystemDropLogFlow'' SYS_SEC_GRP_OUT_TABLE_ID
            [systemDropLogFlow example_consts SYS_SEC_GRP_OUT_TABLE_ID],
          WriteFlow example_sys_group SYS_SEC_GRP_IN_TABLE_ID [],
          WriteFlow example_sys_group SYS_SEC_GRP_OUT_TABLE_ID []]"
proof -
  let ?R = "example_rule\<lparr>pr_remoteSubnets := []\<rparr>"
  let ?E = "example_sys_env [?R]"
  let ?s = "new_AccessFlowManager example_idGen example_ctZoneManager"
  have p: "cls_prot (pr_l24Classifier ?R) \<noteq> None"
    by (simp add: example_rule_prot)
  have a: "\<not> agent_addL34FlowsWithoutSubnet ?E"
    by (simp add: example_sys_env_fields)
  note t = l2_only_rule_no_entries [OF example_l2_rule(1,2) a p,
      where secGrpSetId = 1 and ingress_table = SYS_SEC_GRP_IN_TABLE_ID
        and egress_table = SYS_SEC_GRP_OUT_TABLE_ID
        and after_ingress_table = SEC_GROUP_IN_TABLE_ID
        and after_egress_table = SEC_GROUP_OUT_TABLE_ID and isSystemRule = True
        and secGrpCookie = 7 and refs = "([], [])" and system_sec_group = True
        and L = "empty_lists example_idGen" and secGrps = "[example_sys_group]"
        and idStr = example_sys_group and s = ?s]
  have r: "rule_entries ?E 1 SYS_SEC_GRP_IN_TABLE_ID SYS_SEC_GRP_OUT_TABLE_ID
             SEC_GROUP_IN_TABLE_ID SEC_GROUP_OUT_TABLE_ID True 7 ?R ([], []) = ([], [])"
    using t by (rule conjunct1)
  have f: "any_system_sec_rule_configured (rule_step ?E 1 True (empty_lists example_idGen) ?R)"
    using t by simp
  have h: "\<forall>g \<in> set [example_sys_group]. \<forall>r \<in> set (polMgr_getSecGroupRules ?E g).
             l2_only ?E r"
    by (simp add: example_sys_env_fields example_l2_rule)
  have w: "swcalls (handleSecGrpSetUpdate ?E [example_sys_group] example_sys_group ?s)
       = [WriteFlow example_sys_group SEC_GROUP_IN_TABLE_ID [],
          WriteFlow example_sys_group SEC_GROUP_OUT_TABLE_ID [],
          WriteFlow ''SystemDropLogFlow'' SYS_SEC_GRP_IN_TABLE_ID
            [systemDropLogFlow example_consts SYS_SEC_GRP_IN_TABLE_ID],
          WriteFlow ''SystemDropLogFlow'' SYS_SEC_GRP_OUT_TABLE_ID
            [systemDropLogFlow example_consts SYS_SEC_GRP_OUT_TABLE_ID],
          WriteFlow example_sys_group SYS_SEC_GRP_IN_TABLE_ID [],
          WriteFlow example_sys_group SYS_SEC_GRP_OUT_TABLE_ID []]"
    using t h example_sys_env_not_empty [of "[?R]" "[example_sys_group]"]
    by (simp add: example_system_rule_in example_sys_env_fields new_AccessFlowManager_def)
  show ?thesis
    using r f w a by (simp add: example_l2_rule example_rule_prot)
qed

text \<open>
  The claim as stated fails for a system group: with the L2-only rule of the example as
  the only rule of the system group, \<^verbatim>\<open>handleSecGrpSetUpdate\<close> leaves one flow under
  \<open>SystemDropLogFlow\<close> in SYS_SEC_GRP_IN and one in SYS_SEC_GRP_OUT; without the rule it
  leaves none.
\<close>

theorem l2_only_system_rule_installs_flows:
  "pr_remoteSubnets (example_rule\<lparr>pr_remoteSubnets := []\<rparr>) = []
   \<and> pr_namedServicePorts (example_rule\<lparr>pr_remoteSubnets := []\<rparr>) = []
   \<and> \<not> agent_addL34FlowsWithoutSubnet (example_sys_env [example_rule\<lparr>pr_remoteSubnets := []\<rparr>])
   \<and> cls_prot (pr_l24Classifier (example_rule\<lparr>pr_remoteSubnets := []\<rparr>)) = Some 6
   \<and> polMgr_getSecGroupRules (example_sys_env [example_rule\<lparr>pr_remoteSubnets := []\<rparr>])
        example_sys_group = [example_rule\<lparr>pr_remoteSubnets := []\<rparr>]
   \<and> flows (handleSecGrpSetUpdate (example_sys_env [example_rule\<lparr>pr_remoteSubnets := []\<rparr>])
               [example_sys_group] example_sys_group
               (new_AccessFlowManager example_idGen example_ctZoneManager))
            (''SystemDropLogFlow'', SYS_SEC_GRP_IN_TABLE_ID)
       = [systemDropLogFlow example_consts SYS_SEC_GRP_IN_TABLE_ID]
   \<and> flows (handleSecGrpSetUpdate (example_sys_env [example_rule\<lparr>pr_remoteSubnets := []\<rparr>])
               [example_sys_group] example_sys_group
               (new_AccessFlowManager example_idGen example_ctZoneManager))
            (''SystemDropLogFlow'', SYS_SEC_GRP_OUT_TABLE_ID)
       = [systemDropLogFlow example_consts SYS_SEC_GRP_OUT_TABLE_ID]
   \<and> flows (handleSecGrpSetUpdate (example_sys_env []) [example_sys_group] example_sys_group
               (new_AccessFlowManager example_idGen example_ctZoneManager))
            (''SystemDropLogFlow'', SYS_SEC_GRP_IN_TABLE_ID) = []
   \<and> flows (handleSecGrpSetUpdate (example_sys_env []) [example_sys_group] example_sys_group
               (new_AccessFlowManager example_idGen example_ctZoneManager))
            (''SystemDropLogFlow'', SYS_SEC_GRP_OUT_TABLE_ID) = []"
proof -
  let ?R = "example_rule\<lparr>pr_remoteSubnets := []\<rparr>"
  let ?s = "new_AccessFlowManager example_idGen example_ctZoneManager"
  have k: "example_sys_group \<noteq> ''SystemDropLogFlow''"
    by (simp add: example_sys_group_def)
  have h: "\<forall>g \<in> set [example_sys_group].
             \<forall>r \<in> set (polMgr_getSecGroupRules (example_sys_env rules) g).
               l2_only (example_sys_env rules) r"
    if "set rules \<subseteq> {?R}" for rules
    using that by (auto simp: example_sys_env_fields example_l2_rule)
  note with_rule = handleSecGrpSetUpdate_l2_only(2,3)
      [OF h example_sys_env_not_empty k, of "[?R]" ?s, simplified]
  note without = handleSecGrpSetUpdate_l2_only(2,3)
      [OF h example_sys_env_not_empty k, of "[]" ?s, simplified]
  show ?thesis
    using with_rule without
    by (simp add: example_system_rule_in example_sys_env_fields example_l2_rule
          example_rule_prot)
qed

subsection \<open>TCP flag variants\<close>

lemma match_tcp_flags_eq:
  "match_tcp_flags K v f = f\<lparr>m_tcpFlags := Some (of_tcp_flags K v, of_tcp_flags K v)\<rparr>"
  by (simp add: match_tcp_flags_def of_tcp_flags_def Let_def)

lemma applyRemoteSub_tcp:
  "applyRemoteSub addr pl (f\<lparr>m_tcpFlags := x\<rparr>) e = map_option (\<lambda>g. g\<lparr>m_tcpFlags := x\<rparr>) (applyRemoteSub addr pl f e)"
  by (simp add: applyRemoteSub_def)

lemma applyServicePort_tcp:
  "applyServicePort addr pl pr po (f\<lparr>m_tcpFlags := x\<rparr>) e = map_option (\<lambda>g. g\<lparr>m_tcpFlags := x\<rparr>) (applyServicePort addr pl pr po f e)"
  by (simp add: applyServicePort_def servicePort_def Let_def)

lemma src_func_tcp:
  "apply_flow_func (make_flow_functor_sub fs ss) (f\<lparr>m_tcpFlags := x\<rparr>) e
     = map_option (\<lambda>g. g\<lparr>m_tcpFlags := x\<rparr>) (apply_flow_func (make_flow_functor_sub fs ss) f e)"
  by (simp add: apply_flow_func_def make_flow_functor_sub_def applyRemoteSub_tcp split: option.splits)

lemma dst_func_tcp:
  "apply_flow_func (make_flow_functor_sp fs ds) (f\<lparr>m_tcpFlags := x\<rparr>) e
     = map_option (\<lambda>g. g\<lparr>m_tcpFlags := x\<rparr>) (apply_flow_func (make_flow_functor_sp fs ds) f e)"
  by (simp add: apply_flow_func_def make_flow_functor_sp_def applyServicePort_tcp split: option.splits)

lemma l34_match_tcp:
  assumes "a = CA_ALLOW \<or> a = CA_REFLEX_FWD_TRACK \<or> a = CA_REFLEX_FWD \<or> a = CA_REFLEX_FWD_EST"
    and "tf \<noteq> TcpFlags_UNSPECIFIED K"
  shows "l34_match K a log nt ct ck tf (make_flow_functor_sub fs ss) (make_flow_functor_sp fs ds) sm dm fm e f
       = map_option (\<lambda>g. g\<lparr>m_tcpFlags := Some (of_tcp_flags K fm, of_tcp_flags K fm)\<rparr>)
          (l34_match K a log nt ct ck tf (make_flow_functor_sub fs ss) (make_flow_functor_sp fs ds) sm dm fm0 e f)"
proof -
  have a: "a \<noteq> CA_DENY" using assms(1) by auto
  show ?thesis
  proof (cases "apply_flow_func (make_flow_functor_sub fs ss) f e")
    case None
    then show ?thesis using a assms
      by (simp add: l34_match_def match_tcp_flags_eq src_func_tcp)
  next
    case (Some g2)
    note s = Some
    show ?thesis
    proof (cases "apply_flow_func (make_flow_functor_sp fs ds) g2 e")
      case None
      then show ?thesis using a assms s
        by (simp add: l34_match_def match_tcp_flags_eq src_func_tcp dst_func_tcp)
    next
      case (Some g3)
      then show ?thesis using a assms s
        by (simp add: l34_match_def match_tcp_flags_eq src_func_tcp dst_func_tcp isTpDst_def Let_def)
    qed
  qed
qed

lemma final_actions_tcp:
  "final_actions a log nt ct dt ck sys (f\<lparr>m_tcpFlags := x\<rparr>)
     = (final_actions a log nt ct dt ck sys f)\<lparr>m_tcpFlags := x\<rparr>"
  by (simp add: final_actions_def add_act_def Let_def)

lemma classifier_flow_tcp:
  assumes "a = CA_ALLOW \<or> a = CA_REFLEX_FWD_TRACK \<or> a = CA_REFLEX_FWD \<or> a = CA_REFLEX_FWD_EST"
    and "getOr (TcpFlags_UNSPECIFIED K) (cls_tcpFlags clsfr) \<noteq> TcpFlags_UNSPECIFIED K"
  shows "classifier_flow K clsfr a log nt ct dt prio fl ck sv dv sys
           (make_flow_functor_sub fs ss) (make_flow_functor_sp fs ds) sm dm fm
       = map_option (\<lambda>g. g\<lparr>m_tcpFlags := Some (of_tcp_flags K fm, of_tcp_flags K fm)\<rparr>)
          (classifier_flow K clsfr a log nt ct dt prio fl ck sv dv sys
           (make_flow_functor_sub fs ss) (make_flow_functor_sp fs ds) sm dm fm0)"
proof -
  define tf where "tf = getOr (TcpFlags_UNSPECIFIED K) (cls_tcpFlags clsfr)"
  define mp where "mp = match_protocol clsfr (match_group prio sv dv
      (ct_match a (FlowBuilder0\<lparr>fb_cookie := ovs_htonll ck, fb_flags := fl\<rparr>)))"
  have tf: "tf \<noteq> TcpFlags_UNSPECIFIED K" using assms(2) by (simp add: tf_def)
  have cf: "classifier_flow K clsfr a log nt ct dt prio fl ck sv dv sys
           (make_flow_functor_sub fs ss) (make_flow_functor_sp fs ds) sm dm m
       = map_option (final_actions a log nt ct dt ck sys)
           (l34_match K a log nt ct ck tf (make_flow_functor_sub fs ss)
              (make_flow_functor_sp fs ds) sm dm m (snd mp) (fst mp))" for m
    by (simp add: classifier_flow_def Let_def tf_def mp_def split: option.splits)
  have e: "l34_match K a log nt ct ck tf (make_flow_functor_sub fs ss)
              (make_flow_functor_sp fs ds) sm dm fm (snd mp) (fst mp)
       = map_option (\<lambda>g. g\<lparr>m_tcpFlags := Some (of_tcp_flags K fm, of_tcp_flags K fm)\<rparr>)
          (l34_match K a log nt ct ck tf (make_flow_functor_sub fs ss)
              (make_flow_functor_sp fs ds) sm dm fm0 (snd mp) (fst mp))"
    by (rule l34_match_tcp [OF assms(1) tf])
  show ?thesis
    unfolding cf e
    by (simp add: option.map_comp comp_def final_actions_tcp)
qed


lemma of_tcp_flags_ACK: "TcpFlagsEnumT_ok K \<Longrightarrow> of_tcp_flags K (TcpFlags_ACK K) = 0x10"
  by (simp add: TcpFlagsEnumT_ok_def of_tcp_flags_def and.commute)

lemma of_tcp_flags_RST: "TcpFlagsEnumT_ok K \<Longrightarrow> of_tcp_flags K (TcpFlags_RST K) = 0x04"
  by (simp add: TcpFlagsEnumT_ok_def of_tcp_flags_def and.commute)

lemma concat_map_if:
  "concat (map (\<lambda>c. if P c then f c else []) xs) = concat (map f (filter P xs))"
  by (induction xs) simp_all

lemma concat_map_concat_list:
  "concat (map f (concat xss)) = concat (map (\<lambda>xs. concat (map f xs)) xss)"
  by (induction xss) simp_all

lemma add_classifier_entries_combinations:
  assumes "a \<noteq> CA_REFLEX_REV_RELATED"
  shows "add_classifier_entries K fs gm clsfr a log src dst named nt ct dt prio fl ck sv dv sys
           entries
     = entries @ concat (map (\<lambda>c.
         classifier_combo K clsfr a log nt ct dt prio fl ck
           (if sys then 0 else sv) (if sys then 0 else dv) sys
           (make_flow_functor_sub fs (fst c)) (make_flow_functor_sp fs (fst (snd c)))
           (fst (snd (snd c))) (snd (snd (snd c))))
         (combinations gm clsfr src dst named))"
  using assms
  by (simp add: add_classifier_entries_def combinations_def Let_def concat_map_concat_list
        comp_def)


lemma classifier_combo_variants:
  assumes ok: "TcpFlagsEnumT_ok K"
    and a: "allow_family a"
    and tf: "tcpFlags = getOr (TcpFlags_UNSPECIFIED K) (cls_tcpFlags clsfr)"
    and b: "b = the (classifier_flow K clsfr a log nt ct dt prio fl ck sv dv sys
                  (make_flow_functor_sub fs ss) (make_flow_functor_sp fs ds) sm dm 0)"
    and ap: "ap = (address_applies fs (fst ss) (getOr EtherT_UNSPECIFIED (cls_etherT clsfr))
                \<and> address_applies fs (sp_address ds)
                      (getOr EtherT_UNSPECIFIED (cls_etherT clsfr)))"
    and combo: "combo = classifier_combo K clsfr a log nt ct dt prio fl ck sv dv sys
                  (make_flow_functor_sub fs ss) (make_flow_functor_sp fs ds) sm dm"
  shows "tcpFlags AND TcpFlags_ESTABLISHED K \<noteq> 0 \<Longrightarrow>
           combo = (if ap then [b\<lparr>m_tcpFlags := Some (0x10, 0x10)\<rparr>,
                                b\<lparr>m_tcpFlags := Some (0x04, 0x04)\<rparr>] else [])"
    and "tcpFlags AND TcpFlags_ESTABLISHED K = 0 \<Longrightarrow> tcpFlags \<noteq> TcpFlags_UNSPECIFIED K \<Longrightarrow>
           combo = (if ap then [b\<lparr>m_tcpFlags :=
                                   Some (of_tcp_flags K tcpFlags, of_tcp_flags K tcpFlags)\<rparr>]
                    else [])"
proof -
  let ?cf = "classifier_flow K clsfr a log nt ct dt prio fl ck sv dv sys
                  (make_flow_functor_sub fs ss) (make_flow_functor_sp fs ds) sm dm"
  have a': "a = CA_ALLOW \<or> a = CA_REFLEX_FWD_TRACK \<or> a = CA_REFLEX_FWD \<or> a = CA_REFLEX_FWD_EST"
    using a by (simp add: allow_family_def)
  have unspec0: "TcpFlags_UNSPECIFIED K = 0"
    using ok by (simp add: TcpFlagsEnumT_ok_def)
  have var: "?cf m = map_option (\<lambda>g. g\<lparr>m_tcpFlags := Some (of_tcp_flags K m, of_tcp_flags K m)\<rparr>) (?cf 0)"
    if "tcpFlags \<noteq> TcpFlags_UNSPECIFIED K" for m
    by (rule classifier_flow_tcp [OF a']) (use that in \<open>simp add: tf\<close>)
  have ex: "(\<exists>e. ?cf 0 = Some e) = ap"
    using a by (simp add: classifier_flow_Some_iff ap)
  have c0: "?cf 0 = (if ap then Some b else None)"
  proof (cases "?cf 0")
    case None
    with ex show ?thesis by auto
  next
    case (Some e)
    with ex show ?thesis by (auto simp: b)
  qed
  show "combo = (if ap then [b\<lparr>m_tcpFlags := Some (0x10, 0x10)\<rparr>,
                                b\<lparr>m_tcpFlags := Some (0x04, 0x04)\<rparr>] else [])"
    if e: "tcpFlags AND TcpFlags_ESTABLISHED K \<noteq> 0"
  proof -
    have ne: "tcpFlags \<noteq> TcpFlags_UNSPECIFIED K"
      using e unspec0 by auto
    have c: "combo = List.map_filter ?cf [TcpFlags_ACK K, TcpFlags_RST K]"
      using e by (simp add: combo classifier_combo_def tcpFlagsVec_def tf [symmetric])
    show ?thesis
      unfolding c
      by (simp add: List.map_filter_simps var [OF ne, of "TcpFlags_ACK K"]
            var [OF ne, of "TcpFlags_RST K"] c0 of_tcp_flags_ACK [OF ok]
            of_tcp_flags_RST [OF ok])
  qed
  show "combo = (if ap then [b\<lparr>m_tcpFlags :=
                                   Some (of_tcp_flags K tcpFlags, of_tcp_flags K tcpFlags)\<rparr>]
                    else [])"
    if e: "tcpFlags AND TcpFlags_ESTABLISHED K = 0" and ne: "tcpFlags \<noteq> TcpFlags_UNSPECIFIED K"
  proof -
    have c: "combo = List.map_filter ?cf [tcpFlags]"
      using e by (simp add: combo classifier_combo_def tcpFlagsVec_def tf [symmetric])
    show ?thesis
      unfolding c by (simp add: List.map_filter_simps var [OF ne, of tcpFlags] c0)
  qed
qed

text \<open>
  Claim C10. For an action of the allow family, \<^verbatim>\<open>add_classifier_entries\<close> appends to
  its list, for the combinations of source subnet, destination service port, source port
  mask and destination port mask in the order of its loops, entries for exactly those
  combinations whose addresses apply to the EtherType of the classifier. When the TCP
  flags of the classifier include ESTABLISHED, each such combination has exactly two
  entries, which differ in the TCP flag match only: the first requires the ACK bit
  (0x10), the second the RST bit (0x04); the configured value is not matched. For
  another value that is not unspecified each such combination has exactly one entry,
  which matches the OpenFlow bits of that value.
\<close>

theorem established_two_variants:
  assumes ok: "TcpFlagsEnumT_ok K"
    and a: "allow_family a"
    and tf: "tcpFlags = getOr (TcpFlags_UNSPECIFIED K) (cls_tcpFlags clsfr)"
    and ap: "applied = filter (combo_applies from_string clsfr)
                         (combinations masks clsfr sourceSub destSub destNamedAddresses)"
    and out: "out = add_classifier_entries K from_string masks clsfr a log sourceSub destSub
                      destNamedAddresses nextTable currentTable dropTable priority flags cookie
                      svnid dvnid isSystemRule entries"
  shows "(tcpFlags AND TcpFlags_ESTABLISHED K \<noteq> 0 \<longrightarrow>
            (\<exists>base. out = entries @ concat (map (\<lambda>c.
                        [base c\<lparr>m_tcpFlags := Some (0x10, 0x10)\<rparr>,
                         base c\<lparr>m_tcpFlags := Some (0x04, 0x04)\<rparr>]) applied)))
       \<and> (tcpFlags AND TcpFlags_ESTABLISHED K = 0 \<and> tcpFlags \<noteq> TcpFlags_UNSPECIFIED K \<longrightarrow>
            (\<exists>base. out = entries @ map (\<lambda>c.
                        base c\<lparr>m_tcpFlags :=
                          Some (of_tcp_flags K tcpFlags, of_tcp_flags K tcpFlags)\<rparr>) applied))"
proof -
  define base where "base = (\<lambda>c :: subnet_t \<times> service_port_t \<times> Mask \<times> Mask.
      the (classifier_flow K clsfr a log nextTable currentTable dropTable priority flags cookie
             (if isSystemRule then 0 else svnid) (if isSystemRule then 0 else dvnid)
             isSystemRule
             (make_flow_functor_sub from_string (fst c))
             (make_flow_functor_sp from_string (fst (snd c)))
             (fst (snd (snd c))) (snd (snd (snd c))) 0))"
  let ?combo = "\<lambda>c. classifier_combo K clsfr a log nextTable currentTable dropTable priority
             flags cookie
             (if isSystemRule then 0 else svnid) (if isSystemRule then 0 else dvnid)
             isSystemRule
             (make_flow_functor_sub from_string (fst c))
             (make_flow_functor_sp from_string (fst (snd c)))
             (fst (snd (snd c))) (snd (snd (snd c)))"
  have nr: "a \<noteq> CA_REFLEX_REV_RELATED"
    using a by (auto simp: allow_family_def)
  have o: "out = entries @ concat (map ?combo
              (combinations masks clsfr sourceSub destSub destNamedAddresses))"
    unfolding out by (rule add_classifier_entries_combinations [OF nr])
  note v = classifier_combo_variants [OF ok a tf refl refl refl]
  have est: "\<exists>base. out = entries @ concat (map (\<lambda>c.
                        [base c\<lparr>m_tcpFlags := Some (0x10, 0x10)\<rparr>,
                         base c\<lparr>m_tcpFlags := Some (0x04, 0x04)\<rparr>]) applied)"
    if e: "tcpFlags AND TcpFlags_ESTABLISHED K \<noteq> 0"
  proof -
    have "?combo c = (if combo_applies from_string clsfr c
                      then [base c\<lparr>m_tcpFlags := Some (0x10, 0x10)\<rparr>,
                            base c\<lparr>m_tcpFlags := Some (0x04, 0x04)\<rparr>] else [])" for c
      unfolding base_def combo_applies_def by (rule v(1) [OF e])
    then have "out = entries @ concat (map (\<lambda>c.
                        [base c\<lparr>m_tcpFlags := Some (0x10, 0x10)\<rparr>,
                         base c\<lparr>m_tcpFlags := Some (0x04, 0x04)\<rparr>]) applied)"
      unfolding o ap by (simp only: concat_map_if)
    then show ?thesis by blast
  qed
  have other: "\<exists>base. out = entries @ map (\<lambda>c.
                        base c\<lparr>m_tcpFlags :=
                          Some (of_tcp_flags K tcpFlags, of_tcp_flags K tcpFlags)\<rparr>) applied"
    if e: "tcpFlags AND TcpFlags_ESTABLISHED K = 0" and ne: "tcpFlags \<noteq> TcpFlags_UNSPECIFIED K"
  proof -
    have "?combo c = (if combo_applies from_string clsfr c
                      then [base c\<lparr>m_tcpFlags :=
                          Some (of_tcp_flags K tcpFlags, of_tcp_flags K tcpFlags)\<rparr>] else [])"
      for c
      unfolding base_def combo_applies_def by (rule v(2) [OF e ne])
    then have "out = entries @ concat (map (\<lambda>c.
                        [base c\<lparr>m_tcpFlags :=
                          Some (of_tcp_flags K tcpFlags, of_tcp_flags K tcpFlags)\<rparr>]) applied)"
      unfolding o ap by (simp only: concat_map_if)
    then have "out = entries @ map (\<lambda>c.
                        base c\<lparr>m_tcpFlags :=
                          Some (of_tcp_flags K tcpFlags, of_tcp_flags K tcpFlags)\<rparr>) applied"
      by (simp add: concat_map_singleton)
    then show ?thesis by blast
  qed
  show ?thesis using est other by blast
qed

lemma example_consts_ok: "TcpFlagsEnumT_ok example_consts"
  by (simp add: TcpFlagsEnumT_ok_def example_consts_def)

lemma masks_in_numeral:
  "masks_in (numeral n) base lo hi =
     (if hi < base \<or> base + 2 ^ numeral n \<le> lo then []
      else if lo \<le> base \<and> base + 2 ^ numeral n \<le> hi + 1 then [(base, numeral n)]
      else masks_in (pred_numeral n) base lo hi
             @ masks_in (pred_numeral n) (base + 2 ^ pred_numeral n) lo hi)"
  by (simp add: numeral_eq_Suc)

lemma example_dstPorts:
  "dstPorts example_getMasks (example_classifier\<lparr>cls_tcpFlags := Some 33\<rparr>) = [(80, 0xffff)]"
  by (simp add: dstPorts_def example_getMasks_def example_classifier_def getOr_def getMasks_def
        masks_in_numeral Let_def)

lemma example_srcPorts:
  "srcPorts example_getMasks (example_classifier\<lparr>cls_tcpFlags := Some 33\<rparr>) = [(0, 0)]"
  by (simp add: srcPorts_def example_getMasks_def example_classifier_def getOr_def Let_def)

lemma example_applied:
  "filter (combo_applies example_from_string (example_classifier\<lparr>cls_tcpFlags := Some 33\<rparr>))
     (combinations example_getMasks (example_classifier\<lparr>cls_tcpFlags := Some 33\<rparr>)
        (Some [(''10.0.0.0'', 8), (''fd00::'', 64)]) None None)
     = [((''10.0.0.0'', 8), subnet_as_service_port ALL_sub, (0, 0), (80, 0xffff))]"
proof -
  have c: "combinations example_getMasks (example_classifier\<lparr>cls_tcpFlags := Some 33\<rparr>)
        (Some [(''10.0.0.0'', 8), (''fd00::'', 64)]) None None
      = [((''10.0.0.0'', 8), subnet_as_service_port ALL_sub, (0, 0), (80, 0xffff)),
         ((''fd00::'', 64), subnet_as_service_port ALL_sub, (0, 0), (80, 0xffff))]"
    by (simp add: combinations_def example_dstPorts example_srcPorts compute_eff_sub_def
          effDestSvcPorts_def)
  show ?thesis
    unfolding c
    by (simp add: combo_applies_def address_applies_def example_from_string_def
          family_agrees_def subnet_as_service_port_def ALL_sub_def example_classifier_def
          getOr_def eth_ARP_def eth_IP_def eth_IPV6_def)
qed

theorem established_two_variants_witness:
  "TcpFlagsEnumT_ok example_consts \<and> allow_family CA_ALLOW
   \<and> getOr (TcpFlags_UNSPECIFIED example_consts)
        (cls_tcpFlags (example_classifier\<lparr>cls_tcpFlags := Some 33\<rparr>))
       AND TcpFlags_ESTABLISHED example_consts \<noteq> 0
   \<and> filter (combo_applies example_from_string (example_classifier\<lparr>cls_tcpFlags := Some 33\<rparr>))
        (combinations example_getMasks (example_classifier\<lparr>cls_tcpFlags := Some 33\<rparr>)
           (Some [(''10.0.0.0'', 8), (''fd00::'', 64)]) None None)
       = [((''10.0.0.0'', 8), subnet_as_service_port ALL_sub, (0, 0), (80, 0xffff))]
   \<and> map m_tcpFlags
        (add_classifier_entries example_consts example_from_string example_getMasks
           (example_classifier\<lparr>cls_tcpFlags := Some 33\<rparr>) CA_ALLOW False
           (Some [(''10.0.0.0'', 8), (''fd00::'', 64)]) None None
           TAP_TABLE_ID SEC_GROUP_IN_TABLE_ID EXP_DROP_TABLE_ID 10 1 7 3 0 False [])
       = [Some (0x10, 0x10), Some (0x04, 0x04)]"
proof -
  let ?c = "example_classifier\<lparr>cls_tcpFlags := Some 33\<rparr>"
  let ?out = "add_classifier_entries example_consts example_from_string example_getMasks
           ?c CA_ALLOW False (Some [(''10.0.0.0'', 8), (''fd00::'', 64)]) None None
           TAP_TABLE_ID SEC_GROUP_IN_TABLE_ID EXP_DROP_TABLE_ID 10 1 7 3 0 False []"
  have fam: "allow_family CA_ALLOW"
    by (simp add: allow_family_def)
  have est: "getOr (TcpFlags_UNSPECIFIED example_consts) (cls_tcpFlags ?c)
               AND TcpFlags_ESTABLISHED example_consts \<noteq> 0"
    by (simp add: getOr_def example_consts_def)
  from established_two_variants [OF example_consts_ok fam refl refl refl,
      where clsfr = ?c and from_string = example_from_string and masks = example_getMasks
        and sourceSub = "Some [(''10.0.0.0'', 8), (''fd00::'', 64)]" and destSub = None
        and destNamedAddresses = None and log = False and nextTable = TAP_TABLE_ID
        and currentTable = SEC_GROUP_IN_TABLE_ID and dropTable = EXP_DROP_TABLE_ID
        and priority = 10 and flags = 1 and cookie = 7 and svnid = 3 and dvnid = 0
        and isSystemRule = False and entries = "[]"]
    est
  obtain base where "?out = [] @ concat (map (\<lambda>c.
                        [base c\<lparr>m_tcpFlags := Some (0x10, 0x10)\<rparr>,
                         base c\<lparr>m_tcpFlags := Some (0x04, 0x04)\<rparr>])
        (filter (combo_applies example_from_string ?c)
           (combinations example_getMasks ?c
              (Some [(''10.0.0.0'', 8), (''fd00::'', 64)]) None None)))"
    by blast
  then have "map m_tcpFlags ?out = [Some (0x10, 0x10), Some (0x04, 0x04)]"
    unfolding example_applied by simp
  then show ?thesis
    using example_consts_ok fam est example_applied by blast
qed

end
